theory Spec2Isabelle
  imports Main "HOL-Library.Word"
begin

unbundle bit_operations_syntax

section \<open>Data model\<close>

text \<open>
  The repository holds two kernel modules that both register a filesystem called
  \<open>myfs\<close>: \<open>myfs.c\<close>, a memory filesystem written against the
  \<open>fs_context\<close> mount interface, and an older module (the unnamed file
  \<open>part_000\<close>) that mounts itself and creates a fixed tree from its init routine.
  Both keep their whole namespace in the kernel's dentry cache.  Functions of
  \<open>myfs.c\<close> keep their names; the functions of \<open>part_000\<close> that share a
  name with one of \<open>myfs.c\<close> carry the suffix \<open>_000\<close>.

  Pointers to inodes and dentries are addresses (natural numbers) into two stores.
  A return value of type \<open>int\<close> is an \<open>int\<close>: \<open>0\<close> or a negated errno.
  A kernel \<open>BUG_ON\<close> that fires and a dereference of an invalid pointer are
  faults, kept apart from the error returns.
\<close>

type_synonym umode_t = "16 word"
type_synonym dev_t = "32 word"
type_synonym iref = nat
type_synonym dref = nat

datatype fault = BUG | Oops

text \<open>The errno values of \<open>errno-base.h\<close>, \<open>errno.h\<close> and \<open>linux/errno.h\<close>.\<close>

definition EPERM :: int where "EPERM = 1"
definition ENOMEM :: int where "ENOMEM = 12"
definition EACCES :: int where "EACCES = 13"
definition EFAULT :: int where "EFAULT = 14"
definition EEXIST :: int where "EEXIST = 17"
definition EINVAL :: int where "EINVAL = 22"
definition ENOSPC :: int where "ENOSPC = 28"
definition ERANGE :: int where "ERANGE = 34"
definition ENAMETOOLONG :: int where "ENAMETOOLONG = 36"
definition ENOPARAM :: int where "ENOPARAM = 519"

text \<open>
  The mode bits of \<open>stat.h\<close>.  They are used at the width of \<open>umode_t\<close>
  (16 bits) in \<open>myfs.c\<close> and at the width of \<open>int\<close> in \<open>part_000\<close>.
  In octal: \<open>S_IFMT = 0170000\<close>, \<open>S_IFSOCK = 0140000\<close>, \<open>S_IFLNK = 0120000\<close>,
  \<open>S_IFREG = 0100000\<close>, \<open>S_IFBLK = 060000\<close>, \<open>S_IFDIR = 040000\<close>,
  \<open>S_IFCHR = 020000\<close>, \<open>S_IFIFO = 010000\<close>, \<open>S_ISGID = 02000\<close>,
  \<open>S_IXGRP = 010\<close>, \<open>S_IRWXUGO = 0777\<close>, \<open>S_IALLUGO = 07777\<close>.
\<close>

definition S_IFMT :: "'a::len word" where "S_IFMT = 0xF000"
definition S_IFSOCK :: "'a::len word" where "S_IFSOCK = 0xC000"
definition S_IFLNK :: "'a::len word" where "S_IFLNK = 0xA000"
definition S_IFREG :: "'a::len word" where "S_IFREG = 0x8000"
definition S_IFBLK :: "'a::len word" where "S_IFBLK = 0x6000"
definition S_IFDIR :: "'a::len word" where "S_IFDIR = 0x4000"
definition S_IFCHR :: "'a::len word" where "S_IFCHR = 0x2000"
definition S_IFIFO :: "'a::len word" where "S_IFIFO = 0x1000"
definition S_ISGID :: "'a::len word" where "S_ISGID = 0x400"
definition S_IXGRP :: "'a::len word" where "S_IXGRP = 0x8"
definition S_IRWXUGO :: "'a::len word" where "S_IRWXUGO = 0x1FF"
definition S_IALLUGO :: "'a::len word" where "S_IALLUGO = 0xFFF"

text \<open>\<open>#define RAMFS_DEFAULT_MODE 0755\<close>\<close>

definition RAMFS_DEFAULT_MODE :: umode_t where "RAMFS_DEFAULT_MODE = 0x1ED"

text \<open>The operation tables an inode can point to.\<close>

datatype inode_ops =
  empty_iops
  | myfs_file_inode_operations
  | myfs_dir_inode_operations
  | page_symlink_inode_operations
  | simple_dir_inode_operations

datatype file_ops =
  no_open_fops
  | myfs_file_operations
  | simple_dir_operations
  | def_chr_fops
  | def_blk_fops
  | pipefifo_fops

text \<open>
  \<open>struct inode\<close>, with the fields the two modules and the helpers they call read
  or write.  The page-cache attributes of \<open>i_mapping\<close> (\<open>a_ops\<close>, the gfp
  mask, the unevictable flag) belong to the content store and are not tracked;
  \<open>i_link\<close> stands for the page that \<open>page_symlink\<close> fills.
  Times are instants of a clock that counts in natural numbers.
\<close>

record inode =
  i_ino :: "32 word"
  i_mode :: umode_t
  i_uid :: nat
  i_gid :: nat
  i_nlink :: "32 word"
  i_rdev :: dev_t
  i_blocks :: nat
  i_atime :: nat
  i_mtime :: nat
  i_ctime :: nat
  i_op :: inode_ops
  i_fop :: file_ops
  i_count :: nat
  i_link :: string

text \<open>
  \<open>struct dentry\<close>: the parent dentry, the name, the inode (\<open>None\<close> for a
  negative dentry), the reference count and whether the dentry is in the lookup hash.
\<close>

record dentry =
  d_parent :: dref
  d_name :: string
  d_inode :: "iref option"
  d_count :: nat
  d_hashed :: bool

text \<open>\<open>struct myfs_mount_opts\<close> and \<open>struct myfs_fs_info\<close>.  The field
  \<open>mode\<close> of the options is called \<open>opts_mode\<close> here.\<close>

record myfs_mount_opts =
  opts_mode :: umode_t

record myfs_fs_info =
  mount_opts :: myfs_mount_opts

datatype super_ops = no_super_ops | myfs_ops

text \<open>\<open>struct super_block\<close>, with the fields \<open>myfs_fill_super\<close> writes.\<close>

record super_block =
  s_maxbytes :: nat
  s_blocksize :: nat
  s_blocksize_bits :: nat
  s_magic :: "32 word"
  s_op :: super_ops
  s_time_gran :: nat
  s_root :: "dref option"
  s_fs_info :: myfs_fs_info

text \<open>\<open>struct vfsmount\<close>, as far as \<open>myfs_create_by_name\<close> reads it.\<close>

record vfsmount =
  mnt_sb :: "super_block option"

text \<open>
  The kernel state the modules run in: the two stores with their next free addresses,
  the outcome of the allocations still to come (each allocation takes the head of
  \<open>alloc_plan\<close>; an exhausted plan means no memory is left), the clock, the counter
  behind \<open>get_next_ino\<close>, the credentials of the calling task, and the static
  variable \<open>myfs_mount\<close> of \<open>part_000\<close>.
\<close>

record kstate =
  inodes :: "iref \<Rightarrow> inode"
  dentries :: "dref \<Rightarrow> dentry"
  i_next :: iref
  d_next :: dref
  alloc_plan :: "bool list"
  now :: nat
  last_ino :: "32 word"
  fsuid :: nat
  fsgid :: nat
  fsetid_ok :: bool
  myfs_mount :: "vfsmount option"

section \<open>Kernel helpers called by the modules\<close>

text \<open>
  The helpers below are not part of the repository: they are the kernel functions the
  two modules call, reduced to their effect on the tracked state.
\<close>

definition upd_inode :: "iref \<Rightarrow> (inode \<Rightarrow> inode) \<Rightarrow> kstate \<Rightarrow> kstate" where
  "upd_inode i f s = s\<lparr>inodes := (inodes s)(i := f (inodes s i))\<rparr>"

definition upd_dentry :: "dref \<Rightarrow> (dentry \<Rightarrow> dentry) \<Rightarrow> kstate \<Rightarrow> kstate" where
  "upd_dentry d f s = s\<lparr>dentries := (dentries s)(d := f (dentries s d))\<rparr>"

text \<open>One slab or page allocation: it succeeds or fails as the plan says.\<close>

definition kalloc :: "kstate \<Rightarrow> bool \<times> kstate" where
  "kalloc s = (case alloc_plan s of
                 [] \<Rightarrow> (False, s)
               | b # bs \<Rightarrow> (b, s\<lparr>alloc_plan := bs\<rparr>))"

text \<open>
  \<open>new_inode\<close>: \<open>NULL\<close> when the allocation fails; otherwise a fresh inode as
  \<open>inode_init_always\<close> leaves it, in particular with link count 1 and one
  reference.
\<close>

definition blank_inode :: inode where
  "blank_inode = \<lparr>i_ino = 0, i_mode = 0, i_uid = 0, i_gid = 0, i_nlink = 1, i_rdev = 0,
     i_blocks = 0, i_atime = 0, i_mtime = 0, i_ctime = 0, i_op = empty_iops,
     i_fop = no_open_fops, i_count = 1, i_link = []\<rparr>"

definition new_inode :: "kstate \<Rightarrow> iref option \<times> kstate" where
  "new_inode s =
     (case kalloc s of
        (False, s1) \<Rightarrow> (None, s1)
      | (True, s1) \<Rightarrow>
          (Some (i_next s1),
           s1\<lparr>inodes := (inodes s1)(i_next s1 := blank_inode), i_next := Suc (i_next s1)\<rparr>))"

text \<open>\<open>get_next_ino\<close>: the next value of the counter, never 0.\<close>

definition get_next_ino :: "kstate \<Rightarrow> 32 word \<times> kstate" where
  "get_next_ino s =
     (let res = last_ino s + 1;
          res = (if res = 0 then res + 1 else res)
      in (res, s\<lparr>last_ino := res\<rparr>))"

definition current_time :: "kstate \<Rightarrow> nat" where
  "current_time s = now s"

text \<open>
  \<open>inode_init_owner\<close>: the owner is the caller's fsuid; below a set-group-id
  directory the group is inherited, a new directory inherits the bit too, and a
  non-directory loses \<open>S_ISGID\<close> when it is group-executable and the caller is
  neither in the group nor privileged (\<open>fsetid_ok\<close>).
\<close>

definition inode_init_owner :: "kstate \<Rightarrow> iref \<Rightarrow> iref option \<Rightarrow> umode_t \<Rightarrow> kstate" where
  "inode_init_owner s inode dir mode =
     (let s1 = upd_inode inode (\<lambda>i. i\<lparr>i_uid := fsuid s\<rparr>) s
      in case dir of
           None \<Rightarrow> upd_inode inode (\<lambda>i. i\<lparr>i_gid := fsgid s, i_mode := mode\<rparr>) s1
         | Some d \<Rightarrow>
             if i_mode (inodes s1 d) AND S_ISGID \<noteq> 0 then
               (let mode1 =
                      (if mode AND S_IFMT = S_IFDIR then mode OR S_ISGID
                       else if mode AND (S_ISGID OR S_IXGRP) = S_ISGID OR S_IXGRP
                               \<and> \<not> fsetid_ok s
                            then mode AND NOT S_ISGID
                       else mode)
                in upd_inode inode (\<lambda>i. i\<lparr>i_gid := i_gid (inodes s1 d), i_mode := mode1\<rparr>) s1)
             else upd_inode inode (\<lambda>i. i\<lparr>i_gid := fsgid s, i_mode := mode\<rparr>) s1)"

text \<open>\<open>init_special_inode\<close>: the mode as given, and the device for device nodes.\<close>

definition init_special_inode :: "iref \<Rightarrow> umode_t \<Rightarrow> dev_t \<Rightarrow> kstate \<Rightarrow> kstate" where
  "init_special_inode inode mode rdev s =
     (let s1 = upd_inode inode (\<lambda>i. i\<lparr>i_mode := mode\<rparr>) s
      in if mode AND S_IFMT = S_IFCHR then
           upd_inode inode (\<lambda>i. i\<lparr>i_fop := def_chr_fops, i_rdev := rdev\<rparr>) s1
         else if mode AND S_IFMT = S_IFBLK then
           upd_inode inode (\<lambda>i. i\<lparr>i_fop := def_blk_fops, i_rdev := rdev\<rparr>) s1
         else if mode AND S_IFMT = S_IFIFO then
           upd_inode inode (\<lambda>i. i\<lparr>i_fop := pipefifo_fops\<rparr>) s1
         else s1)"

text \<open>\<open>inc_nlink\<close> and \<open>drop_nlink\<close> on the unsigned 32-bit link count.\<close>

definition inc_nlink :: "iref \<Rightarrow> kstate \<Rightarrow> kstate" where
  "inc_nlink inode s = upd_inode inode (\<lambda>i. i\<lparr>i_nlink := i_nlink i + 1\<rparr>) s"

definition drop_nlink :: "iref \<Rightarrow> kstate \<Rightarrow> kstate" where
  "drop_nlink inode s = upd_inode inode (\<lambda>i. i\<lparr>i_nlink := i_nlink i - 1\<rparr>) s"

text \<open>\<open>iput\<close> gives up one reference to the inode.\<close>

definition iput :: "iref \<Rightarrow> kstate \<Rightarrow> kstate" where
  "iput inode s = upd_inode inode (\<lambda>i. i\<lparr>i_count := i_count i - 1\<rparr>) s"

text \<open>\<open>dget\<close> takes one more reference to the dentry.\<close>

definition dget :: "dref \<Rightarrow> kstate \<Rightarrow> kstate" where
  "dget dentry s = upd_dentry dentry (\<lambda>d. d\<lparr>d_count := Suc (d_count d)\<rparr>) s"

text \<open>
  \<open>d_instantiate\<close> attaches the inode to the dentry; it is a kernel bug
  (\<open>BUG_ON\<close>) to call it on a dentry that already has one.
\<close>

definition d_instantiate :: "dref \<Rightarrow> iref \<Rightarrow> kstate \<Rightarrow> fault + kstate" where
  "d_instantiate dentry inode s =
     (if d_inode (dentries s dentry) \<noteq> None then Inl BUG
      else Inr (upd_dentry dentry (\<lambda>d. d\<lparr>d_inode := Some inode\<rparr>) s))"

text \<open>Digits of a number in a base from 2 to 10, most significant first.\<close>

function digits_of :: "nat \<Rightarrow> nat \<Rightarrow> string" where
  "digits_of b n =
     (if n < b \<or> b < 2 then [char_of (48 + n)]
      else digits_of b (n div b) @ [char_of (48 + n mod b)])"
  by pat_completeness auto
termination
  by (relation "measure snd") auto

definition show_oct :: "nat \<Rightarrow> string" where
  "show_oct n = digits_of 8 n"

definition show_dec :: "nat \<Rightarrow> string" where
  "show_dec n = digits_of 10 n"

text \<open>
  \<open>d_tmpfile\<close>: drops the link count of the inode, insists (\<open>BUG_ON\<close>) that the
  dentry is unhashed and has no inode, renames it to \<open>#\<close> followed by the inode
  number, and attaches the inode.
\<close>

definition d_tmpfile :: "dref \<Rightarrow> iref \<Rightarrow> kstate \<Rightarrow> fault + kstate" where
  "d_tmpfile dentry inode s =
     (let s1 = drop_nlink inode s
      in if d_inode (dentries s1 dentry) \<noteq> None \<or> d_hashed (dentries s1 dentry) then Inl BUG
         else d_instantiate dentry inode
                (upd_dentry dentry
                   (\<lambda>d. d\<lparr>d_name := CHR ''#'' # show_dec (unat (i_ino (inodes s1 inode)))\<rparr>) s1))"

text \<open>
  \<open>page_symlink\<close>: needs one page; without it the result is \<open>-ENOMEM\<close>,
  with it the first \<open>len - 1\<close> bytes of the target are stored.
\<close>

definition page_symlink :: "iref \<Rightarrow> string \<Rightarrow> nat \<Rightarrow> kstate \<Rightarrow> int \<times> kstate" where
  "page_symlink inode symname len s =
     (case kalloc s of
        (False, s1) \<Rightarrow> (- ENOMEM, s1)
      | (True, s1) \<Rightarrow> (0, upd_inode inode (\<lambda>i. i\<lparr>i_link := take (len - 1) symname\<rparr>) s1))"

text \<open>
  The dentry cache.  \<open>d_lookup\<close> finds the hashed dentry with the given parent
  and name; \<open>lookup\<close> is the name resolution of a directory that keeps its entries
  in the cache: the inode of that dentry, if it has one.
\<close>

definition d_lookup :: "kstate \<Rightarrow> dref \<Rightarrow> string \<Rightarrow> dref option" where
  "d_lookup s parent name =
     find (\<lambda>d. d_hashed (dentries s d) \<and> d_parent (dentries s d) = parent
               \<and> d_name (dentries s d) = name) [0..<d_next s]"

definition lookup :: "kstate \<Rightarrow> dref \<Rightarrow> string \<Rightarrow> iref option" where
  "lookup s dir name =
     (case d_lookup s dir name of
        None \<Rightarrow> None
      | Some d \<Rightarrow> d_inode (dentries s d))"

text \<open>\<open>d_alloc\<close>: a new, unhashed, negative dentry below the parent, or \<open>NULL\<close>.\<close>

definition d_alloc :: "dref \<Rightarrow> string \<Rightarrow> kstate \<Rightarrow> dref option \<times> kstate" where
  "d_alloc parent name s =
     (case kalloc s of
        (False, s1) \<Rightarrow> (None, s1)
      | (True, s1) \<Rightarrow>
          (Some (d_next s1),
           s1\<lparr>dentries := (dentries s1)(d_next s1 :=
                 \<lparr>d_parent = parent, d_name = name, d_inode = None, d_count = 1,
                  d_hashed = False\<rparr>),
              d_next := Suc (d_next s1)\<rparr>))"

text \<open>
  \<open>d_make_root\<close>: \<open>NULL\<close> for a \<open>NULL\<close> inode; otherwise a root dentry
  (its own parent, named \<open>/\<close>, not hashed) holding the inode, or \<open>NULL\<close> and the
  inode released when the dentry cannot be allocated.
\<close>

definition d_alloc_anon :: "kstate \<Rightarrow> dref option \<times> kstate" where
  "d_alloc_anon s = d_alloc (d_next s) ''/'' s"

definition d_make_root :: "iref option \<Rightarrow> kstate \<Rightarrow> fault + (dref option \<times> kstate)" where
  "d_make_root root_inode s =
     (case root_inode of
        None \<Rightarrow> Inr (None, s)
      | Some inode \<Rightarrow>
          (case d_alloc_anon s of
             (None, s1) \<Rightarrow> Inr (None, iput inode s1)
           | (Some res, s1) \<Rightarrow>
               (case d_instantiate res inode s1 of
                  Inl f \<Rightarrow> Inl f
                | Inr s2 \<Rightarrow> Inr (Some res, s2))))"

section \<open>myfs.c: inode allocation and the directory operations\<close>

text \<open>
  \<open>myfs_get_inode\<close>.  The superblock argument only ties the inode to its
  filesystem and is left out; \<open>dir\<close> is \<open>None\<close> for the \<open>NULL\<close> the mount
  passes.
\<close>

definition myfs_get_inode :: "kstate \<Rightarrow> iref option \<Rightarrow> umode_t \<Rightarrow> dev_t \<Rightarrow> iref option \<times> kstate" where
  "myfs_get_inode s dir mode dev =
     (case new_inode s of
        (None, s1) \<Rightarrow> (None, s1)
      | (Some inode, s1) \<Rightarrow>
          (let (ino, s2) = get_next_ino s1;
               s3 = upd_inode inode (\<lambda>i. i\<lparr>i_ino := ino\<rparr>) s2;
               s4 = inode_init_owner s3 inode dir mode;
               t = current_time s4;
               s5 = upd_inode inode (\<lambda>i. i\<lparr>i_atime := t, i_mtime := t, i_ctime := t\<rparr>) s4;
               s6 = (if mode AND S_IFMT = S_IFREG then
                       upd_inode inode (\<lambda>i. i\<lparr>i_op := myfs_file_inode_operations,
                                               i_fop := myfs_file_operations\<rparr>) s5
                     else if mode AND S_IFMT = S_IFDIR then
                       inc_nlink inode
                         (upd_inode inode (\<lambda>i. i\<lparr>i_op := myfs_dir_inode_operations,
                                                 i_fop := simple_dir_operations\<rparr>) s5)
                     else if mode AND S_IFMT = S_IFLNK then
                       upd_inode inode (\<lambda>i. i\<lparr>i_op := page_symlink_inode_operations\<rparr>) s5
                     else init_special_inode inode mode dev s5)
           in (Some inode, s6)))"

text \<open>
  \<open>myfs_mknod\<close>: allocate an inode and attach it to the dentry the caller
  looked up in \<open>dir\<close>.
\<close>

definition myfs_mknod :: "kstate \<Rightarrow> iref \<Rightarrow> dref \<Rightarrow> umode_t \<Rightarrow> dev_t \<Rightarrow> fault + (int \<times> kstate)" where
  "myfs_mknod s dir dentry mode dev =
     (case myfs_get_inode s (Some dir) mode dev of
        (None, s1) \<Rightarrow> Inr (- ENOSPC, s1)
      | (Some inode, s1) \<Rightarrow>
          (case d_instantiate dentry inode s1 of
             Inl f \<Rightarrow> Inl f
           | Inr s2 \<Rightarrow>
               (let s3 = dget dentry s2;
                    t = current_time s3
                in Inr (0, upd_inode dir (\<lambda>i. i\<lparr>i_mtime := t, i_ctime := t\<rparr>) s3))))"

text \<open>\<open>myfs_mkdir\<close> and \<open>myfs_create\<close>; their \<open>printk\<close> lines are not tracked.\<close>

definition myfs_mkdir :: "kstate \<Rightarrow> iref \<Rightarrow> dref \<Rightarrow> umode_t \<Rightarrow> fault + (int \<times> kstate)" where
  "myfs_mkdir s dir dentry mode =
     (case myfs_mknod s dir dentry (mode OR S_IFDIR) 0 of
        Inl f \<Rightarrow> Inl f
      | Inr (retval, s1) \<Rightarrow> Inr (retval, if retval = 0 then inc_nlink dir s1 else s1))"

definition myfs_create :: "kstate \<Rightarrow> iref \<Rightarrow> dref \<Rightarrow> umode_t \<Rightarrow> bool \<Rightarrow> fault + (int \<times> kstate)" where
  "myfs_create s dir dentry mode excl = myfs_mknod s dir dentry (mode OR S_IFREG) 0"

definition myfs_symlink :: "kstate \<Rightarrow> iref \<Rightarrow> dref \<Rightarrow> string \<Rightarrow> fault + (int \<times> kstate)" where
  "myfs_symlink s dir dentry symname =
     (case myfs_get_inode s (Some dir) (S_IFLNK OR S_IRWXUGO) 0 of
        (None, s1) \<Rightarrow> Inr (- ENOSPC, s1)
      | (Some inode, s1) \<Rightarrow>
          (let l = length symname + 1;
               (error, s2) = page_symlink inode symname l s1
           in if error = 0 then
                (case d_instantiate dentry inode s2 of
                   Inl f \<Rightarrow> Inl f
                 | Inr s3 \<Rightarrow>
                     (let s4 = dget dentry s3;
                          t = current_time s4
                      in Inr (error, upd_inode dir (\<lambda>i. i\<lparr>i_mtime := t, i_ctime := t\<rparr>) s4)))
              else Inr (error, iput inode s2)))"

definition myfs_tmpfile :: "kstate \<Rightarrow> iref \<Rightarrow> dref \<Rightarrow> umode_t \<Rightarrow> fault + (int \<times> kstate)" where
  "myfs_tmpfile s dir dentry mode =
     (case myfs_get_inode s (Some dir) mode 0 of
        (None, s1) \<Rightarrow> Inr (- ENOSPC, s1)
      | (Some inode, s1) \<Rightarrow>
          (case d_tmpfile dentry inode s1 of
             Inl f \<Rightarrow> Inl f
           | Inr s2 \<Rightarrow> Inr (0, s2)))"

section \<open>myfs.c: the entries of the operation table taken from the kernel\<close>

text \<open>
  The table \<open>myfs_dir_inode_operations\<close> fills \<open>link\<close>, \<open>unlink\<close>,
  \<open>rmdir\<close> and \<open>rename\<close> with the kernel's \<open>simple_link\<close>,
  \<open>simple_unlink\<close>, \<open>simple_rmdir\<close> and \<open>simple_rename\<close>.  They
  are not part of the repository; they are given here by their effect on the tracked
  state.  Moving or unhashing the dentry afterwards is the caller's work.
\<close>

definition ENOTEMPTY :: int where "ENOTEMPTY = 39"

definition RENAME_NOREPLACE :: "32 word" where "RENAME_NOREPLACE = 1"

text \<open>\<open>ihold\<close> takes a reference to the inode, \<open>dput\<close> gives up one to the dentry.\<close>

definition ihold :: "iref \<Rightarrow> kstate \<Rightarrow> kstate" where
  "ihold inode s = upd_inode inode (\<lambda>i. i\<lparr>i_count := Suc (i_count i)\<rparr>) s"

definition dput :: "dref \<Rightarrow> kstate \<Rightarrow> kstate" where
  "dput dentry s = upd_dentry dentry (\<lambda>d. d\<lparr>d_count := d_count d - 1\<rparr>) s"

text \<open>\<open>simple_empty\<close>: no child of the dentry is both hashed and positive.\<close>

definition simple_empty :: "kstate \<Rightarrow> dref \<Rightarrow> bool" where
  "simple_empty s dentry =
     list_all (\<lambda>c. \<not> (c \<noteq> dentry \<and> d_parent (dentries s c) = dentry
                      \<and> d_hashed (dentries s c) \<and> d_inode (dentries s c) \<noteq> None))
       [0..<d_next s]"

definition simple_link :: "kstate \<Rightarrow> dref \<Rightarrow> iref \<Rightarrow> dref \<Rightarrow> fault + (int \<times> kstate)" where
  "simple_link s old_dentry dir dentry =
     (case d_inode (dentries s old_dentry) of
        None \<Rightarrow> Inl Oops
      | Some inode \<Rightarrow>
          (let t = current_time s;
               s1 = upd_inode dir (\<lambda>i. i\<lparr>i_mtime := t, i_ctime := t\<rparr>) s;
               s2 = upd_inode inode (\<lambda>i. i\<lparr>i_ctime := t\<rparr>) s1;
               s3 = inc_nlink inode s2;
               s4 = ihold inode s3;
               s5 = dget dentry s4
           in case d_instantiate dentry inode s5 of
                Inl f \<Rightarrow> Inl f
              | Inr s6 \<Rightarrow> Inr (0, s6)))"

definition simple_unlink :: "kstate \<Rightarrow> iref \<Rightarrow> dref \<Rightarrow> fault + (int \<times> kstate)" where
  "simple_unlink s dir dentry =
     (case d_inode (dentries s dentry) of
        None \<Rightarrow> Inl Oops
      | Some inode \<Rightarrow>
          (let t = current_time s;
               s1 = upd_inode dir (\<lambda>i. i\<lparr>i_mtime := t, i_ctime := t\<rparr>) s;
               s2 = upd_inode inode (\<lambda>i. i\<lparr>i_ctime := t\<rparr>) s1;
               s3 = drop_nlink inode s2
           in Inr (0, dput dentry s3)))"

definition simple_rmdir :: "kstate \<Rightarrow> iref \<Rightarrow> dref \<Rightarrow> fault + (int \<times> kstate)" where
  "simple_rmdir s dir dentry =
     (if \<not> simple_empty s dentry then Inr (- ENOTEMPTY, s)
      else (case d_inode (dentries s dentry) of
              None \<Rightarrow> Inl Oops
            | Some inode \<Rightarrow>
                (case simple_unlink (drop_nlink inode s) dir dentry of
                   Inl f \<Rightarrow> Inl f
                 | Inr (r, s1) \<Rightarrow> Inr (0, drop_nlink dir s1))))"

text \<open>
  \<open>simple_rename\<close>, first the part that removes an existing target and adjusts
  the link counts when a directory moves, then the whole.
\<close>

definition simple_rename_links :: "kstate \<Rightarrow> iref \<Rightarrow> iref \<Rightarrow> dref \<Rightarrow> bool \<Rightarrow> fault + kstate" where
  "simple_rename_links s old_dir new_dir new_dentry they_are_dirs =
     (case d_inode (dentries s new_dentry) of
        Some target \<Rightarrow>
          (case simple_unlink s new_dir new_dentry of
             Inl f \<Rightarrow> Inl f
           | Inr (r, s1) \<Rightarrow>
               Inr (if they_are_dirs then drop_nlink old_dir (drop_nlink target s1) else s1))
      | None \<Rightarrow>
          Inr (if they_are_dirs then inc_nlink new_dir (drop_nlink old_dir s) else s))"

definition simple_rename :: "kstate \<Rightarrow> iref \<Rightarrow> dref \<Rightarrow> iref \<Rightarrow> dref \<Rightarrow> 32 word \<Rightarrow> fault + (int \<times> kstate)" where
  "simple_rename s old_dir old_dentry new_dir new_dentry flags =
     (if flags AND NOT RENAME_NOREPLACE \<noteq> 0 then Inr (- EINVAL, s)
      else if \<not> simple_empty s new_dentry then Inr (- ENOTEMPTY, s)
      else (case d_inode (dentries s old_dentry) of
              None \<Rightarrow> Inl Oops
            | Some inode \<Rightarrow>
                (case simple_rename_links s old_dir new_dir new_dentry
                        (i_mode (inodes s inode) AND S_IFMT = S_IFDIR) of
                   Inl f \<Rightarrow> Inl f
                 | Inr s2 \<Rightarrow>
                     (let t = current_time s2;
                          s3 = upd_inode inode (\<lambda>i. i\<lparr>i_ctime := t\<rparr>) s2;
                          s4 = upd_inode new_dir (\<lambda>i. i\<lparr>i_mtime := t, i_ctime := t\<rparr>) s3;
                          s5 = upd_inode old_dir (\<lambda>i. i\<lparr>i_mtime := t, i_ctime := t\<rparr>) s4
                      in Inr (0, s5)))))"

section \<open>myfs.c: mount options and the superblock\<close>

text \<open>
  A mount parameter as the filesystem context hands it over: the key, the kind of
  value, and the string for a string value.
\<close>

datatype fs_value_type =
  fs_value_is_undefined
  | fs_value_is_flag
  | fs_value_is_string
  | fs_value_is_blob
  | fs_value_is_filename
  | fs_value_is_file

record fs_parameter =
  param_key :: string
  param_type :: fs_value_type
  param_string :: string

text \<open>
  An entry of a parameter table: the name, how the value is parsed (a flag, or an
  unsigned 32-bit number in a base), the option number and whether a \<open>no\<close> prefix
  negates it.
\<close>

datatype fs_param_type = fs_param_is_flag | fs_param_is_u32 nat

record fs_parameter_spec =
  spec_name :: string
  spec_type :: fs_param_type
  spec_opt :: int
  spec_neg_with_no :: bool

record fs_parse_result =
  negated :: bool
  uint_32 :: "32 word"

definition fsparam_u32oct :: "string \<Rightarrow> int \<Rightarrow> fs_parameter_spec" where
  "fsparam_u32oct name opt =
     \<lparr>spec_name = name, spec_type = fs_param_is_u32 8, spec_opt = opt, spec_neg_with_no = False\<rparr>"

text \<open>\<open>enum myfs_param\<close> and the table \<open>myfs_fs_parameters\<close>.\<close>

definition Opt_mode :: int where "Opt_mode = 0"

definition myfs_fs_parameters :: "fs_parameter_spec list" where
  "myfs_fs_parameters = [fsparam_u32oct ''mode'' Opt_mode]"

text \<open>
  The number parser of the kernel.  \<open>parse_integer\<close> reads digits below the base
  and returns how many it read and their value; \<open>kstrtoull\<close> allows a leading
  \<open>+\<close> and one trailing newline and rejects an empty digit string, trailing
  characters and values that do not fit 64 bits; \<open>kstrtouint\<close> moreover rejects
  values that do not fit 32 bits.  (The radix fix-up of the kernel only acts for the
  bases 0 and 16.)
\<close>

definition digit_val :: "char \<Rightarrow> nat option" where
  "digit_val c =
     (let n = (of_char c :: nat)
      in if 48 \<le> n \<and> n \<le> 57 then Some (n - 48)
         else if 97 \<le> n \<and> n \<le> 102 then Some (n - 87)
         else if 65 \<le> n \<and> n \<le> 70 then Some (n - 55)
         else None)"

fun parse_integer :: "string \<Rightarrow> nat \<Rightarrow> nat \<Rightarrow> nat \<Rightarrow> nat \<times> nat" where
  "parse_integer [] base res rv = (rv, res)"
| "parse_integer (c # cs) base res rv =
     (case digit_val c of
        None \<Rightarrow> (rv, res)
      | Some v \<Rightarrow> if base \<le> v then (rv, res)
                  else parse_integer cs base (res * base + v) (Suc rv))"

definition kstrtoull :: "string \<Rightarrow> nat \<Rightarrow> int + nat" where
  "kstrtoull s base =
     (let s1 = (case s of c # cs \<Rightarrow> if c = CHR ''+'' then cs else s | [] \<Rightarrow> s);
          (rv, res) = parse_integer s1 base 0 0
      in if 2 ^ 64 \<le> res then Inl (- ERANGE)
         else if rv = 0 then Inl (- EINVAL)
         else (let s2 = drop rv s1;
                   s3 = (case s2 of c # cs \<Rightarrow> if c = CHR 0x0A then cs else s2 | [] \<Rightarrow> s2)
               in if s3 \<noteq> [] then Inl (- EINVAL) else Inr res))"

definition kstrtouint :: "string \<Rightarrow> nat \<Rightarrow> int + 32 word" where
  "kstrtouint s base =
     (case kstrtoull s base of
        Inl rv \<Rightarrow> Inl rv
      | Inr tmp \<Rightarrow> if 2 ^ 32 \<le> tmp then Inl (- ERANGE) else Inr (of_nat tmp))"

text \<open>
  \<open>fs_lookup_key\<close>: the table entry with the key's name whose kind (flag or
  not) fits the parameter; failing that, for a flag written \<open>no...\<close>, the
  negatable entry of the remaining name; failing that, the last entry of that name.
\<close>

definition is_flag :: "fs_parameter_spec \<Rightarrow> bool" where
  "is_flag p = (spec_type p = fs_param_is_flag)"

definition fs_lookup_key :: "fs_parameter_spec list \<Rightarrow> fs_parameter \<Rightarrow> (fs_parameter_spec \<times> bool) option" where
  "fs_lookup_key desc param =
     (let name = param_key param;
          want_flag = (param_type param = fs_value_is_flag);
          other = find (\<lambda>p. spec_name p = name) (rev desc)
      in case find (\<lambda>p. spec_name p = name \<and> is_flag p = want_flag) desc of
           Some p \<Rightarrow> Some (p, False)
         | None \<Rightarrow>
             (case (if want_flag \<and> take 2 name = ''no'' \<and> 2 < length name
                    then find (\<lambda>p. spec_name p = drop 2 name \<and> spec_neg_with_no p) desc
                    else None) of
                Some p \<Rightarrow> Some (p, True)
              | None \<Rightarrow> map_option (\<lambda>p. (p, False)) other))"

text \<open>
  \<open>fs_parse\<close>: \<open>-ENOPARAM\<close> for a key the table does not have, \<open>-EINVAL\<close>
  for a value of the wrong kind or one the number parser rejects, otherwise the option
  number and the parsed value.
\<close>

definition fs_parse :: "fs_parameter_spec list \<Rightarrow> fs_parameter \<Rightarrow> int \<times> fs_parse_result" where
  "fs_parse desc param =
     (let result = \<lparr>negated = False, uint_32 = 0\<rparr>
      in case fs_lookup_key desc param of
           None \<Rightarrow> (- ENOPARAM, result)
         | Some (p, neg) \<Rightarrow>
             (case spec_type p of
                fs_param_is_flag \<Rightarrow>
                  if param_type param \<noteq> fs_value_is_flag then (- EINVAL, result\<lparr>negated := neg\<rparr>)
                  else (spec_opt p, result\<lparr>negated := neg\<rparr>)
              | fs_param_is_u32 base \<Rightarrow>
                  if param_type param \<noteq> fs_value_is_string then (- EINVAL, result\<lparr>negated := neg\<rparr>)
                  else (case kstrtouint (param_string param) base of
                          Inl rv \<Rightarrow> (- EINVAL, result\<lparr>negated := neg\<rparr>)
                        | Inr v \<Rightarrow> (spec_opt p, result\<lparr>negated := neg, uint_32 := v\<rparr>))))"

text \<open>
  \<open>myfs_parse_param\<close>, on the \<open>myfs_fs_info\<close> the context points to.  The
  assignment to the 16-bit \<open>mode\<close> truncates the 32-bit value.
\<close>

definition myfs_parse_param :: "myfs_fs_info \<Rightarrow> fs_parameter \<Rightarrow> int \<times> myfs_fs_info" where
  "myfs_parse_param fsi param =
     (let (opt, result) = fs_parse myfs_fs_parameters param
      in if opt < 0 then ((if opt = - ENOPARAM then 0 else opt), fsi)
         else if opt = Opt_mode then
           (0, fsi\<lparr>mount_opts := (mount_opts fsi)\<lparr>opts_mode := ucast (uint_32 result AND S_IALLUGO)\<rparr>\<rparr>)
         else (0, fsi))"

text \<open>
  The kernel hands the options of a mount to \<open>parse_param\<close> one by one, in order,
  and stops at the first error.
\<close>

fun parse_params :: "myfs_fs_info \<Rightarrow> fs_parameter list \<Rightarrow> int \<times> myfs_fs_info" where
  "parse_params fsi [] = (0, fsi)"
| "parse_params fsi (p # ps) =
     (case myfs_parse_param fsi p of
        (ret, fsi1) \<Rightarrow> if ret < 0 then (ret, fsi1) else parse_params fsi1 ps)"

text \<open>
  \<open>myfs_init_fs_context\<close> returns the error code and the \<open>myfs_fs_info\<close> it
  stored in the context (\<open>None\<close> when \<open>kzalloc\<close> failed).
\<close>

definition myfs_init_fs_context :: "kstate \<Rightarrow> int \<times> myfs_fs_info option \<times> kstate" where
  "myfs_init_fs_context s =
     (case kalloc s of
        (False, s1) \<Rightarrow> (- ENOMEM, None, s1)
      | (True, s1) \<Rightarrow>
          (0, Some \<lparr>mount_opts = \<lparr>opts_mode = RAMFS_DEFAULT_MODE\<rparr>\<rparr>, s1))"

text \<open>The constants of a 64-bit kernel with 4 KiB pages, and \<open>RAMFS_MAGIC\<close>.\<close>

definition MAX_LFS_FILESIZE :: nat where "MAX_LFS_FILESIZE = 2 ^ 63 - 1"
definition PAGE_SIZE :: nat where "PAGE_SIZE = 4096"
definition PAGE_SHIFT :: nat where "PAGE_SHIFT = 12"
definition RAMFS_MAGIC :: "32 word" where "RAMFS_MAGIC = 0x858458f6"

definition myfs_fill_super :: "kstate \<Rightarrow> super_block \<Rightarrow> fault + (int \<times> super_block \<times> kstate)" where
  "myfs_fill_super s sb =
     (let fsi = s_fs_info sb;
          sb1 = sb\<lparr>s_maxbytes := MAX_LFS_FILESIZE, s_blocksize := PAGE_SIZE,
                  s_blocksize_bits := PAGE_SHIFT, s_magic := RAMFS_MAGIC, s_op := myfs_ops,
                  s_time_gran := 1\<rparr>;
          (inode, s1) = myfs_get_inode s None (S_IFDIR OR opts_mode (mount_opts fsi)) 0
      in case d_make_root inode s1 of
           Inl f \<Rightarrow> Inl f
         | Inr (root, s2) \<Rightarrow>
             (let sb2 = sb1\<lparr>s_root := root\<rparr>
              in if s_root sb2 = None then Inr (- ENOMEM, sb2, s2) else Inr (0, sb2, s2)))"

text \<open>
  \<open>myfs_get_tree\<close> is \<open>get_tree_nodev\<close> with \<open>myfs_fill_super\<close>: a new
  superblock takes over the \<open>myfs_fs_info\<close> of the context and is filled; it is
  given up when filling fails.
\<close>

definition myfs_get_tree :: "kstate \<Rightarrow> myfs_fs_info \<Rightarrow> fault + (int \<times> super_block option \<times> kstate)" where
  "myfs_get_tree s fsi =
     (case kalloc s of
        (False, s1) \<Rightarrow> Inr (- ENOMEM, None, s1)
      | (True, s1) \<Rightarrow>
          (case myfs_fill_super s1
                  \<lparr>s_maxbytes = 0, s_blocksize = 0, s_blocksize_bits = 0, s_magic = 0,
                   s_op = no_super_ops, s_time_gran = 0, s_root = None, s_fs_info = fsi\<rparr> of
             Inl f \<Rightarrow> Inl f
           | Inr (error, sb, s2) \<Rightarrow> Inr (error, (if error = 0 then Some sb else None), s2)))"

text \<open>
  A mount, as the kernel drives the three context operations: create the context,
  parse the options, build the tree.
\<close>

definition mount_myfs :: "kstate \<Rightarrow> fs_parameter list \<Rightarrow> fault + (int \<times> super_block option \<times> kstate)" where
  "mount_myfs s params =
     (case myfs_init_fs_context s of
        (ret, None, s1) \<Rightarrow> Inr (ret, None, s1)
      | (ret, Some fsi, s1) \<Rightarrow>
          (case parse_params fsi params of
             (ret1, fsi1) \<Rightarrow>
               if ret1 < 0 then Inr (ret1, None, s1) else myfs_get_tree s1 fsi1))"

text \<open>
  \<open>myfs_show_options\<close> on the text written to the \<open>seq_file\<close> so far:
  \<open>seq_printf\<close> appends, \<open>%o\<close> prints octal.
\<close>

definition myfs_show_options :: "string \<Rightarrow> super_block \<Rightarrow> int \<times> string" where
  "myfs_show_options m sb =
     (let fsi = s_fs_info sb
      in if opts_mode (mount_opts fsi) \<noteq> RAMFS_DEFAULT_MODE
         then (0, m @ '',mode='' @ show_oct (unat (opts_mode (mount_opts fsi))))
         else (0, m))"

section \<open>part_000: the older module\<close>

text \<open>
  A dentry pointer that may also be \<open>NULL\<close> or an \<open>ERR_PTR\<close> value, as
  \<open>lookup_one_len\<close> returns it.
\<close>

datatype dentry_ptr = NULL | ERR_PTR int | PTR dref

text \<open>
  \<open>myfs_get_inode\<close> of \<open>part_000\<close>; \<open>mode\<close> is an \<open>int\<close> here, and
  storing it in \<open>i_mode\<close> truncates it to 16 bits.
\<close>

definition myfs_get_inode_000 :: "kstate \<Rightarrow> 32 word \<Rightarrow> dev_t \<Rightarrow> iref option \<times> kstate" where
  "myfs_get_inode_000 s mode dev =
     (case new_inode s of
        (None, s1) \<Rightarrow> (None, s1)
      | (Some inode, s1) \<Rightarrow>
          (let t = current_time s1;
               s2 = upd_inode inode
                      (\<lambda>i. i\<lparr>i_mode := ucast mode, i_uid := fsuid s1, i_gid := fsgid s1,
                             i_blocks := 0, i_atime := t, i_mtime := t, i_ctime := t\<rparr>) s1;
               s3 = (if mode AND S_IFMT = S_IFREG then s2
                     else if mode AND S_IFMT = S_IFDIR then
                       upd_inode inode
                         (\<lambda>i. i\<lparr>i_op := simple_dir_inode_operations,
                                i_fop := simple_dir_operations,
                                i_nlink := i_nlink i + 1\<rparr>) s2
                     else init_special_inode inode (ucast mode) dev s2)
           in (Some inode, s3)))"

text \<open>
  \<open>myfs_mknod\<close> of \<open>part_000\<close>.  Reading \<open>dentry->d_inode\<close> through a
  pointer that is \<open>NULL\<close> or an error value is an invalid access.
\<close>

definition myfs_mknod_000 :: "kstate \<Rightarrow> iref \<Rightarrow> dentry_ptr \<Rightarrow> 32 word \<Rightarrow> dev_t \<Rightarrow> fault + (int \<times> kstate)" where
  "myfs_mknod_000 s dir dentry mode dev =
     (case dentry of
        PTR d \<Rightarrow>
          if d_inode (dentries s d) \<noteq> None then Inr (- EEXIST, s)
          else (case myfs_get_inode_000 s mode dev of
                  (None, s1) \<Rightarrow> Inr (- EPERM, s1)
                | (Some inode, s1) \<Rightarrow>
                    (case d_instantiate d inode s1 of
                       Inl f \<Rightarrow> Inl f
                     | Inr s2 \<Rightarrow> Inr (0, dget d s2)))
      | _ \<Rightarrow> Inl Oops)"

definition myfs_mkdir_000 :: "kstate \<Rightarrow> iref \<Rightarrow> dentry_ptr \<Rightarrow> 32 word \<Rightarrow> fault + (int \<times> kstate)" where
  "myfs_mkdir_000 s dir dentry mode =
     (case myfs_mknod_000 s dir dentry (mode OR S_IFDIR) 0 of
        Inl f \<Rightarrow> Inl f
      | Inr (res, s1) \<Rightarrow>
          Inr (res, if res = 0 then upd_inode dir (\<lambda>i. i\<lparr>i_nlink := i_nlink i + 1\<rparr>) s1 else s1))"

definition myfs_create_000 :: "kstate \<Rightarrow> iref \<Rightarrow> dentry_ptr \<Rightarrow> 32 word \<Rightarrow> fault + (int \<times> kstate)" where
  "myfs_create_000 s dir dentry mode = myfs_mknod_000 s dir dentry (mode OR S_IFREG) 0"

text \<open>
  \<open>lookup_one_len\<close>: an empty name or one with a slash is refused; a name in the
  cache gives its dentry with one more reference; otherwise a new dentry is allocated
  and handed to the directory's lookup operation \<open>simple_lookup\<close>, which refuses
  names longer than 255 bytes and otherwise hashes the dentry as a negative one.
  The caller runs with the rights of the module's init routine, so the permission
  check on the directory passes.
\<close>

definition lookup_one_len :: "string \<Rightarrow> dref \<Rightarrow> kstate \<Rightarrow> dentry_ptr \<times> kstate" where
  "lookup_one_len name base s =
     (if name = [] \<or> CHR ''/'' \<in> set name then (ERR_PTR (- EACCES), s)
      else (case d_lookup s base name of
              Some d \<Rightarrow> (PTR d, dget d s)
            | None \<Rightarrow>
                (case d_alloc base name s of
                   (None, s1) \<Rightarrow> (ERR_PTR (- ENOMEM), s1)
                 | (Some d, s1) \<Rightarrow>
                     if 255 < length name
                     then (ERR_PTR (- ENAMETOOLONG), upd_dentry d (\<lambda>x. x\<lparr>d_count := 0\<rparr>) s1)
                     else (PTR d, upd_dentry d (\<lambda>x. x\<lparr>d_hashed := True\<rparr>) s1))))"

text \<open>
  \<open>myfs_create_by_name\<close>.  The last argument is what the caller's variable
  \<open>*dentry\<close> holds on entry; the result carries what it holds on return.  The test
  \<open>IS_ERR(dentry)\<close> of the source is applied to the address of that variable, not to
  the pointer \<open>lookup_one_len\<close> returned, and the address of a variable is never an
  error value: the branch that would return \<open>PTR_ERR\<close> is never taken.  Locking
  the mutex of \<open>parent->d_inode\<close> is an invalid access when the parent dentry is
  negative; the lock itself has no effect in a sequential run.
\<close>

definition myfs_create_by_name :: "kstate \<Rightarrow> string \<Rightarrow> 32 word \<Rightarrow> dref option \<Rightarrow> dentry_ptr \<Rightarrow> fault + (int \<times> dentry_ptr \<times> kstate)" where
  "myfs_create_by_name s name mode parent dentry =
     (let parent1 =
            (if parent = None then
               (case myfs_mount s of
                  None \<Rightarrow> None
                | Some mnt \<Rightarrow> (case mnt_sb mnt of None \<Rightarrow> None | Some sb \<Rightarrow> s_root sb))
             else parent)
      in case parent1 of
           None \<Rightarrow> Inr (- EFAULT, dentry, s)
         | Some p \<Rightarrow>
             (case d_inode (dentries s p) of
                None \<Rightarrow> Inl Oops
              | Some pinode \<Rightarrow>
                  (let (dentry1, s1) = lookup_one_len name p s
                   in case (if mode AND S_IFMT = S_IFDIR
                            then myfs_mkdir_000 s1 pinode dentry1 mode
                            else myfs_create_000 s1 pinode dentry1 mode) of
                        Inl f \<Rightarrow> Inl f
                      | Inr (error, s2) \<Rightarrow> Inr (error, dentry1, s2))))"

section \<open>Example states\<close>

text \<open>
  A kernel in which nothing has been allocated yet and the next four allocations
  succeed.
\<close>

definition boot :: kstate where
  "boot = \<lparr>inodes = (\<lambda>_. blank_inode),
      dentries = (\<lambda>_. \<lparr>d_parent = 0, d_name = [], d_inode = None, d_count = 0, d_hashed = False\<rparr>),
      i_next = 0, d_next = 0, alloc_plan = [True, True, True, True], now = 1000,
      last_ino = 0, fsuid = 0, fsgid = 0, fsetid_ok = True, myfs_mount = None\<rparr>"

text \<open>
  A mounted filesystem: the root directory (inode 0, dentry 0), a hashed negative
  dentry for the name \<open>a\<close> in the root (dentry 1), as a lookup leaves it before
  a create, and an unhashed negative dentry below the root (dentry 2), as it is
  handed to a tmpfile operation.  The next four allocations succeed.  In
  \<open>exhausted\<close> no memory is left.
\<close>

definition root_inode :: inode where
  "root_inode = blank_inode\<lparr>i_ino := 1, i_mode := S_IFDIR OR 0x1ED, i_nlink := 2,
     i_op := myfs_dir_inode_operations, i_fop := simple_dir_operations\<rparr>"

definition root_sb :: super_block where
  "root_sb = \<lparr>s_maxbytes = MAX_LFS_FILESIZE, s_blocksize = PAGE_SIZE,
     s_blocksize_bits = PAGE_SHIFT, s_magic = RAMFS_MAGIC, s_op = myfs_ops, s_time_gran = 1,
     s_root = Some 0, s_fs_info = \<lparr>mount_opts = \<lparr>opts_mode = RAMFS_DEFAULT_MODE\<rparr>\<rparr>\<rparr>"

definition mounted :: kstate where
  "mounted = \<lparr>inodes = (\<lambda>_. blank_inode)(0 := root_inode),
      dentries = (\<lambda>_. \<lparr>d_parent = 0, d_name = [], d_inode = None, d_count = 0, d_hashed = False\<rparr>)
        (0 := \<lparr>d_parent = 0, d_name = ''/'', d_inode = Some 0, d_count = 1, d_hashed = False\<rparr>,
         1 := \<lparr>d_parent = 0, d_name = ''a'', d_inode = None, d_count = 1, d_hashed = True\<rparr>,
         2 := \<lparr>d_parent = 0, d_name = ''/'', d_inode = None, d_count = 1, d_hashed = False\<rparr>),
      i_next = 1, d_next = 3, alloc_plan = [True, True, True, True], now = 1000,
      last_ino = 1, fsuid = 0, fsgid = 0, fsetid_ok = True,
      myfs_mount = Some \<lparr>mnt_sb = Some root_sb\<rparr>\<rparr>"

definition exhausted :: kstate where
  "exhausted = mounted\<lparr>alloc_plan := []\<rparr>"

text \<open>
  A filesystem whose root holds the regular file \<open>a\<close> (inode 1, dentry 1).
\<close>

definition populated :: kstate where
  "populated = \<lparr>inodes = (\<lambda>_. blank_inode)(0 := root_inode,
        1 := blank_inode\<lparr>i_ino := 2, i_mode := S_IFREG OR 0x124\<rparr>),
      dentries = (\<lambda>_. \<lparr>d_parent = 0, d_name = [], d_inode = None, d_count = 0, d_hashed = False\<rparr>)
        (0 := \<lparr>d_parent = 0, d_name = ''/'', d_inode = Some 0, d_count = 1, d_hashed = False\<rparr>,
         1 := \<lparr>d_parent = 0, d_name = ''a'', d_inode = Some 1, d_count = 2, d_hashed = True\<rparr>),
      i_next = 2, d_next = 2, alloc_plan = [True, True], now = 2000,
      last_ino = 2, fsuid = 0, fsgid = 0, fsetid_ok = True,
      myfs_mount = Some \<lparr>mnt_sb = Some root_sb\<rparr>\<rparr>"

text \<open>Mount options: \<open>mode=\<close> with a given value, and \<open>size=10M\<close>.\<close>

definition mode_option :: "string \<Rightarrow> fs_parameter" where
  "mode_option v = \<lparr>param_key = ''mode'', param_type = fs_value_is_string, param_string = v\<rparr>"

definition size_option :: fs_parameter where
  "size_option = \<lparr>param_key = ''size'', param_type = fs_value_is_string, param_string = ''10M''\<rparr>"

definition default_fs_info :: myfs_fs_info where
  "default_fs_info = \<lparr>mount_opts = \<lparr>opts_mode = RAMFS_DEFAULT_MODE\<rparr>\<rparr>"

section \<open>Effects of the kernel helpers\<close>

lemma upd_inode_simps [simp]:
  "inodes (upd_inode i f s) = (inodes s)(i := f (inodes s i))"
  "dentries (upd_inode i f s) = dentries s"
  "i_next (upd_inode i f s) = i_next s"
  "d_next (upd_inode i f s) = d_next s"
  "alloc_plan (upd_inode i f s) = alloc_plan s"
  "now (upd_inode i f s) = now s"
  "last_ino (upd_inode i f s) = last_ino s"
  "fsuid (upd_inode i f s) = fsuid s"
  "fsgid (upd_inode i f s) = fsgid s"
  "fsetid_ok (upd_inode i f s) = fsetid_ok s"
  "myfs_mount (upd_inode i f s) = myfs_mount s"
  by (simp_all add: upd_inode_def)

lemma upd_dentry_simps [simp]:
  "dentries (upd_dentry d f s) = (dentries s)(d := f (dentries s d))"
  "inodes (upd_dentry d f s) = inodes s"
  "i_next (upd_dentry d f s) = i_next s"
  "d_next (upd_dentry d f s) = d_next s"
  "alloc_plan (upd_dentry d f s) = alloc_plan s"
  "now (upd_dentry d f s) = now s"
  "last_ino (upd_dentry d f s) = last_ino s"
  "fsuid (upd_dentry d f s) = fsuid s"
  "fsgid (upd_dentry d f s) = fsgid s"
  "fsetid_ok (upd_dentry d f s) = fsetid_ok s"
  "myfs_mount (upd_dentry d f s) = myfs_mount s"
  by (simp_all add: upd_dentry_def)

lemma m1: "((m::16 word) OR S_ISGID) AND S_IFMT = m AND S_IFMT"
  unfolding S_ISGID_def S_IFMT_def
  by (simp add: bit.conj_disj_distrib2)

lemma m2: "((m::16 word) AND NOT S_ISGID) AND S_IFMT = m AND S_IFMT"
  unfolding S_ISGID_def S_IFMT_def
  by (simp add: and.assoc)

lemma inode_init_owner_frame [simp]:
  "dentries (inode_init_owner s inode dir mode) = dentries s"
  "i_next (inode_init_owner s inode dir mode) = i_next s"
  "d_next (inode_init_owner s inode dir mode) = d_next s"
  "alloc_plan (inode_init_owner s inode dir mode) = alloc_plan s"
  "now (inode_init_owner s inode dir mode) = now s"
  "last_ino (inode_init_owner s inode dir mode) = last_ino s"
  "myfs_mount (inode_init_owner s inode dir mode) = myfs_mount s"
  by (simp_all add: inode_init_owner_def Let_def split: option.split)

lemma inode_init_owner_other [simp]:
  "j \<noteq> inode \<Longrightarrow> inodes (inode_init_owner s inode dir mode) j = inodes s j"
  by (simp add: inode_init_owner_def Let_def split: option.split)

lemma inode_init_owner_same [simp]:
  "i_nlink (inodes (inode_init_owner s inode dir mode) inode) = i_nlink (inodes s inode)"
  "i_mode (inodes (inode_init_owner s inode dir mode) inode) AND S_IFMT = mode AND S_IFMT"
  "i_ino (inodes (inode_init_owner s inode dir mode) inode) = i_ino (inodes s inode)"
  by (simp_all add: inode_init_owner_def Let_def m1 m2 split: option.split)

lemma inode_init_owner_root [simp]:
  "i_mode (inodes (inode_init_owner s inode None mode) inode) = mode"
  by (simp add: inode_init_owner_def)

lemma init_special_inode_frame [simp]:
  "dentries (init_special_inode inode mode dev s) = dentries s"
  "i_next (init_special_inode inode mode dev s) = i_next s"
  "d_next (init_special_inode inode mode dev s) = d_next s"
  "alloc_plan (init_special_inode inode mode dev s) = alloc_plan s"
  "now (init_special_inode inode mode dev s) = now s"
  "last_ino (init_special_inode inode mode dev s) = last_ino s"
  "myfs_mount (init_special_inode inode mode dev s) = myfs_mount s"
  by (simp_all add: init_special_inode_def Let_def)

lemma init_special_inode_other [simp]:
  "j \<noteq> inode \<Longrightarrow> inodes (init_special_inode inode mode dev s) j = inodes s j"
  by (simp add: init_special_inode_def Let_def)

lemma init_special_inode_same [simp]:
  "i_nlink (inodes (init_special_inode inode mode dev s) inode) = i_nlink (inodes s inode)"
  "i_mode (inodes (init_special_inode inode mode dev s) inode) = mode"
  "i_ino (inodes (init_special_inode inode mode dev s) inode) = i_ino (inodes s inode)"
  "i_atime (inodes (init_special_inode inode mode dev s) inode) = i_atime (inodes s inode)"
  "i_mtime (inodes (init_special_inode inode mode dev s) inode) = i_mtime (inodes s inode)"
  "i_ctime (inodes (init_special_inode inode mode dev s) inode) = i_ctime (inodes s inode)"
  by (simp_all add: init_special_inode_def Let_def)

lemma S_IF_distinct16 [simp]:
  "(S_IFDIR :: 16 word) \<noteq> S_IFREG" "(S_IFREG :: 16 word) \<noteq> S_IFDIR"
  "(S_IFLNK :: 16 word) \<noteq> S_IFREG" "(S_IFREG :: 16 word) \<noteq> S_IFLNK"
  "(S_IFLNK :: 16 word) \<noteq> S_IFDIR" "(S_IFDIR :: 16 word) \<noteq> S_IFLNK"
  "(S_IFSOCK :: 16 word) \<noteq> S_IFDIR" "(S_IFSOCK :: 16 word) \<noteq> S_IFREG"
  by (simp_all add: S_IFDIR_def S_IFREG_def S_IFLNK_def S_IFSOCK_def)

lemma S_IF_distinct32 [simp]:
  "(S_IFDIR :: 32 word) \<noteq> S_IFREG" "(S_IFREG :: 32 word) \<noteq> S_IFDIR"
  by (simp_all add: S_IFDIR_def S_IFREG_def)

lemma get_next_ino_simps [simp]:
  "inodes (snd (get_next_ino s)) = inodes s"
  "dentries (snd (get_next_ino s)) = dentries s"
  "i_next (snd (get_next_ino s)) = i_next s"
  "d_next (snd (get_next_ino s)) = d_next s"
  "alloc_plan (snd (get_next_ino s)) = alloc_plan s"
  "now (snd (get_next_ino s)) = now s"
  "fsuid (snd (get_next_ino s)) = fsuid s"
  "fsgid (snd (get_next_ino s)) = fsgid s"
  "fsetid_ok (snd (get_next_ino s)) = fsetid_ok s"
  "myfs_mount (snd (get_next_ino s)) = myfs_mount s"
  by (simp_all add: get_next_ino_def Let_def)

lemma new_inode_None:
  "new_inode s = (None, s1) \<Longrightarrow>
     inodes s1 = inodes s \<and> dentries s1 = dentries s \<and> i_next s1 = i_next s
     \<and> d_next s1 = d_next s \<and> now s1 = now s \<and> myfs_mount s1 = myfs_mount s"
  by (auto simp: new_inode_def kalloc_def split: list.splits bool.splits)

lemma new_inode_Some:
  "new_inode s = (Some inode, s1) \<Longrightarrow>
     inode = i_next s \<and> alloc_plan s = True # alloc_plan s1
     \<and> inodes s1 = (inodes s)(i_next s := blank_inode) \<and> dentries s1 = dentries s
     \<and> i_next s1 = Suc (i_next s) \<and> d_next s1 = d_next s \<and> now s1 = now s
     \<and> myfs_mount s1 = myfs_mount s"
  by (auto simp: new_inode_def kalloc_def split: list.splits bool.splits)

lemma inc_nlink_simps [simp]:
  "inodes (inc_nlink i s) = (inodes s)(i := (inodes s i)\<lparr>i_nlink := i_nlink (inodes s i) + 1\<rparr>)"
  "dentries (inc_nlink i s) = dentries s"
  "i_next (inc_nlink i s) = i_next s"
  "d_next (inc_nlink i s) = d_next s"
  "alloc_plan (inc_nlink i s) = alloc_plan s"
  "now (inc_nlink i s) = now s"
  "myfs_mount (inc_nlink i s) = myfs_mount s"
  by (simp_all add: inc_nlink_def)

lemma myfs_get_inode_None:
  assumes "myfs_get_inode s dir mode dev = (None, s')"
  shows "inodes s' = inodes s \<and> dentries s' = dentries s \<and> i_next s' = i_next s
     \<and> d_next s' = d_next s \<and> now s' = now s"
proof -
  from assms have "new_inode s = (None, s')"
    by (simp add: myfs_get_inode_def Let_def split: prod.splits option.splits)
  then show ?thesis by (simp add: new_inode_None)
qed

lemma myfs_get_inode_Some:
  assumes "myfs_get_inode s dir mode dev = (Some inode, s')"
  shows "inode = i_next s"
    and "alloc_plan s = True # alloc_plan s'"
    and "i_next s' = Suc (i_next s)"
    and "dentries s' = dentries s"
    and "d_next s' = d_next s"
    and "now s' = now s"
    and "j \<noteq> i_next s \<Longrightarrow> inodes s' j = inodes s j"
    and "i_nlink (inodes s' inode) = (if mode AND S_IFMT = S_IFDIR then 2 else 1)"
    and "i_mode (inodes s' inode) AND S_IFMT = mode AND S_IFMT"
    and "i_mtime (inodes s' inode) = now s"
    and "i_ctime (inodes s' inode) = now s"
    and "dir = None \<Longrightarrow> i_mode (inodes s' inode) = mode"
proof -
  obtain r s1 where n: "new_inode s = (r, s1)" by (cases "new_inode s")
  with assms obtain i where r: "r = Some i"
    by (cases r) (simp_all add: myfs_get_inode_def)
  note p = new_inode_Some [OF n [unfolded r]]
  obtain ino s2 where g: "get_next_ino s1 = (ino, s2)" by (cases "get_next_ino s1")
  have s2: "s2 = snd (get_next_ino s1)" using g by simp
  have i: "inode = i" using assms n r g by (simp add: myfs_get_inode_def Let_def)
  have "s' = snd (myfs_get_inode s dir mode dev)" using assms by simp
  also have "\<dots> = 
     (let s3 = upd_inode inode (\<lambda>i. i\<lparr>i_ino := ino\<rparr>) s2;
               s4 = inode_init_owner s3 inode dir mode;
               t = current_time s4;
               s5 = upd_inode inode (\<lambda>i. i\<lparr>i_atime := t, i_mtime := t, i_ctime := t\<rparr>) s4
      in  (if mode AND S_IFMT = S_IFREG then
                       upd_inode inode (\<lambda>i. i\<lparr>i_op := myfs_file_inode_operations,
                                               i_fop := myfs_file_operations\<rparr>) s5
                     else if mode AND S_IFMT = S_IFDIR then
                       inc_nlink inode
                         (upd_inode inode (\<lambda>i. i\<lparr>i_op := myfs_dir_inode_operations,
                                                 i_fop := simple_dir_operations\<rparr>) s5)
                     else if mode AND S_IFMT = S_IFLNK then
                       upd_inode inode (\<lambda>i. i\<lparr>i_op := page_symlink_inode_operations\<rparr>) s5
                     else init_special_inode inode mode dev s5))"
    using n r g i by (simp add: myfs_get_inode_def Let_def)
  finally have s': "s' = 
     (let s3 = upd_inode inode (\<lambda>i. i\<lparr>i_ino := ino\<rparr>) s2;
               s4 = inode_init_owner s3 inode dir mode;
               t = current_time s4;
               s5 = upd_inode inode (\<lambda>i. i\<lparr>i_atime := t, i_mtime := t, i_ctime := t\<rparr>) s4
      in  (if mode AND S_IFMT = S_IFREG then
                       upd_inode inode (\<lambda>i. i\<lparr>i_op := myfs_file_inode_operations,
                                               i_fop := myfs_file_operations\<rparr>) s5
                     else if mode AND S_IFMT = S_IFDIR then
                       inc_nlink inode
                         (upd_inode inode (\<lambda>i. i\<lparr>i_op := myfs_dir_inode_operations,
                                                 i_fop := simple_dir_operations\<rparr>) s5)
                     else if mode AND S_IFMT = S_IFLNK then
                       upd_inode inode (\<lambda>i. i\<lparr>i_op := page_symlink_inode_operations\<rparr>) s5
                     else init_special_inode inode mode dev s5))" .
  show "inode = i_next s" using i p by simp
  show "alloc_plan s = True # alloc_plan s'" using p by (simp add: s' s2 Let_def)
  show "i_next s' = Suc (i_next s)" using p by (simp add: s' s2 Let_def)
  show "dentries s' = dentries s" using p by (simp add: s' s2 Let_def)
  show "d_next s' = d_next s" using p by (simp add: s' s2 Let_def)
  show "now s' = now s" using p by (simp add: s' s2 Let_def)
  show "j \<noteq> i_next s \<Longrightarrow> inodes s' j = inodes s j" using p i by (simp add: s' s2 Let_def)
  show "i_nlink (inodes s' inode) = (if mode AND S_IFMT = S_IFDIR then 2 else 1)"
    using p i by (simp add: s' s2 Let_def blank_inode_def)
  show "i_mode (inodes s' inode) AND S_IFMT = mode AND S_IFMT"
    using p i by (simp add: s' s2 Let_def)
  show "i_mtime (inodes s' inode) = now s" using p i by (simp add: s' s2 Let_def current_time_def)
  show "i_ctime (inodes s' inode) = now s" using p i by (simp add: s' s2 Let_def current_time_def)
  show "dir = None \<Longrightarrow> i_mode (inodes s' inode) = mode" using p i by (simp add: s' s2 Let_def)
qed

lemma m3: "(ucast (m::32 word) :: 16 word) AND S_IFMT = ucast (m AND S_IFMT)"
  unfolding S_IFMT_def
  by (simp add: unsigned_and_eq)

lemma ucast_fmt_back: "(ucast (ucast ((m::32 word) AND S_IFMT) :: 16 word) :: 32 word) = m AND S_IFMT"
  unfolding S_IFMT_def
  by (simp add: unsigned_ucast_eq take_bit_eq_mask and.assoc mask_eq_exp_minus_1)

lemma S_ISDIR_ucast: "((ucast (m::32 word) :: 16 word) AND S_IFMT = S_IFDIR) = (m AND S_IFMT = S_IFDIR)"
proof
  assume "(ucast m :: 16 word) AND S_IFMT = S_IFDIR"
  then have "(ucast (ucast (m AND S_IFMT) :: 16 word) :: 32 word) = ucast (S_IFDIR :: 16 word)"
    by (simp add: m3)
  then show "m AND S_IFMT = S_IFDIR"
    by (simp add: ucast_fmt_back) (simp add: S_IFDIR_def)
next
  assume "m AND S_IFMT = S_IFDIR"
  then show "(ucast m :: 16 word) AND S_IFMT = S_IFDIR"
    by (simp add: m3) (simp add: S_IFDIR_def)
qed

lemma myfs_get_inode_000_None:
  assumes "myfs_get_inode_000 s mode dev = (None, s')"
  shows "inodes s' = inodes s \<and> dentries s' = dentries s \<and> i_next s' = i_next s
     \<and> d_next s' = d_next s \<and> now s' = now s \<and> myfs_mount s' = myfs_mount s"
proof -
  from assms have "new_inode s = (None, s')"
    by (simp add: myfs_get_inode_000_def Let_def split: prod.splits option.splits)
  then show ?thesis by (simp add: new_inode_None)
qed

lemma myfs_get_inode_000_Some:
  assumes "myfs_get_inode_000 s mode dev = (Some inode, s')"
  shows "inode = i_next s"
    and "alloc_plan s = True # alloc_plan s'"
    and "i_next s' = Suc (i_next s)"
    and "dentries s' = dentries s"
    and "d_next s' = d_next s"
    and "now s' = now s"
    and "myfs_mount s' = myfs_mount s"
    and "j \<noteq> i_next s \<Longrightarrow> inodes s' j = inodes s j"
    and "i_nlink (inodes s' inode) = (if mode AND S_IFMT = S_IFDIR then 2 else 1)"
    and "i_mode (inodes s' inode) = ucast mode"
proof -
  obtain r s1 where n: "new_inode s = (r, s1)" by (cases "new_inode s")
  with assms obtain i where r: "r = Some i"
    by (cases r) (simp_all add: myfs_get_inode_000_def)
  note p = new_inode_Some [OF n [unfolded r]]
  have i: "inode = i" using assms n r by (simp add: myfs_get_inode_000_def Let_def)
  have "s' = snd (myfs_get_inode_000 s mode dev)" using assms by simp
  then have s': "s' =
          (let t = current_time s1;
               s2 = upd_inode inode
                      (\<lambda>i. i\<lparr>i_mode := ucast mode, i_uid := fsuid s1, i_gid := fsgid s1,
                             i_blocks := 0, i_atime := t, i_mtime := t, i_ctime := t\<rparr>) s1
           in (if mode AND S_IFMT = S_IFREG then s2
                     else if mode AND S_IFMT = S_IFDIR then
                       upd_inode inode
                         (\<lambda>i. i\<lparr>i_op := simple_dir_inode_operations,
                                i_fop := simple_dir_operations,
                                i_nlink := i_nlink i + 1\<rparr>) s2
                     else init_special_inode inode (ucast mode) dev s2))"
    using n r i by (simp add: myfs_get_inode_000_def Let_def)
  show "inode = i_next s" using i p by simp
  show "alloc_plan s = True # alloc_plan s'" using p by (simp add: s' Let_def)
  show "i_next s' = Suc (i_next s)" using p by (simp add: s' Let_def)
  show "dentries s' = dentries s" using p by (simp add: s' Let_def)
  show "d_next s' = d_next s" using p by (simp add: s' Let_def)
  show "now s' = now s" using p by (simp add: s' Let_def)
  show "myfs_mount s' = myfs_mount s" using p by (simp add: s' Let_def)
  show "j \<noteq> i_next s \<Longrightarrow> inodes s' j = inodes s j" using p i by (simp add: s' Let_def)
  show "i_nlink (inodes s' inode) = (if mode AND S_IFMT = S_IFDIR then 2 else 1)"
    using p i by (simp add: s' Let_def blank_inode_def)
  show "i_mode (inodes s' inode) = ucast mode"
    using p i by (simp add: s' Let_def)
qed

lemma dget_simps [simp]:
  "dentries (dget d s) = (dentries s)(d := (dentries s d)\<lparr>d_count := Suc (d_count (dentries s d))\<rparr>)"
  "inodes (dget d s) = inodes s"
  "i_next (dget d s) = i_next s"
  "d_next (dget d s) = d_next s"
  "alloc_plan (dget d s) = alloc_plan s"
  "now (dget d s) = now s"
  "myfs_mount (dget d s) = myfs_mount s"
  by (simp_all add: dget_def)

lemma d_instantiate_Inr:
  "d_instantiate dentry inode s = Inr s' \<longleftrightarrow>
     d_inode (dentries s dentry) = None
     \<and> s' = upd_dentry dentry (\<lambda>d. d\<lparr>d_inode := Some inode\<rparr>) s"
  by (auto simp: d_instantiate_def)

lemma d_instantiate_Inl:
  "d_instantiate dentry inode s = Inl f \<longleftrightarrow> d_inode (dentries s dentry) \<noteq> None \<and> f = BUG"
  by (auto simp: d_instantiate_def)

lemma errno_nonzero [simp]:
  "ENOSPC \<noteq> 0" "EPERM \<noteq> 0" "EEXIST \<noteq> 0" "ENOMEM \<noteq> 0" "EFAULT \<noteq> 0"
  "EINVAL \<noteq> 0" "ENOPARAM \<noteq> 0"
  by (simp_all add: ENOSPC_def EPERM_def EEXIST_def ENOMEM_def EFAULT_def EINVAL_def ENOPARAM_def)

lemma myfs_mknod_ok:
  assumes "myfs_mknod s dir dentry mode dev = Inr (0, s')"
  obtains s1 where "myfs_get_inode s (Some dir) mode dev = (Some (i_next s), s1)"
    and "d_inode (dentries s dentry) = None"
    and "s' = upd_inode dir (\<lambda>i. i\<lparr>i_mtime := now s, i_ctime := now s\<rparr>)
               (dget dentry (upd_dentry dentry (\<lambda>d. d\<lparr>d_inode := Some (i_next s)\<rparr>) s1))"
proof -
  obtain r s1 where g: "myfs_get_inode s (Some dir) mode dev = (r, s1)"
    by (cases "myfs_get_inode s (Some dir) mode dev")
  from assms g obtain inode where r: "r = Some inode"
    by (cases r) (simp_all add: myfs_mknod_def)
  note p = myfs_get_inode_Some [OF g [unfolded r]]
  from assms g r obtain s2 where i: "d_instantiate dentry inode s1 = Inr s2"
    by (cases "d_instantiate dentry inode s1") (simp_all add: myfs_mknod_def)
  from assms g r i have "s' = upd_inode dir (\<lambda>i. i\<lparr>i_mtime := now s, i_ctime := now s\<rparr>) (dget dentry s2)"
    using p(6) by (simp add: myfs_mknod_def Let_def current_time_def d_instantiate_Inr)
  with i p g r that show thesis
    by (simp add: d_instantiate_Inr)
qed

lemma myfs_mknod_fail:
  assumes "myfs_mknod s dir dentry mode dev = Inr (r, s')" and "r \<noteq> 0"
  shows "r = - ENOSPC" and "myfs_get_inode s (Some dir) mode dev = (None, s')"
    and "inodes s' = inodes s" and "dentries s' = dentries s"
    and "d_next s' = d_next s" and "i_next s' = i_next s"
proof -
  obtain x s1 where g: "myfs_get_inode s (Some dir) mode dev = (x, s1)"
    by (cases "myfs_get_inode s (Some dir) mode dev")
  have x: "x = None"
  proof (cases x)
    case (Some inode)
    with assms g show ?thesis
      by (cases "d_instantiate dentry inode s1") (simp_all add: myfs_mknod_def Let_def)
  qed simp
  from assms g x show "r = - ENOSPC" and e: "myfs_get_inode s (Some dir) mode dev = (None, s')"
    by (simp_all add: myfs_mknod_def)
  from myfs_get_inode_None [OF e]
  show "inodes s' = inodes s" and "dentries s' = dentries s"
    and "d_next s' = d_next s" and "i_next s' = i_next s"
    by simp_all
qed

lemma myfs_mknod_progress:
  assumes "alloc_plan s = True # bs" and "d_inode (dentries s dentry) = None"
  shows "\<exists>s'. myfs_mknod s dir dentry mode dev = Inr (0, s')"
proof -
  obtain r s1 where g: "myfs_get_inode s (Some dir) mode dev = (r, s1)"
    by (cases "myfs_get_inode s (Some dir) mode dev")
  from assms g obtain inode where r: "r = Some inode"
    by (cases r) (auto simp: myfs_get_inode_def new_inode_def kalloc_def Let_def split: prod.splits)
  note p = myfs_get_inode_Some [OF g [unfolded r]]
  show ?thesis using g r assms p(4)
    by (simp add: myfs_mknod_def d_instantiate_def Let_def)
qed

lemma myfs_mknod_enospc:
  assumes "alloc_plan s = [] \<or> (\<exists>bs. alloc_plan s = False # bs)"
  shows "\<exists>s'. myfs_mknod s dir dentry mode dev = Inr (- ENOSPC, s')"
  using assms
  by (auto simp: myfs_mknod_def myfs_get_inode_def new_inode_def kalloc_def)

lemma d_lookup_Some:
  "d_lookup s p n = Some d \<Longrightarrow>
     d < d_next s \<and> d_hashed (dentries s d) \<and> d_parent (dentries s d) = p
     \<and> d_name (dentries s d) = n"
  by (auto simp: d_lookup_def find_Some_iff)

lemma d_lookup_cong:
  assumes "d_next s' = d_next s"
    and "\<And>d. d < d_next s \<Longrightarrow> d_hashed (dentries s' d) = d_hashed (dentries s d)
           \<and> (d_hashed (dentries s d) \<longrightarrow> d_parent (dentries s' d) = d_parent (dentries s d)
           \<and> d_name (dentries s' d) = d_name (dentries s d))"
  shows "d_lookup s' p n = d_lookup s p n"
  unfolding d_lookup_def using assms
  by (auto intro!: find_cong)

subsection \<open>Allocation in the example states\<close>

lemma gi_boot: "fst (myfs_get_inode boot None m d) = Some 0"
  by (simp add: myfs_get_inode_def new_inode_def kalloc_def boot_def Let_def split: prod.split)

lemma gi0_boot: "fst (myfs_get_inode_000 boot m d) = Some 0"
  by (simp add: myfs_get_inode_000_def new_inode_def kalloc_def boot_def Let_def split: prod.split)

lemma gi_boot5: "fst (myfs_get_inode boot (Some 5) m d) = Some 0"
  by (simp add: myfs_get_inode_def new_inode_def kalloc_def boot_def Let_def split: prod.split)

subsection \<open>The directory operations of myfs.c\<close>

lemma myfs_mkdir_ok:
  assumes "myfs_mkdir s dir dentry mode = Inr (0, s')"
  obtains s1 where "myfs_mknod s dir dentry (mode OR S_IFDIR) 0 = Inr (0, s1)"
    and "s' = inc_nlink dir s1"
  using assms
  by (auto simp: myfs_mkdir_def split: sum.splits prod.splits if_splits)

lemma myfs_mkdir_fail:
  assumes "myfs_mkdir s dir dentry mode = Inr (r, s')" and "r \<noteq> 0"
  shows "myfs_mknod s dir dentry (mode OR S_IFDIR) 0 = Inr (r, s')"
  using assms
  by (auto simp: myfs_mkdir_def split: sum.splits prod.splits if_splits)

lemma lookup_instantiated:
  assumes "d_next s' = d_next s"
    and "\<And>d. d_hashed (dentries s' d) = d_hashed (dentries s d)
            \<and> d_parent (dentries s' d) = d_parent (dentries s d)
            \<and> d_name (dentries s' d) = d_name (dentries s d)"
  shows "d_lookup s' p n = d_lookup s p n"
    and "lookup s' p n = (case d_lookup s p n of None \<Rightarrow> None | Some d \<Rightarrow> d_inode (dentries s' d))"
proof -
  show "d_lookup s' p n = d_lookup s p n"
    using assms by (intro d_lookup_cong) simp_all
  then show "lookup s' p n = (case d_lookup s p n of None \<Rightarrow> None | Some d \<Rightarrow> d_inode (dentries s' d))"
    by (simp add: lookup_def)
qed

lemma myfs_mknod_effect:
  assumes "myfs_mknod s dir dentry mode dev = Inr (0, s')"
  shows "d_inode (dentries s' dentry) = Some (i_next s)"
    and "d_inode (dentries s dentry) = None"
    and "d \<noteq> dentry \<Longrightarrow> dentries s' d = dentries s d"
    and "d_next s' = d_next s"
    and "i_next s' = Suc (i_next s)"
    and "d_lookup s' p n = d_lookup s p n"
    and "i_mtime (inodes s' dir) = now s"
    and "i_ctime (inodes s' dir) = now s"
    and "dir \<noteq> i_next s \<Longrightarrow> i_nlink (inodes s' dir) = i_nlink (inodes s dir)"
    and "dir \<noteq> i_next s \<Longrightarrow> i_nlink (inodes s' (i_next s)) = (if mode AND S_IFMT = S_IFDIR then 2 else 1)"
    and "dir \<noteq> i_next s \<Longrightarrow> i_mode (inodes s' (i_next s)) AND S_IFMT = mode AND S_IFMT"
    and "j \<noteq> i_next s \<Longrightarrow> j \<noteq> dir \<Longrightarrow> inodes s' j = inodes s j"
proof -
  from assms obtain s1 where g: "myfs_get_inode s (Some dir) mode dev = (Some (i_next s), s1)"
    and neg: "d_inode (dentries s dentry) = None"
    and s': "s' = upd_inode dir (\<lambda>i. i\<lparr>i_mtime := now s, i_ctime := now s\<rparr>)
               (dget dentry (upd_dentry dentry (\<lambda>d. d\<lparr>d_inode := Some (i_next s)\<rparr>) s1))"
    by (rule myfs_mknod_ok)
  note p = myfs_get_inode_Some [OF g]
  show "d_inode (dentries s' dentry) = Some (i_next s)" by (simp add: s')
  show "d_inode (dentries s dentry) = None" by (rule neg)
  show "d \<noteq> dentry \<Longrightarrow> dentries s' d = dentries s d" by (simp add: s' p(4))
  show dn: "d_next s' = d_next s" by (simp add: s' p(5))
  show "i_next s' = Suc (i_next s)" by (simp add: s' p(3))
  show "d_lookup s' p n = d_lookup s p n"
    by (rule lookup_instantiated(1) [OF dn]) (simp add: s' p(4))
  show "i_mtime (inodes s' dir) = now s" by (simp add: s')
  show "i_ctime (inodes s' dir) = now s" by (simp add: s')
  show "dir \<noteq> i_next s \<Longrightarrow> i_nlink (inodes s' dir) = i_nlink (inodes s dir)"
    by (simp add: s' p(7))
  show "dir \<noteq> i_next s \<Longrightarrow> i_nlink (inodes s' (i_next s)) = (if mode AND S_IFMT = S_IFDIR then 2 else 1)"
    using p(8) by (simp add: s')
  show "dir \<noteq> i_next s \<Longrightarrow> i_mode (inodes s' (i_next s)) AND S_IFMT = mode AND S_IFMT"
    using p(9) by (simp add: s')
  show "j \<noteq> i_next s \<Longrightarrow> j \<noteq> dir \<Longrightarrow> inodes s' j = inodes s j"
    by (simp add: s' p(7))
qed

lemma page_symlink_simps:
  "page_symlink inode symname len s = (r, s') \<Longrightarrow>
     dentries s' = dentries s \<and> d_next s' = d_next s \<and> i_next s' = i_next s \<and> now s' = now s
     \<and> (\<forall>j. j \<noteq> inode \<longrightarrow> inodes s' j = inodes s j)
     \<and> i_nlink (inodes s' inode) = i_nlink (inodes s inode)
     \<and> i_mode (inodes s' inode) = i_mode (inodes s inode)
     \<and> (r = 0 \<or> r = - ENOMEM)"
  by (auto simp: page_symlink_def kalloc_def split: list.splits bool.splits)

lemma myfs_symlink_effect:
  assumes "myfs_symlink s dir dentry symname = Inr (0, s')"
  shows "d_inode (dentries s' dentry) = Some (i_next s)"
    and "d_inode (dentries s dentry) = None"
    and "d_next s' = d_next s"
    and "d_lookup s' p n = d_lookup s p n"
    and "i_mtime (inodes s' dir) = now s"
    and "i_ctime (inodes s' dir) = now s"
    and "j \<noteq> i_next s \<Longrightarrow> j \<noteq> dir \<Longrightarrow> inodes s' j = inodes s j"
proof -
  obtain r s1 where g: "myfs_get_inode s (Some dir) (S_IFLNK OR S_IRWXUGO) 0 = (r, s1)"
    by (cases "myfs_get_inode s (Some dir) (S_IFLNK OR S_IRWXUGO) 0")
  from assms g obtain inode where r: "r = Some inode"
    by (cases r) (simp_all add: myfs_symlink_def)
  note p = myfs_get_inode_Some [OF g [unfolded r]]
  obtain e s2 where ps: "page_symlink inode symname (length symname + 1) s1 = (e, s2)"
    by (cases "page_symlink inode symname (length symname + 1) s1")
  note q = page_symlink_simps [OF ps]
  from assms g r ps have e: "e = 0"
    by (cases "e = 0") (simp_all add: myfs_symlink_def Let_def)
  from assms g r ps e obtain s3 where i: "d_instantiate dentry inode s2 = Inr s3"
    by (cases "d_instantiate dentry inode s2") (simp_all add: myfs_symlink_def Let_def)
  from i have s3: "s3 = upd_dentry dentry (\<lambda>d. d\<lparr>d_inode := Some inode\<rparr>) s2"
    and neg: "d_inode (dentries s2 dentry) = None"
    by (simp_all add: d_instantiate_Inr)
  have n2: "now s2 = now s" using q p(6) by simp
  from assms g r ps e i
  have s': "s' = upd_inode dir (\<lambda>i. i\<lparr>i_mtime := now s, i_ctime := now s\<rparr>)
               (dget dentry (upd_dentry dentry (\<lambda>d. d\<lparr>d_inode := Some inode\<rparr>) s2))"
    by (simp add: myfs_symlink_def Let_def current_time_def s3 n2)
  show "d_inode (dentries s' dentry) = Some (i_next s)" using p(1) by (simp add: s')
  show "d_inode (dentries s dentry) = None" using neg q p(4) by simp
  show dn: "d_next s' = d_next s" using q p(5) by (simp add: s')
  show "d_lookup s' p n = d_lookup s p n"
    by (rule lookup_instantiated(1) [OF dn]) (simp add: s' q p(4))
  show "i_mtime (inodes s' dir) = now s" by (simp add: s')
  show "i_ctime (inodes s' dir) = now s" by (simp add: s')
  show "j \<noteq> i_next s \<Longrightarrow> j \<noteq> dir \<Longrightarrow> inodes s' j = inodes s j"
    using q p(1) p(7) by (simp add: s')
qed

lemma drop_nlink_simps [simp]:
  "inodes (drop_nlink i s) = (inodes s)(i := (inodes s i)\<lparr>i_nlink := i_nlink (inodes s i) - 1\<rparr>)"
  "dentries (drop_nlink i s) = dentries s"
  "i_next (drop_nlink i s) = i_next s"
  "d_next (drop_nlink i s) = d_next s"
  "alloc_plan (drop_nlink i s) = alloc_plan s"
  "now (drop_nlink i s) = now s"
  "myfs_mount (drop_nlink i s) = myfs_mount s"
  by (simp_all add: drop_nlink_def)

lemma d_tmpfile_Inr:
  "d_tmpfile dentry inode s = Inr s' \<longleftrightarrow>
     d_inode (dentries s dentry) = None \<and> \<not> d_hashed (dentries s dentry)
     \<and> s' = upd_dentry dentry (\<lambda>d. d\<lparr>d_inode := Some inode\<rparr>)
              (upd_dentry dentry
                 (\<lambda>d. d\<lparr>d_name := CHR ''#'' # show_dec (unat (i_ino (inodes s inode)))\<rparr>)
                 (drop_nlink inode s))"
  by (auto simp: d_tmpfile_def d_instantiate_def Let_def)

lemma myfs_tmpfile_effect:
  assumes "myfs_tmpfile s dir dentry mode = Inr (0, s')"
  shows "d_inode (dentries s' dentry) = Some (i_next s)"
    and "d_inode (dentries s dentry) = None"
    and "\<not> d_hashed (dentries s dentry)"
    and "\<not> d_hashed (dentries s' dentry)"
    and "d \<noteq> dentry \<Longrightarrow> dentries s' d = dentries s d"
    and "d_next s' = d_next s"
    and "d_lookup s' p n = d_lookup s p n"
    and "j \<noteq> i_next s \<Longrightarrow> inodes s' j = inodes s j"
    and "i_nlink (inodes s' (i_next s)) = (if mode AND S_IFMT = S_IFDIR then 1 else 0)"
    and "i_mode (inodes s' (i_next s)) AND S_IFMT = mode AND S_IFMT"
proof -
  obtain r s1 where g: "myfs_get_inode s (Some dir) mode 0 = (r, s1)"
    by (cases "myfs_get_inode s (Some dir) mode 0")
  from assms g obtain inode where r: "r = Some inode"
    by (cases r) (simp_all add: myfs_tmpfile_def)
  note p = myfs_get_inode_Some [OF g [unfolded r]]
  from assms g r obtain s2 where t: "d_tmpfile dentry inode s1 = Inr s2" and s2: "s' = s2"
    by (cases "d_tmpfile dentry inode s1") (simp_all add: myfs_tmpfile_def)
  from t s2 have neg: "d_inode (dentries s1 dentry) = None"
    and unh: "\<not> d_hashed (dentries s1 dentry)"
    and s': "s' = upd_dentry dentry (\<lambda>d. d\<lparr>d_inode := Some inode\<rparr>)
              (upd_dentry dentry
                 (\<lambda>d. d\<lparr>d_name := CHR ''#'' # show_dec (unat (i_ino (inodes s1 inode)))\<rparr>)
                 (drop_nlink inode s1))"
    by (simp_all add: d_tmpfile_Inr)
  show "d_inode (dentries s' dentry) = Some (i_next s)" using p(1) by (simp add: s')
  show "d_inode (dentries s dentry) = None" using neg p(4) by simp
  show u: "\<not> d_hashed (dentries s dentry)" using unh p(4) by simp
  show "\<not> d_hashed (dentries s' dentry)" using unh by (simp add: s')
  show "d \<noteq> dentry \<Longrightarrow> dentries s' d = dentries s d" by (simp add: s' p(4))
  show dn: "d_next s' = d_next s" by (simp add: s' p(5))
  show "d_lookup s' p n = d_lookup s p n"
    by (rule d_lookup_cong [OF dn]) (use u in \<open>simp add: s' p(4)\<close>)
  show "j \<noteq> i_next s \<Longrightarrow> inodes s' j = inodes s j"
    using p(1) p(7) by (simp add: s')
  show "i_nlink (inodes s' (i_next s)) = (if mode AND S_IFMT = S_IFDIR then 1 else 0)"
    using p(1) p(8) by (simp add: s')
  show "i_mode (inodes s' (i_next s)) AND S_IFMT = mode AND S_IFMT"
    using p(1) p(9) by (simp add: s')
qed

subsection \<open>The operations of part_000\<close>

lemma myfs_mknod_000_effect:
  assumes "myfs_mknod_000 s dir dentry mode dev = Inr (0, s')"
  obtains d where "dentry = PTR d"
    and "d_inode (dentries s d) = None"
    and "d_inode (dentries s' d) = Some (i_next s)"
    and "\<And>x. x \<noteq> d \<Longrightarrow> dentries s' x = dentries s x"
    and "d_next s' = d_next s"
    and "i_next s' = Suc (i_next s)"
    and "myfs_mount s' = myfs_mount s"
    and "\<And>p n. d_lookup s' p n = d_lookup s p n"
    and "\<And>j. j \<noteq> i_next s \<Longrightarrow> inodes s' j = inodes s j"
    and "i_nlink (inodes s' (i_next s)) = (if mode AND S_IFMT = S_IFDIR then 2 else 1)"
    and "i_mode (inodes s' (i_next s)) = ucast mode"
proof -
  from assms obtain d where d: "dentry = PTR d"
    by (cases dentry) (simp_all add: myfs_mknod_000_def)
  from assms d have neg: "d_inode (dentries s d) = None"
    by (cases "d_inode (dentries s d)") (simp_all add: myfs_mknod_000_def)
  obtain r s1 where g: "myfs_get_inode_000 s mode dev = (r, s1)"
    by (cases "myfs_get_inode_000 s mode dev")
  from assms d neg g obtain inode where r: "r = Some inode"
    by (cases r) (simp_all add: myfs_mknod_000_def)
  note p = myfs_get_inode_000_Some [OF g [unfolded r]]
  from assms d neg g r p(1,4)
  have s': "s' = dget d (upd_dentry d (\<lambda>x. x\<lparr>d_inode := Some (i_next s)\<rparr>) s1)"
    by (simp add: myfs_mknod_000_def d_instantiate_def)
  have dn: "d_next s' = d_next s" by (simp add: s' p(5))
  show thesis
  proof (rule that [OF d neg])
    show "d_inode (dentries s' d) = Some (i_next s)" by (simp add: s')
    show "\<And>x. x \<noteq> d \<Longrightarrow> dentries s' x = dentries s x" by (simp add: s' p(4))
    show "d_next s' = d_next s" by (rule dn)
    show "i_next s' = Suc (i_next s)" by (simp add: s' p(3))
    show "myfs_mount s' = myfs_mount s" by (simp add: s' p(7))
    show "\<And>p n. d_lookup s' p n = d_lookup s p n"
      by (rule lookup_instantiated(1) [OF dn]) (simp add: s' p(4))
    show "\<And>j. j \<noteq> i_next s \<Longrightarrow> inodes s' j = inodes s j" by (simp add: s' p(8))
    show "i_nlink (inodes s' (i_next s)) = (if mode AND S_IFMT = S_IFDIR then 2 else 1)"
      using p(1) p(9) by (simp add: s')
    show "i_mode (inodes s' (i_next s)) = ucast mode"
      using p(1) p(10) by (simp add: s')
  qed
qed

lemma myfs_mknod_000_fail:
  assumes "myfs_mknod_000 s dir dentry mode dev = Inr (r, s')" and "r \<noteq> 0"
  shows "r = - EEXIST \<or> r = - EPERM"
    and "inodes s' = inodes s" and "dentries s' = dentries s"
    and "d_next s' = d_next s" and "i_next s' = i_next s" and "myfs_mount s' = myfs_mount s"
    and "r = - EEXIST \<longleftrightarrow> (\<exists>d. dentry = PTR d \<and> d_inode (dentries s d) \<noteq> None)"
proof -
  from assms obtain d where d: "dentry = PTR d"
    by (cases dentry) (simp_all add: myfs_mknod_000_def)
  have "(r = - EEXIST \<or> r = - EPERM) \<and> inodes s' = inodes s \<and> dentries s' = dentries s
     \<and> d_next s' = d_next s \<and> i_next s' = i_next s \<and> myfs_mount s' = myfs_mount s
     \<and> (r = - EEXIST \<longleftrightarrow> d_inode (dentries s d) \<noteq> None)"
  proof (cases "d_inode (dentries s d)")
    case (Some x)
    with assms d show ?thesis by (simp add: myfs_mknod_000_def)
  next
    case None
    obtain x s1 where g: "myfs_get_inode_000 s mode dev = (x, s1)"
      by (cases "myfs_get_inode_000 s mode dev")
    have x: "x = None"
    proof (cases x)
      case (Some inode)
      with assms d None g show ?thesis
        by (cases "d_instantiate d inode s1") (simp_all add: myfs_mknod_000_def)
    qed simp
    from assms d None g x have "r = - EPERM" and "s' = s1"
      by (simp_all add: myfs_mknod_000_def)
    with myfs_get_inode_000_None [OF g [unfolded x]] None show ?thesis
      by (simp add: EPERM_def EEXIST_def)
  qed
  with d show "r = - EEXIST \<or> r = - EPERM"
    and "inodes s' = inodes s" and "dentries s' = dentries s"
    and "d_next s' = d_next s" and "i_next s' = i_next s" and "myfs_mount s' = myfs_mount s"
    and "r = - EEXIST \<longleftrightarrow> (\<exists>d. dentry = PTR d \<and> d_inode (dentries s d) \<noteq> None)"
    by auto
qed

lemma myfs_mknod_000_exists:
  "d_inode (dentries s d) \<noteq> None \<Longrightarrow> myfs_mknod_000 s dir (PTR d) mode dev = Inr (- EEXIST, s)"
  by (simp add: myfs_mknod_000_def)

lemma myfs_mknod_000_progress:
  assumes "alloc_plan s = True # bs" and "d_inode (dentries s d) = None"
  shows "\<exists>s'. myfs_mknod_000 s dir (PTR d) mode dev = Inr (0, s')"
proof -
  obtain r s1 where g: "myfs_get_inode_000 s mode dev = (r, s1)"
    by (cases "myfs_get_inode_000 s mode dev")
  from assms g obtain inode where r: "r = Some inode"
    by (cases r) (auto simp: myfs_get_inode_000_def new_inode_def kalloc_def Let_def)
  note p = myfs_get_inode_000_Some [OF g [unfolded r]]
  show ?thesis using g r assms p(4)
    by (simp add: myfs_mknod_000_def d_instantiate_def)
qed

lemma myfs_mkdir_000_ok:
  assumes "myfs_mkdir_000 s dir dentry mode = Inr (0, s')"
  obtains s1 where "myfs_mknod_000 s dir dentry (mode OR S_IFDIR) 0 = Inr (0, s1)"
    and "s' = upd_inode dir (\<lambda>i. i\<lparr>i_nlink := i_nlink i + 1\<rparr>) s1"
  using assms
  by (auto simp: myfs_mkdir_000_def split: sum.splits prod.splits if_splits)

lemma myfs_mkdir_000_fail:
  assumes "myfs_mkdir_000 s dir dentry mode = Inr (r, s')" and "r \<noteq> 0"
  shows "myfs_mknod_000 s dir dentry (mode OR S_IFDIR) 0 = Inr (r, s')"
  using assms
  by (auto simp: myfs_mkdir_000_def split: sum.splits prod.splits if_splits)

lemma find_append:
  "find P (xs @ ys) = (case find P xs of None \<Rightarrow> find P ys | Some x \<Rightarrow> Some x)"
  by (induction xs) simp_all

lemma d_lookup_None:
  "d_lookup s p n = None \<longleftrightarrow>
     (\<forall>d < d_next s. \<not> (d_hashed (dentries s d) \<and> d_parent (dentries s d) = p
                        \<and> d_name (dentries s d) = n))"
  by (auto simp: d_lookup_def find_None_iff)

lemma d_lookup_grow:
  assumes "d_next s1 = Suc (d_next s)"
    and "\<And>x. x < d_next s \<Longrightarrow> dentries s1 x = dentries s x"
  shows "d_lookup s1 p n =
     (case d_lookup s p n of
        Some x \<Rightarrow> Some x
      | None \<Rightarrow> if d_hashed (dentries s1 (d_next s)) \<and> d_parent (dentries s1 (d_next s)) = p
                    \<and> d_name (dentries s1 (d_next s)) = n
                 then Some (d_next s) else None)"
proof -
  have "find (\<lambda>d. d_hashed (dentries s1 d) \<and> d_parent (dentries s1 d) = p
               \<and> d_name (dentries s1 d) = n) [0..<d_next s]
      = find (\<lambda>d. d_hashed (dentries s d) \<and> d_parent (dentries s d) = p
               \<and> d_name (dentries s d) = n) [0..<d_next s]"
    using assms(2) by (intro find_cong) simp_all
  then show ?thesis
    by (auto simp: d_lookup_def assms(1) find_append split: option.split)
qed

lemma lookup_one_len_PTR:
  assumes "lookup_one_len name base s = (PTR d, s1)"
  shows "name \<noteq> []" and "CHR ''/'' \<notin> set name"
    and "d_lookup s1 base name = Some d"
    and "d_inode (dentries s1 d) = lookup s base name"
    and "inodes s1 = inodes s" and "i_next s1 = i_next s" and "myfs_mount s1 = myfs_mount s"
    and "\<And>x. x \<noteq> d \<Longrightarrow> dentries s1 x = dentries s x"
    and "\<And>x. d_inode (dentries s x) \<noteq> None \<Longrightarrow> d_inode (dentries s1 x) = d_inode (dentries s x) \<or> x = d"
    and "\<And>p n. lookup s p n \<noteq> None \<Longrightarrow> lookup s1 p n = lookup s p n"
    and "d_lookup s base name = None \<Longrightarrow> alloc_plan s = True # alloc_plan s1"
    and "d_lookup s base name \<noteq> None \<Longrightarrow> alloc_plan s1 = alloc_plan s"
proof -
  from assms show v: "name \<noteq> []" "CHR ''/'' \<notin> set name"
    by (auto simp: lookup_one_len_def split: if_splits)
  have all: "d_lookup s1 base name = Some d
    \<and> d_inode (dentries s1 d) = lookup s base name
    \<and> inodes s1 = inodes s \<and> i_next s1 = i_next s \<and> myfs_mount s1 = myfs_mount s
    \<and> (\<forall>x. x \<noteq> d \<longrightarrow> dentries s1 x = dentries s x)
    \<and> (\<forall>p n. lookup s p n \<noteq> None \<longrightarrow> lookup s1 p n = lookup s p n)
    \<and> (d_lookup s base name = None \<longrightarrow> alloc_plan s = True # alloc_plan s1)
    \<and> (d_lookup s base name \<noteq> None \<longrightarrow> alloc_plan s1 = alloc_plan s)"
  proof (cases "d_lookup s base name")
    case (Some x)
    with assms v have d: "d = x" and s1: "s1 = dget x s"
      by (auto simp: lookup_one_len_def)
    have dl: "d_lookup s1 p n = d_lookup s p n" for p n
      by (rule lookup_instantiated(1)) (simp_all add: s1)
    have "lookup s1 p n = lookup s p n" for p n
      by (simp add: lookup_def dl) (simp add: s1 split: option.split)
    with Some d dl [of base name] show ?thesis
      by (simp add: lookup_def) (simp add: s1)
  next
    case None
    obtain r t where a: "d_alloc base name s = (r, t)" by (cases "d_alloc base name s")
    from assms v None a obtain x where r: "r = Some x"
      by (cases r) (simp_all add: lookup_one_len_def)
    from a r have pl: "alloc_plan s = True # alloc_plan t" and x: "x = d_next s"
      and t: "t = s\<lparr>alloc_plan := alloc_plan t,
                dentries := (dentries s)(d_next s :=
                 \<lparr>d_parent = base, d_name = name, d_inode = None, d_count = 1,
                  d_hashed = False\<rparr>),
              d_next := Suc (d_next s)\<rparr>"
      by (auto simp: d_alloc_def kalloc_def split: list.splits bool.splits)
    from assms v None a r have d: "d = x"
      and s1: "s1 = upd_dentry x (\<lambda>y. y\<lparr>d_hashed := True\<rparr>) t"
      by (auto simp: lookup_one_len_def split: if_splits)
    have dn: "d_next s1 = Suc (d_next s)" by (simp add: s1) (subst t, simp)
    have old: "dentries s1 y = dentries s y" if "y \<noteq> d_next s" for y
      using that by (simp add: s1 x) (subst t, simp)
    have new: "dentries s1 (d_next s) = \<lparr>d_parent = base, d_name = name, d_inode = None,
        d_count = 1, d_hashed = True\<rparr>"
      by (simp add: s1 x) (subst t, simp)
    have dl: "d_lookup s1 p n = (case d_lookup s p n of Some x \<Rightarrow> Some x
               | None \<Rightarrow> if base = p \<and> name = n then Some (d_next s) else None)" for p n
      by (subst d_lookup_grow [OF dn]) (auto simp: old new split: option.split)
    have lk: "lookup s1 p n = lookup s p n" if "lookup s p n \<noteq> None" for p n
    proof -
      from that obtain y where y: "d_lookup s p n = Some y"
        by (auto simp: lookup_def split: option.splits)
      from d_lookup_Some [OF y] have "y \<noteq> d_next s" by simp
      with y old [of y] dl [of p n] show ?thesis by (simp add: lookup_def)
    qed
    have "inodes s1 = inodes s" "i_next s1 = i_next s" "myfs_mount s1 = myfs_mount s"
      "alloc_plan s1 = alloc_plan t"
      by (simp_all add: s1) (subst t, simp)+
    with None d x dl [of base name] new old lk pl show ?thesis
      by (simp add: lookup_def)
  qed
  then show "d_lookup s1 base name = Some d"
    and "d_inode (dentries s1 d) = lookup s base name"
    and "inodes s1 = inodes s" and "i_next s1 = i_next s" and "myfs_mount s1 = myfs_mount s"
    and o: "\<And>x. x \<noteq> d \<Longrightarrow> dentries s1 x = dentries s x"
    and "\<And>p n. lookup s p n \<noteq> None \<Longrightarrow> lookup s1 p n = lookup s p n"
    and "d_lookup s base name = None \<Longrightarrow> alloc_plan s = True # alloc_plan s1"
    and "d_lookup s base name \<noteq> None \<Longrightarrow> alloc_plan s1 = alloc_plan s"
    by simp_all
  show "d_inode (dentries s x) \<noteq> None \<Longrightarrow> d_inode (dentries s1 x) = d_inode (dentries s x) \<or> x = d" for x
    using o [of x] by (cases "x = d") simp_all
qed

lemma create_op_000_ok:
  assumes "(if mode AND S_IFMT = S_IFDIR then myfs_mkdir_000 s1 pinode dp mode
            else myfs_create_000 s1 pinode dp mode) = Inr (0, s')"
  obtains x where "dp = PTR x"
    and "d_inode (dentries s1 x) = None"
    and "d_inode (dentries s' x) = Some (i_next s1)"
    and "\<And>y. y \<noteq> x \<Longrightarrow> dentries s' y = dentries s1 y"
    and "\<And>p n. d_lookup s' p n = d_lookup s1 p n"
    and "myfs_mount s' = myfs_mount s1"
proof (cases "mode AND S_IFMT = S_IFDIR")
  case True
  with assms have "myfs_mkdir_000 s1 pinode dp mode = Inr (0, s')" by simp
  then obtain t where k: "myfs_mknod_000 s1 pinode dp (mode OR S_IFDIR) 0 = Inr (0, t)"
    and s': "s' = upd_inode pinode (\<lambda>i. i\<lparr>i_nlink := i_nlink i + 1\<rparr>) t"
    by (rule myfs_mkdir_000_ok)
  from k show thesis
  proof (rule myfs_mknod_000_effect, goal_cases)
    case (1 d)
    show ?case
    proof (rule that [of d])
      show "dp = PTR d" by (rule 1(1))
      show "d_inode (dentries s1 d) = None" by (rule 1(2))
      show "d_inode (dentries s' d) = Some (i_next s1)" using 1(3) by (simp add: s')
      show "\<And>y. y \<noteq> d \<Longrightarrow> dentries s' y = dentries s1 y" using 1(4) by (simp add: s')
      show "\<And>p n. d_lookup s' p n = d_lookup s1 p n"
        using 1(8) by (simp add: s' d_lookup_def)
      show "myfs_mount s' = myfs_mount s1" using 1(7) by (simp add: s')
    qed
  qed
next
  case False
  with assms have k: "myfs_mknod_000 s1 pinode dp (mode OR S_IFREG) 0 = Inr (0, s')"
    by (simp add: myfs_create_000_def)
  from k show thesis
  proof (rule myfs_mknod_000_effect, goal_cases)
    case (1 d)
    show ?case
      by (rule that [of d]) (use 1 in simp_all)
  qed
qed

lemma create_op_000_exists:
  assumes "d_inode (dentries s1 x) \<noteq> None"
  shows "myfs_mkdir_000 s1 pinode (PTR x) mode = Inr (- EEXIST, s1)"
    and "myfs_create_000 s1 pinode (PTR x) mode = Inr (- EEXIST, s1)"
  using myfs_mknod_000_exists [OF assms]
  by (simp_all add: myfs_mkdir_000_def myfs_create_000_def)

lemma create_op_000_ERR:
  "(if mode AND S_IFMT = S_IFDIR then myfs_mkdir_000 s1 pinode (ERR_PTR e) mode
    else myfs_create_000 s1 pinode (ERR_PTR e) mode) = Inl Oops"
  by (simp add: myfs_mkdir_000_def myfs_create_000_def myfs_mknod_000_def)

lemma myfs_create_by_name_Oops:
  "d_inode (dentries s p) = None \<Longrightarrow> myfs_create_by_name s name mode (Some p) dentry = Inl Oops"
  by (simp add: myfs_create_by_name_def)

lemma myfs_create_by_name_Some:
  assumes "d_inode (dentries s p) = Some pinode" and "lookup_one_len name p s = (dp, s1)"
  shows "myfs_create_by_name s name mode (Some p) dentry =
     (case (if mode AND S_IFMT = S_IFDIR then myfs_mkdir_000 s1 pinode dp mode
            else myfs_create_000 s1 pinode dp mode) of
        Inl f \<Rightarrow> Inl f
      | Inr (error, s2) \<Rightarrow> Inr (error, dp, s2))"
  using assms by (simp add: myfs_create_by_name_def)

lemma myfs_create_by_name_root:
  assumes "myfs_mount s = Some mnt" and "mnt_sb mnt = Some sb" and "s_root sb = Some p"
  shows "myfs_create_by_name s name mode None dentry = myfs_create_by_name s name mode (Some p) dentry"
  using assms by (simp add: myfs_create_by_name_def)

lemma myfs_create_by_name_exists:
  assumes "name \<noteq> []" and "CHR ''/'' \<notin> set name"
    and "d_inode (dentries t d) \<noteq> None" and "lookup t d name = Some x"
  shows "\<exists>dentry3 t'. myfs_create_by_name t name mode (Some d) dentry = Inr (- EEXIST, dentry3, t')
           \<and> lookup t' d name = Some x \<and> d_inode (dentries t' d) \<noteq> None
           \<and> inodes t' = inodes t"
proof -
  from assms(4) obtain y where y: "d_lookup t d name = Some y"
    and yi: "d_inode (dentries t y) = Some x"
    by (auto simp: lookup_def split: option.splits)
  have l: "lookup_one_len name d t = (PTR y, dget y t)"
    using assms(1,2) y by (simp add: lookup_one_len_def)
  note q = lookup_one_len_PTR [OF l]
  have pos: "d_inode (dentries (dget y t) y) \<noteq> None" using yi by simp
  from assms(3) obtain pinode where pi: "d_inode (dentries t d) = Some pinode" by auto
  have "myfs_create_by_name t name mode (Some d) dentry = Inr (- EEXIST, PTR y, dget y t)"
    by (simp add: myfs_create_by_name_Some [OF pi l] create_op_000_exists [OF pos])
  moreover have "lookup (dget y t) d name = Some x"
    using q(10) [of d name] assms(4) by simp
  moreover have "d_inode (dentries (dget y t) d) \<noteq> None"
    using assms(3) by auto
  ultimately show ?thesis by simp
qed

subsection \<open>Progress, and the example states\<close>

lemma myfs_mkdir_progress:
  assumes "alloc_plan s = True # bs" and "d_inode (dentries s dentry) = None"
  shows "\<exists>s'. myfs_mkdir s dir dentry mode = Inr (0, s')"
  using myfs_mknod_progress [OF assms, of dir "mode OR S_IFDIR" 0]
  by (auto simp: myfs_mkdir_def)

lemma myfs_mkdir_enospc:
  assumes "alloc_plan s = [] \<or> (\<exists>bs. alloc_plan s = False # bs)"
  shows "\<exists>s'. myfs_mkdir s dir dentry mode = Inr (- ENOSPC, s')"
  using myfs_mknod_enospc [OF assms, of dir dentry "mode OR S_IFDIR" 0]
  by (auto simp: myfs_mkdir_def)

lemma myfs_mkdir_000_progress:
  assumes "alloc_plan s = True # bs" and "d_inode (dentries s d) = None"
  shows "\<exists>s'. myfs_mkdir_000 s dir (PTR d) mode = Inr (0, s')"
  using myfs_mknod_000_progress [OF assms, of dir "mode OR S_IFDIR" 0]
  by (auto simp: myfs_mkdir_000_def)

lemma myfs_mknod_000_eperm:
  assumes "alloc_plan s = []" and "d_inode (dentries s d) = None"
  shows "myfs_mknod_000 s dir (PTR d) mode dev = Inr (- EPERM, s)"
  using assms
  by (simp add: myfs_mknod_000_def myfs_get_inode_000_def new_inode_def kalloc_def)

lemma mounted_simps:
  "alloc_plan mounted = True # [True, True, True]"
  "i_next mounted = 1"
  "d_next mounted = 3"
  "now mounted = 1000"
  "inodes mounted 0 = root_inode"
  "d_inode (dentries mounted 0) = Some 0"
  "d_inode (dentries mounted 1) = None"
  "d_inode (dentries mounted 2) = None"
  "d_hashed (dentries mounted 1)"
  "\<not> d_hashed (dentries mounted 2)"
  "i_nlink root_inode = 2"
  "i_mtime root_inode = 0"
  "i_ctime root_inode = 0"
  by (simp_all add: mounted_def root_inode_def blank_inode_def)

lemma exhausted_simps:
  "alloc_plan exhausted = []"
  "i_next exhausted = 1"
  "inodes exhausted 0 = root_inode"
  "d_inode (dentries exhausted 1) = None"
  by (simp_all add: exhausted_def mounted_def)

lemma d_lookup_mounted: "d_lookup mounted 0 ''a'' = Some 1"
  by (simp add: d_lookup_def mounted_def upt_rec)

lemma mode_dir16: "((0x1ED :: 16 word) OR S_IFDIR) AND S_IFMT = S_IFDIR"
  by (simp add: S_IFDIR_def S_IFMT_def)

lemma mode_dir32: "(((S_IFDIR OR 0x1ED) :: 32 word) OR S_IFDIR) AND S_IFMT = S_IFDIR"
  by (simp add: S_IFDIR_def S_IFMT_def)

lemma myfs_tmpfile_progress:
  assumes "alloc_plan s = True # bs" and "d_inode (dentries s dentry) = None"
    and "\<not> d_hashed (dentries s dentry)"
  shows "\<exists>s'. myfs_tmpfile s dir dentry mode = Inr (0, s')"
proof -
  obtain r s1 where g: "myfs_get_inode s (Some dir) mode 0 = (r, s1)"
    by (cases "myfs_get_inode s (Some dir) mode 0")
  from assms g obtain inode where r: "r = Some inode"
    by (cases r) (auto simp: myfs_get_inode_def new_inode_def kalloc_def Let_def split: prod.splits)
  note p = myfs_get_inode_Some [OF g [unfolded r]]
  show ?thesis using g r assms p(4)
    by (simp add: myfs_tmpfile_def d_tmpfile_def d_instantiate_def Let_def)
qed

lemma myfs_symlink_progress:
  assumes "alloc_plan s = True # True # bs" and "d_inode (dentries s dentry) = None"
  shows "\<exists>s'. myfs_symlink s dir dentry symname = Inr (0, s')"
proof -
  obtain r s1 where g: "myfs_get_inode s (Some dir) (S_IFLNK OR S_IRWXUGO) 0 = (r, s1)"
    by (cases "myfs_get_inode s (Some dir) (S_IFLNK OR S_IRWXUGO) 0")
  from assms g obtain inode where r: "r = Some inode"
    by (cases r) (auto simp: myfs_get_inode_def new_inode_def kalloc_def Let_def split: prod.splits)
  note p = myfs_get_inode_Some [OF g [unfolded r]]
  from p(2) assms(1) have a: "alloc_plan s1 = True # bs" by simp
  show ?thesis using g r assms(2) p(4) a
    by (simp add: myfs_symlink_def page_symlink_def kalloc_def d_instantiate_def Let_def)
qed

lemma myfs_create_progress:
  assumes "alloc_plan s = True # bs" and "d_inode (dentries s dentry) = None"
  shows "\<exists>s'. myfs_create s dir dentry mode excl = Inr (0, s')"
  using myfs_mknod_progress [OF assms, of dir "mode OR S_IFREG" 0]
  by (simp add: myfs_create_def)

lemma myfs_create_000_progress:
  assumes "alloc_plan s = True # bs" and "d_inode (dentries s d) = None"
  shows "\<exists>s'. myfs_create_000 s dir (PTR d) mode = Inr (0, s')"
  using myfs_mknod_000_progress [OF assms, of dir "mode OR S_IFREG" 0]
  by (simp add: myfs_create_000_def)

lemma new_inode_fails:
  "fst (new_inode s) = None \<longleftrightarrow> alloc_plan s = [] \<or> (\<exists>bs. alloc_plan s = False # bs)"
  by (auto simp: new_inode_def kalloc_def split: list.splits bool.splits)

lemma myfs_get_inode_fails:
  "fst (new_inode s) = None \<Longrightarrow> fst (myfs_get_inode s dir mode dev) = None"
  by (cases "new_inode s") (simp add: myfs_get_inode_def)

lemma myfs_get_inode_000_fails:
  "fst (new_inode s) = None \<Longrightarrow> fst (myfs_get_inode_000 s mode dev) = None"
  by (cases "new_inode s") (simp add: myfs_get_inode_000_def)

lemma myfs_alloc_failure:
  assumes "fst (new_inode s) = None"
  shows "\<exists>s'. myfs_mknod s dir dentry mode dev = Inr (- ENOSPC, s')"
    and "\<exists>s'. myfs_mkdir s dir dentry mode = Inr (- ENOSPC, s')"
    and "\<exists>s'. myfs_create s dir dentry mode excl = Inr (- ENOSPC, s')"
    and "\<exists>s'. myfs_symlink s dir dentry symname = Inr (- ENOSPC, s')"
    and "\<exists>s'. myfs_tmpfile s dir dentry mode = Inr (- ENOSPC, s')"
proof -
  have g: "\<exists>s'. myfs_get_inode s (Some dir) m d = (None, s')" for m d
    using myfs_get_inode_fails [OF assms, of "Some dir" m d]
    by (cases "myfs_get_inode s (Some dir) m d") simp
  show k: "\<exists>s'. myfs_mknod s dir dentry mode dev = Inr (- ENOSPC, s')" for mode dev
    using g [of mode dev] by (auto simp: myfs_mknod_def)
  show "\<exists>s'. myfs_mkdir s dir dentry mode = Inr (- ENOSPC, s')"
    using k [of "mode OR S_IFDIR" 0] by (auto simp: myfs_mkdir_def)
  show "\<exists>s'. myfs_create s dir dentry mode excl = Inr (- ENOSPC, s')"
    using k [of "mode OR S_IFREG" 0] by (simp add: myfs_create_def)
  show "\<exists>s'. myfs_symlink s dir dentry symname = Inr (- ENOSPC, s')"
    using g [of "S_IFLNK OR S_IRWXUGO" 0] by (auto simp: myfs_symlink_def)
  show "\<exists>s'. myfs_tmpfile s dir dentry mode = Inr (- ENOSPC, s')"
    using g [of mode 0] by (auto simp: myfs_tmpfile_def)
qed

lemma myfs_mknod_000_no_inode:
  assumes "fst (new_inode s) = None"
  shows "\<exists>s'. myfs_mknod_000 s dir (PTR d) mode dev
            = Inr (if d_inode (dentries s d) \<noteq> None then - EEXIST else - EPERM, s')"
proof -
  have g: "\<exists>s'. myfs_get_inode_000 s mode dev = (None, s')"
    using myfs_get_inode_000_fails [OF assms, of mode dev]
    by (cases "myfs_get_inode_000 s mode dev") simp
  then show ?thesis by (auto simp: myfs_mknod_000_def)
qed

lemma mounted_wf: "\<forall>d i. d_inode (dentries mounted d) = Some i \<longrightarrow> i < i_next mounted"
  by (simp add: mounted_def)

lemma lookup_mounted: "lookup mounted 0 ''a'' = None"
  by (simp add: lookup_def d_lookup_mounted mounted_simps del: One_nat_def)

lemma mode_reg16: "((S_IFREG OR 0x180) :: 16 word) AND S_IFMT = S_IFREG"
  by (simp add: S_IFREG_def S_IFMT_def)

lemma mode_dir16': "((S_IFDIR OR 0x1ED) :: 16 word) AND S_IFMT = S_IFDIR"
  by (simp add: S_IFDIR_def S_IFMT_def)

lemma lookup_one_len_progress:
  assumes "name \<noteq> []" and "CHR ''/'' \<notin> set name" and "length name \<le> 255"
    and "d_lookup s p name \<noteq> None \<or> alloc_plan s = True # bs"
  shows "\<exists>d s1. lookup_one_len name p s = (PTR d, s1)"
  using assms
  by (auto simp: lookup_one_len_def d_alloc_def kalloc_def split: option.split)

lemma myfs_create_by_name_progress:
  assumes "d_inode (dentries s p) = Some pinode"
    and "name \<noteq> []" and "CHR ''/'' \<notin> set name" and "length name \<le> 255"
    and "lookup s p name = None" and "alloc_plan s = True # True # bs"
  shows "\<exists>dp s'. myfs_create_by_name s name mode (Some p) dentry = Inr (0, dp, s')"
proof -
  from lookup_one_len_progress [OF assms(2,3,4) disjI2 [OF assms(6)]]
  obtain d s1 where l: "lookup_one_len name p s = (PTR d, s1)" by blast
  note q = lookup_one_len_PTR [OF l]
  have neg: "d_inode (dentries s1 d) = None" using q(4) assms(5) by simp
  have "\<exists>bs'. alloc_plan s1 = True # bs'"
  proof (cases "d_lookup s p name")
    case None
    from q(11) [OF None] assms(6) show ?thesis by (metis list.inject)
  next
    case (Some y)
    then have "d_lookup s p name \<noteq> None" by simp
    from q(12) [OF this] assms(6) show ?thesis by metis
  qed
  then obtain bs' where a: "alloc_plan s1 = True # bs'" by blast
  from myfs_mkdir_000_progress [OF a neg, of pinode mode]
    myfs_create_000_progress [OF a neg, of pinode mode]
  show ?thesis
    by (auto simp: myfs_create_by_name_Some [OF assms(1) l])
qed

lemma populated_simps:
  "d_inode (dentries populated 0) \<noteq> None"
  "lookup populated 0 ''a'' = Some 1"
  by (simp_all add: populated_def lookup_def d_lookup_def upt_rec)

lemma lookup_mounted_b: "lookup mounted 0 ''b'' = None"
  by (simp add: mounted_def lookup_def d_lookup_def upt_rec)

subsection \<open>Mount options and the superblock\<close>

lemma fs_parse_myfs:
  "fs_parse myfs_fs_parameters p =
     (if param_key p \<noteq> ''mode'' then (- ENOPARAM, \<lparr>negated = False, uint_32 = 0\<rparr>)
      else if param_type p \<noteq> fs_value_is_string then (- EINVAL, \<lparr>negated = False, uint_32 = 0\<rparr>)
      else (case kstrtouint (param_string p) 8 of
              Inl rv \<Rightarrow> (- EINVAL, \<lparr>negated = False, uint_32 = 0\<rparr>)
            | Inr v \<Rightarrow> (Opt_mode, \<lparr>negated = False, uint_32 = v\<rparr>)))"
  by (auto simp: fs_parse_def fs_lookup_key_def myfs_fs_parameters_def fsparam_u32oct_def
      is_flag_def Let_def split: sum.split)

lemma myfs_parse_param_eq:
  "myfs_parse_param fsi p =
     (if param_key p \<noteq> ''mode'' then (0, fsi)
      else if param_type p \<noteq> fs_value_is_string then (- EINVAL, fsi)
      else (case kstrtouint (param_string p) 8 of
              Inl rv \<Rightarrow> (- EINVAL, fsi)
            | Inr v \<Rightarrow>
                (0, fsi\<lparr>mount_opts := (mount_opts fsi)\<lparr>opts_mode := ucast (v AND S_IALLUGO)\<rparr>\<rparr>)))"
  by (simp add: myfs_parse_param_def fs_parse_myfs ENOPARAM_def EINVAL_def Opt_mode_def
      split: sum.split)

lemma ucast_perm_le: "(ucast ((v :: 32 word) AND S_IALLUGO) :: 16 word) \<le> 0xFFF"
proof -
  have "(ucast (v AND S_IALLUGO) :: 16 word) = ucast v AND 0xFFF"
    by (simp add: S_IALLUGO_def unsigned_and_eq)
  then show ?thesis by (simp add: word_and_le1)
qed

lemma unat_ucast_perm: "unat (ucast ((v :: 32 word) AND S_IALLUGO) :: 16 word) = unat (v AND S_IALLUGO)"
proof -
  have "v AND S_IALLUGO \<le> 0xFFF" by (simp add: S_IALLUGO_def word_and_le1)
  then have "unat (v AND S_IALLUGO) \<le> 0xFFF" by (simp add: word_le_nat_alt)
  then have b: "unat (v AND S_IALLUGO) < 2 ^ 16" by simp
  have "unat (ucast (v AND S_IALLUGO) :: 16 word) = unat (v AND S_IALLUGO) mod 2 ^ 16"
    by (simp only: unsigned_ucast_eq take_bit_eq_mod) simp
  with b show ?thesis by simp
qed

lemma myfs_parse_param_le:
  "opts_mode (mount_opts fsi) \<le> 0xFFF \<Longrightarrow>
     opts_mode (mount_opts (snd (myfs_parse_param fsi p))) \<le> 0xFFF"
  by (simp add: myfs_parse_param_eq ucast_perm_le split: sum.split)

lemma parse_params_le:
  "opts_mode (mount_opts fsi) \<le> 0xFFF \<Longrightarrow>
     opts_mode (mount_opts (snd (parse_params fsi ps))) \<le> 0xFFF"
proof (induction ps arbitrary: fsi)
  case Nil
  then show ?case by simp
next
  case (Cons p ps)
  obtain r fsi1 where e: "myfs_parse_param fsi p = (r, fsi1)" by (cases "myfs_parse_param fsi p")
  from myfs_parse_param_le [OF Cons.prems, of p] e
  have "opts_mode (mount_opts fsi1) \<le> 0xFFF" by simp
  with Cons.IH [of fsi1] e show ?case by simp
qed

lemma kstrtouint_100700: "kstrtouint ''100700'' 8 = Inr 0x81C0"
  by (simp add: kstrtouint_def kstrtoull_def digit_val_def)

lemma myfs_parse_param_fst:
  "fst (myfs_parse_param fsi p) =
     (if param_key p = ''mode''
         \<and> (param_type p \<noteq> fs_value_is_string \<or> isl (kstrtouint (param_string p) 8))
      then - EINVAL else 0)"
  by (simp add: myfs_parse_param_eq split: sum.split)

lemma parse_params_fst:
  "fst (parse_params fsi ps) =
     (if \<exists>q \<in> set ps. param_key q = ''mode''
            \<and> (param_type q \<noteq> fs_value_is_string \<or> isl (kstrtouint (param_string q) 8))
      then - EINVAL else 0)"
proof (induction ps arbitrary: fsi)
  case Nil
  then show ?case by simp
next
  case (Cons p ps)
  obtain r fsi1 where e: "myfs_parse_param fsi p = (r, fsi1)" by (cases "myfs_parse_param fsi p")
  with myfs_parse_param_fst [of fsi p]
  have r: "r = (if param_key p = ''mode''
         \<and> (param_type p \<noteq> fs_value_is_string \<or> isl (kstrtouint (param_string p) 8))
      then - EINVAL else 0)" by simp
  show ?case
    using Cons.IH [of fsi1] by (simp add: e r EINVAL_def)
qed

lemma mount_myfs_abort:
  assumes "fst (parse_params \<lparr>mount_opts = \<lparr>opts_mode = RAMFS_DEFAULT_MODE\<rparr>\<rparr> ps) \<noteq> 0"
    and "alloc_plan s = True # bs"
  shows "mount_myfs s ps = Inr (- EINVAL, None, s\<lparr>alloc_plan := bs\<rparr>)"
proof -
  obtain r fsi1 where e: "parse_params \<lparr>mount_opts = \<lparr>opts_mode = RAMFS_DEFAULT_MODE\<rparr>\<rparr> ps = (r, fsi1)"
    by (cases "parse_params \<lparr>mount_opts = \<lparr>opts_mode = RAMFS_DEFAULT_MODE\<rparr>\<rparr> ps")
  with assms(1) parse_params_fst [of "\<lparr>mount_opts = \<lparr>opts_mode = RAMFS_DEFAULT_MODE\<rparr>\<rparr>" ps]
  have "r = - EINVAL" by (simp split: if_splits)
  with e assms(2) show ?thesis
    by (simp add: mount_myfs_def myfs_init_fs_context_def kalloc_def EINVAL_def)
qed

lemma kstrtouint_examples:
  "kstrtouint ''700'' 8 = Inr 0x1C0"
  "kstrtouint ''75x'' 8 = Inl (- EINVAL)"
  by (simp_all add: kstrtouint_def kstrtoull_def digit_val_def)

lemma option_simps [simp]:
  "param_key (mode_option v) = ''mode''"
  "param_type (mode_option v) = fs_value_is_string"
  "param_string (mode_option v) = v"
  "param_key size_option = ''size''"
  by (simp_all add: mode_option_def size_option_def)

lemma d_make_root_Some:
  assumes "d_make_root (Some inode) s = Inr (Some root, s')"
  shows "d_inode (dentries s' root) = Some inode" and "inodes s' = inodes s"
  using assms
  by (auto simp: d_make_root_def d_alloc_anon_def d_alloc_def kalloc_def d_instantiate_def
      split: list.splits bool.splits if_splits)

lemma d_make_root_None:
  "d_make_root None s = Inr (None, s)"
  by (simp add: d_make_root_def)

lemma myfs_fill_super_ok:
  assumes "myfs_fill_super s sb = Inr (0, sb', s')"
  obtains root where "s_root sb' = Some root"
    and "d_inode (dentries s' root) = Some (i_next s)"
    and "i_mode (inodes s' (i_next s)) = S_IFDIR OR opts_mode (mount_opts (s_fs_info sb))"
    and "s_fs_info sb' = s_fs_info sb"
    and "s_magic sb' = RAMFS_MAGIC"
proof -
  obtain r s1 where g: "myfs_get_inode s None (S_IFDIR OR opts_mode (mount_opts (s_fs_info sb))) 0 = (r, s1)"
    by (cases "myfs_get_inode s None (S_IFDIR OR opts_mode (mount_opts (s_fs_info sb))) 0")
  from assms g obtain inode where r: "r = Some inode"
    by (cases r) (simp_all add: myfs_fill_super_def Let_def d_make_root_None)
  note p = myfs_get_inode_Some [OF g [unfolded r]]
  from assms g r obtain ro s2 where m: "d_make_root (Some inode) s1 = Inr (ro, s2)"
    by (cases "d_make_root (Some inode) s1") (auto simp: myfs_fill_super_def Let_def)
  from assms g r m obtain root where ro: "ro = Some root"
    by (cases ro) (simp_all add: myfs_fill_super_def Let_def)
  from assms g r m ro have s': "s' = s2" and sb': "s_root sb' = Some root"
    "s_fs_info sb' = s_fs_info sb" "s_magic sb' = RAMFS_MAGIC"
    by (auto simp: myfs_fill_super_def Let_def)
  note q = d_make_root_Some [OF m [unfolded ro]]
  show thesis
  proof (rule that [of root])
    show "s_root sb' = Some root" by (rule sb')
    show "d_inode (dentries s' root) = Some (i_next s)" using q(1) p(1) by (simp add: s')
    show "i_mode (inodes s' (i_next s)) = S_IFDIR OR opts_mode (mount_opts (s_fs_info sb))"
      using p(1) p(12) q(2) by (simp add: s')
    show "s_fs_info sb' = s_fs_info sb" by (rule sb')
    show "s_magic sb' = RAMFS_MAGIC" by (rule sb')
  qed
qed

lemma mount_myfs_ok:
  assumes "mount_myfs s ps = Inr (0, Some sb, s')"
  obtains root ri where "s_fs_info sb = snd (parse_params default_fs_info ps)"
    and "s_root sb = Some root"
    and "d_inode (dentries s' root) = Some ri"
    and "i_mode (inodes s' ri) = S_IFDIR OR opts_mode (mount_opts (s_fs_info sb))"
proof -
  obtain r0 f0 s1 where i: "myfs_init_fs_context s = (r0, f0, s1)"
    by (cases "myfs_init_fs_context s") auto
  from assms i obtain fsi where f0: "f0 = Some fsi"
    by (cases f0) (simp_all add: mount_myfs_def)
  from i f0 have fsi: "fsi = default_fs_info"
    by (auto simp: myfs_init_fs_context_def kalloc_def default_fs_info_def
        split: list.splits bool.splits)
  obtain r1 fsi1 where pp: "parse_params fsi ps = (r1, fsi1)" by (cases "parse_params fsi ps")
  from assms i f0 pp have gt: "myfs_get_tree s1 fsi1 = Inr (0, Some sb, s')"
    by (simp add: mount_myfs_def split: if_splits)
  obtain b s2 where k: "kalloc s1 = (b, s2)" by (cases "kalloc s1")
  from gt k have b: "b" by (cases b) (simp_all add: myfs_get_tree_def)
  from gt k b obtain sb0 where
    fs: "myfs_fill_super s2 sb0 = Inr (0, sb, s')" and sb0: "s_fs_info sb0 = fsi1"
    by (auto simp: myfs_get_tree_def split: sum.splits if_splits)
  from fs show thesis
  proof (rule myfs_fill_super_ok, goal_cases)
    case (1 root)
    show ?case
      by (rule that [of root "i_next s2"]) (use 1 sb0 pp fsi in simp_all)
  qed
qed

lemma myfs_get_inode_progress:
  assumes "alloc_plan s = True # bs"
  shows "\<exists>s'. myfs_get_inode s dir mode dev = (Some (i_next s), s') \<and> alloc_plan s' = bs"
proof -
  obtain r s' where g: "myfs_get_inode s dir mode dev = (r, s')"
    by (cases "myfs_get_inode s dir mode dev")
  from assms g obtain inode where r: "r = Some inode"
    by (cases r) (auto simp: myfs_get_inode_def new_inode_def kalloc_def Let_def split: prod.splits)
  from myfs_get_inode_Some(1,2) [OF g [unfolded r]] assms g r show ?thesis by simp
qed

lemma d_make_root_progress:
  assumes "alloc_plan s = True # bs"
  shows "\<exists>root s'. d_make_root (Some inode) s = Inr (Some root, s')"
  using assms
  by (simp add: d_make_root_def d_alloc_anon_def d_alloc_def kalloc_def d_instantiate_def)

lemma myfs_fill_super_progress:
  assumes "alloc_plan s = True # True # bs"
  shows "\<exists>sb' s'. myfs_fill_super s sb = Inr (0, sb', s')"
proof -
  from myfs_get_inode_progress [OF assms]
  obtain s1 where g: "myfs_get_inode s None (S_IFDIR OR opts_mode (mount_opts (s_fs_info sb))) 0
      = (Some (i_next s), s1)" and a: "alloc_plan s1 = True # bs" by blast
  from d_make_root_progress [OF a]
  obtain root s2 where m: "d_make_root (Some (i_next s)) s1 = Inr (Some root, s2)" by blast
  show ?thesis by (simp add: myfs_fill_super_def Let_def g m)
qed

lemma mount_myfs_progress:
  assumes "alloc_plan s = True # True # True # True # bs"
    and "fst (parse_params default_fs_info ps) = 0"
  shows "\<exists>sb s'. mount_myfs s ps = Inr (0, Some sb, s')"
proof -
  obtain r fsi1 where pp: "parse_params default_fs_info ps = (r, fsi1)"
    by (cases "parse_params default_fs_info ps")
  with assms(2) have r: "r = 0" by simp
  have "alloc_plan (s\<lparr>alloc_plan := True # True # bs\<rparr>) = True # True # bs" by simp
  from myfs_fill_super_progress [OF this]
  obtain sb' s' where "myfs_fill_super (s\<lparr>alloc_plan := True # True # bs\<rparr>)
      \<lparr>s_maxbytes = 0, s_blocksize = 0, s_blocksize_bits = 0, s_magic = 0,
                   s_op = no_super_ops, s_time_gran = 0, s_root = None, s_fs_info = fsi1\<rparr>
      = Inr (0, sb', s')" by blast
  with assms(1) pp r show ?thesis
    by (simp add: mount_myfs_def myfs_init_fs_context_def myfs_get_tree_def kalloc_def
        default_fs_info_def)
qed

lemma show_oct_700: "show_oct (unat (0x1C0 :: 16 word)) = ''700''"
proof -
  have "show_oct 448 = ''700''" by code_simp
  then show ?thesis by simp
qed

lemma parse_params_700:
  "parse_params default_fs_info [mode_option ''700''] = (0, \<lparr>mount_opts = \<lparr>opts_mode = 0x1C0\<rparr>\<rparr>)"
  by (simp add: myfs_parse_param_eq kstrtouint_examples default_fs_info_def S_IALLUGO_def)

lemma digit_val_octal:
  "c \<in> set ''01234567'' \<Longrightarrow> \<exists>v. digit_val c = Some v \<and> v < 8"
  by (auto simp: digit_val_def)

lemma parse_integer_all_digits:
  assumes "\<forall>c \<in> set ds. \<exists>v. digit_val c = Some v \<and> v < b"
  shows "\<exists>res'. parse_integer ds b res rv = (rv + length ds, res')
           \<and> res' < (res + 1) * b ^ length ds"
  using assms
proof (induction ds arbitrary: res rv)
  case Nil
  then show ?case by simp
next
  case (Cons c cs)
  from Cons.prems obtain v where v: "digit_val c = Some v" "v < b" by auto
  from Cons.prems have "\<forall>c \<in> set cs. \<exists>v. digit_val c = Some v \<and> v < b" by simp
  from Cons.IH [OF this, of "res * b + v" "Suc rv"]
  obtain res' where p: "parse_integer cs b (res * b + v) (Suc rv) = (Suc rv + length cs, res')"
    and l: "res' < (res * b + v + 1) * b ^ length cs" by blast
  from v(2) have "res * b + v + 1 \<le> (res + 1) * b" by simp
  then have "(res * b + v + 1) * b ^ length cs \<le> (res + 1) * b * b ^ length cs"
    by (rule mult_le_mono1)
  also have "(res + 1) * b * b ^ length cs = (res + 1) * b ^ length (c # cs)"
    by (simp add: algebra_simps)
  finally have "(res * b + v + 1) * b ^ length cs \<le> (res + 1) * b ^ length (c # cs)" .
  with l have "res' < (res + 1) * b ^ length (c # cs)" by (rule less_le_trans)
  with p v show ?case by simp
qed

lemma kstrtouint_octal_digits:
  assumes "ds \<noteq> []" and "set ds \<subseteq> set ''01234567''" and "length ds \<le> 10"
  shows "\<not> isl (kstrtouint ds 8)"
proof -
  have d: "\<forall>c \<in> set ds. \<exists>v. digit_val c = Some v \<and> v < 8"
    using assms(2) digit_val_octal by blast
  from parse_integer_all_digits [OF d, of 0 0]
  obtain res where p: "parse_integer ds 8 0 0 = (length ds, res)" and l: "res < 8 ^ length ds"
    by auto
  have "(8::nat) ^ length ds \<le> 8 ^ 10" using assms(3) by (intro power_increasing) simp_all
  with l have b: "res < 2 ^ 30" by simp
  then have b64: "\<not> 2 ^ 64 \<le> res" and b32: "\<not> 2 ^ 32 \<le> res" by simp_all
  from assms(1) obtain c cs where ds: "ds = c # cs" by (cases ds) auto
  with assms(2) have np: "c \<noteq> CHR ''+''" by auto
  have "kstrtoull ds 8 = Inr res"
    using p b64 np assms(1) by (simp add: kstrtoull_def ds)
  with b32 show ?thesis by (simp add: kstrtouint_def)
qed

lemma parse_integer_count:
  "fst (parse_integer s b res rv)
     = rv + length (takeWhile (\<lambda>c. \<exists>v. digit_val c = Some v \<and> v < b) s)"
  by (induction s arbitrary: res rv) (auto split: option.split)

lemma in_dropWhile: "x \<in> set xs \<Longrightarrow> \<not> P x \<Longrightarrow> x \<in> set (dropWhile P xs)"
  by (induction xs) auto

lemma kstrtoull_foreign_char:
  assumes "c \<in> set s" and "\<not> (\<exists>v. digit_val c = Some v \<and> v < b)"
    and "c \<noteq> CHR ''+''" and "c \<noteq> CHR 0x0A"
  shows "isl (kstrtoull s b)"
proof -
  define s1 where "s1 = (case s of c # cs \<Rightarrow> if c = CHR ''+'' then cs else s | [] \<Rightarrow> s)"
  have c1: "c \<in> set s1" using assms(1,3) by (auto simp: s1_def split: list.split)
  obtain rv res where p: "parse_integer s1 b 0 0 = (rv, res)" by (cases "parse_integer s1 b 0 0")
  from parse_integer_count [of s1 b 0 0] p
  have rv: "rv = length (takeWhile (\<lambda>c. \<exists>v. digit_val c = Some v \<and> v < b) s1)" by simp
  have "drop rv s1 = dropWhile (\<lambda>c. \<exists>v. digit_val c = Some v \<and> v < b) s1"
    by (simp add: rv dropWhile_eq_drop)
  with in_dropWhile [where P = "\<lambda>c. \<exists>v. digit_val c = Some v \<and> v < b", OF c1 assms(2)]
  have c2: "c \<in> set (drop rv s1)" by simp
  define s2 where "s2 = drop rv s1"
  from c2 assms(4)
  have "(case s2 of c # cs \<Rightarrow> if c = CHR 0x0A then cs else s2 | [] \<Rightarrow> s2) \<noteq> []"
    by (auto simp: s2_def split: list.split)
  then show ?thesis
    using p by (simp add: kstrtoull_def s1_def [symmetric] s2_def [symmetric] Let_def)
qed

lemma kstrtouint_foreign_char:
  assumes "c \<in> set s" and "c \<notin> set ''01234567''"
    and "c \<noteq> CHR ''+''" and "c \<noteq> CHR 0x0A"
  shows "isl (kstrtouint s 8)"
proof -
  have "\<not> (\<exists>v. digit_val c = Some v \<and> v < 8)"
  proof
    assume "\<exists>v. digit_val c = Some v \<and> v < 8"
    then obtain v where v: "digit_val c = Some v" "v < 8" by blast
    then have "(of_char c :: nat) = 48 + v"
      by (auto simp: digit_val_def Let_def split: if_splits)
    with v(2) have "\<exists>c' \<in> set ''01234567''. (of_char c :: nat) = of_char c'"
      by simp arith
    then have "c \<in> set ''01234567''" by (simp only: of_char_eq_iff) simp
    with assms(2) show False by simp
  qed
  from kstrtoull_foreign_char [OF assms(1) this assms(3,4)]
  show ?thesis by (auto simp: kstrtouint_def split: sum.splits)
qed

lemma kstrtouint_empty: "isl (kstrtouint [] 8)"
  by (simp add: kstrtouint_def kstrtoull_def)

lemma parse_params_unknown:
  "\<forall>q \<in> set ps. param_key q \<noteq> ''mode'' \<Longrightarrow> parse_params fsi ps = (0, fsi)"
  by (induction ps) (simp_all add: myfs_parse_param_eq)

subsection \<open>Directory timestamps in myfs.c\<close>

lemma ihold_simps [simp]:
  "inodes (ihold i s) = (inodes s)(i := (inodes s i)\<lparr>i_count := Suc (i_count (inodes s i))\<rparr>)"
  "dentries (ihold i s) = dentries s"
  "now (ihold i s) = now s"
  by (simp_all add: ihold_def)

lemma dput_simps [simp]:
  "inodes (dput d s) = inodes s"
  "now (dput d s) = now s"
  by (simp_all add: dput_def)

lemma simple_unlink_times:
  assumes "simple_unlink s dir dentry = Inr (r, s')"
  shows "i_mtime (inodes s' dir) = now s" and "i_ctime (inodes s' dir) = now s"
    and "now s' = now s" and "r = 0"
  using assms
  by (auto simp: simple_unlink_def Let_def current_time_def split: option.splits)

lemma simple_link_times:
  assumes "simple_link s old_dentry dir dentry = Inr (0, s')"
  shows "i_mtime (inodes s' dir) = now s" and "i_ctime (inodes s' dir) = now s"
  using assms
  by (auto simp: simple_link_def Let_def current_time_def d_instantiate_def
      split: option.splits if_splits)

lemma simple_rmdir_times:
  assumes "simple_rmdir s dir dentry = Inr (0, s')"
  shows "i_mtime (inodes s' dir) = now s" and "i_ctime (inodes s' dir) = now s"
proof -
  from assms have e: "simple_empty s dentry"
    by (cases "simple_empty s dentry") (simp_all add: simple_rmdir_def ENOTEMPTY_def)
  from assms e obtain inode where i: "d_inode (dentries s dentry) = Some inode"
    by (cases "d_inode (dentries s dentry)") (simp_all add: simple_rmdir_def)
  from assms e i obtain r s1 where
    u: "simple_unlink (drop_nlink inode s) dir dentry = Inr (r, s1)"
    by (cases "simple_unlink (drop_nlink inode s) dir dentry") (auto simp: simple_rmdir_def)
  from assms e i u have s': "s' = drop_nlink dir s1" by (simp add: simple_rmdir_def)
  from simple_unlink_times(1,2) [OF u]
  show "i_mtime (inodes s' dir) = now s" and "i_ctime (inodes s' dir) = now s"
    by (simp_all add: s')
qed

lemma simple_rename_links_now:
  assumes "simple_rename_links s old_dir new_dir new_dentry b = Inr s2"
  shows "now s2 = now s"
proof (cases "d_inode (dentries s new_dentry)")
  case None
  with assms show ?thesis by (auto simp: simple_rename_links_def split: if_splits)
next
  case (Some target)
  with assms obtain r s1 where u: "simple_unlink s new_dir new_dentry = Inr (r, s1)"
    and s2: "s2 = (if b then drop_nlink old_dir (drop_nlink target s1) else s1)"
    by (cases "simple_unlink s new_dir new_dentry") (auto simp: simple_rename_links_def)
  from simple_unlink_times(3) [OF u] show ?thesis by (simp add: s2)
qed

lemma simple_rename_times:
  assumes "simple_rename s old_dir old_dentry new_dir new_dentry flags = Inr (0, s')"
  shows "i_mtime (inodes s' old_dir) = now s" and "i_ctime (inodes s' old_dir) = now s"
    and "i_mtime (inodes s' new_dir) = now s" and "i_ctime (inodes s' new_dir) = now s"
proof -
  from assms have f: "\<not> flags AND NOT RENAME_NOREPLACE \<noteq> 0"
    by (cases "flags AND NOT RENAME_NOREPLACE \<noteq> 0") (simp_all add: simple_rename_def)
  from assms f have e: "simple_empty s new_dentry"
    by (cases "simple_empty s new_dentry") (simp_all add: simple_rename_def ENOTEMPTY_def)
  from assms f e obtain inode where i: "d_inode (dentries s old_dentry) = Some inode"
    by (cases "d_inode (dentries s old_dentry)") (simp_all add: simple_rename_def)
  from assms f e i obtain s2 where
    l: "simple_rename_links s old_dir new_dir new_dentry
          (i_mode (inodes s inode) AND S_IFMT = S_IFDIR) = Inr s2"
    by (cases "simple_rename_links s old_dir new_dir new_dentry
          (i_mode (inodes s inode) AND S_IFMT = S_IFDIR)") (simp_all add: simple_rename_def)
  note n = simple_rename_links_now [OF l]
  from assms f e i l
  have s': "s' = upd_inode old_dir (\<lambda>i. i\<lparr>i_mtime := now s2, i_ctime := now s2\<rparr>)
              (upd_inode new_dir (\<lambda>i. i\<lparr>i_mtime := now s2, i_ctime := now s2\<rparr>)
                (upd_inode inode (\<lambda>i. i\<lparr>i_ctime := now s2\<rparr>) s2))"
    by (simp add: simple_rename_def Let_def current_time_def)
  show "i_mtime (inodes s' old_dir) = now s" and "i_ctime (inodes s' old_dir) = now s"
    and "i_mtime (inodes s' new_dir) = now s" and "i_ctime (inodes s' new_dir) = now s"
    by (simp_all add: s' n)
qed

lemma myfs_directory_timestamps:
  "(myfs_mknod s dir dentry mode dev = Inr (0, s1) \<longrightarrow>
      i_mtime (inodes s1 dir) = now s \<and> i_ctime (inodes s1 dir) = now s)
   \<and> (myfs_mkdir s dir dentry mode = Inr (0, s2) \<longrightarrow>
      i_mtime (inodes s2 dir) = now s \<and> i_ctime (inodes s2 dir) = now s)
   \<and> (myfs_create s dir dentry mode excl = Inr (0, s3) \<longrightarrow>
      i_mtime (inodes s3 dir) = now s \<and> i_ctime (inodes s3 dir) = now s)
   \<and> (myfs_symlink s dir dentry symname = Inr (0, s4) \<longrightarrow>
      i_mtime (inodes s4 dir) = now s \<and> i_ctime (inodes s4 dir) = now s)
   \<and> (simple_link s old_dentry dir dentry = Inr (0, s6) \<longrightarrow>
      i_mtime (inodes s6 dir) = now s \<and> i_ctime (inodes s6 dir) = now s)
   \<and> (simple_unlink s dir dentry = Inr (0, s7) \<longrightarrow>
      i_mtime (inodes s7 dir) = now s \<and> i_ctime (inodes s7 dir) = now s)
   \<and> (simple_rmdir s dir dentry = Inr (0, s8) \<longrightarrow>
      i_mtime (inodes s8 dir) = now s \<and> i_ctime (inodes s8 dir) = now s)
   \<and> (simple_rename s dir old_dentry new_dir new_dentry flags = Inr (0, s9) \<longrightarrow>
      i_mtime (inodes s9 dir) = now s \<and> i_ctime (inodes s9 dir) = now s
      \<and> i_mtime (inodes s9 new_dir) = now s \<and> i_ctime (inodes s9 new_dir) = now s)
   \<and> (myfs_tmpfile s dir dentry mode = Inr (0, s5) \<longrightarrow>
      (\<forall>j. j \<noteq> i_next s \<longrightarrow> inodes s5 j = inodes s j)
      \<and> (\<forall>p n. lookup s5 p n = lookup s p n))"
proof (intro conjI impI allI)
  assume a: "myfs_mknod s dir dentry mode dev = Inr (0, s1)"
  show "i_mtime (inodes s1 dir) = now s" "i_ctime (inodes s1 dir) = now s"
    by (rule myfs_mknod_effect [OF a])+
next
  assume a: "myfs_mkdir s dir dentry mode = Inr (0, s2)"
  then obtain t where k: "myfs_mknod s dir dentry (mode OR S_IFDIR) 0 = Inr (0, t)"
    and s2: "s2 = inc_nlink dir t" by (rule myfs_mkdir_ok)
  show "i_mtime (inodes s2 dir) = now s" "i_ctime (inodes s2 dir) = now s"
    using myfs_mknod_effect(7,8) [OF k] by (simp_all add: s2)
next
  assume a: "myfs_create s dir dentry mode excl = Inr (0, s3)"
  then have k: "myfs_mknod s dir dentry (mode OR S_IFREG) 0 = Inr (0, s3)"
    by (simp add: myfs_create_def)
  show "i_mtime (inodes s3 dir) = now s" "i_ctime (inodes s3 dir) = now s"
    by (rule myfs_mknod_effect [OF k])+
next
  assume a: "myfs_symlink s dir dentry symname = Inr (0, s4)"
  show "i_mtime (inodes s4 dir) = now s" "i_ctime (inodes s4 dir) = now s"
    by (rule myfs_symlink_effect [OF a])+
next
  assume a: "simple_link s old_dentry dir dentry = Inr (0, s6)"
  show "i_mtime (inodes s6 dir) = now s" "i_ctime (inodes s6 dir) = now s"
    by (rule simple_link_times [OF a])+
next
  assume a: "simple_unlink s dir dentry = Inr (0, s7)"
  show "i_mtime (inodes s7 dir) = now s" "i_ctime (inodes s7 dir) = now s"
    by (rule simple_unlink_times [OF a])+
next
  assume a: "simple_rmdir s dir dentry = Inr (0, s8)"
  show "i_mtime (inodes s8 dir) = now s" "i_ctime (inodes s8 dir) = now s"
    by (rule simple_rmdir_times [OF a])+
next
  assume a: "simple_rename s dir old_dentry new_dir new_dentry flags = Inr (0, s9)"
  show "i_mtime (inodes s9 dir) = now s" "i_ctime (inodes s9 dir) = now s"
    "i_mtime (inodes s9 new_dir) = now s" "i_ctime (inodes s9 new_dir) = now s"
    by (rule simple_rename_times [OF a])+
next
  assume a: "myfs_tmpfile s dir dentry mode = Inr (0, s5)"
  note q = myfs_tmpfile_effect [OF a]
  show "inodes s5 j = inodes s j" if "j \<noteq> i_next s" for j
    using that by (rule q(8))
  show "lookup s5 p n = lookup s p n" for p n
  proof (cases "d_lookup s p n")
    case None
    then show ?thesis using q(7) [of p n] by (simp add: lookup_def)
  next
    case (Some d)
    with d_lookup_Some [OF Some] q(3) have "d \<noteq> dentry" by auto
    with Some q(5) [of d] q(7) [of p n] show ?thesis by (simp add: lookup_def)
  qed
qed

text \<open>
  The same operations at work.  In the mounted example state, at time 1000, mknod, mkdir,
  create and symlink leave the root directory with the timestamps 1000, and tmpfile
  leaves the root inode and the lookup of \<open>a\<close> as they were.  In the populated state
  with one more negative dentry, at time 2000, link, unlink and rename leave the root
  directory with the timestamps 2000.
\<close>

lemma myfs_directory_timestamps_example:
  "i_mtime (inodes (snd (projr (myfs_mknod mounted 0 1 (S_IFCHR OR 0x180) 5))) 0) = 1000
   \<and> i_ctime (inodes (snd (projr (myfs_mkdir mounted 0 1 0x1ED))) 0) = 1000
   \<and> i_mtime (inodes (snd (projr (myfs_create mounted 0 1 0x1A4 False))) 0) = 1000
   \<and> i_ctime (inodes (snd (projr (myfs_symlink mounted 0 1 ''target''))) 0) = 1000
   \<and> i_mtime (inodes (snd (projr (simple_link (populated\<lparr>d_next := 3\<rparr>) 1 0 2))) 0) = 2000
   \<and> i_mtime (inodes (snd (projr (simple_unlink populated 0 1))) 0) = 2000
   \<and> i_ctime (inodes (snd (projr (simple_rename (populated\<lparr>d_next := 3\<rparr>) 0 1 0 2 0))) 0) = 2000
   \<and> inodes (snd (projr (myfs_tmpfile mounted 0 2 (S_IFREG OR 0x180)))) 0 = root_inode
   \<and> lookup (snd (projr (myfs_tmpfile mounted 0 2 (S_IFREG OR 0x180)))) 0 ''a'' = None"
proof -
  note a = mounted_simps(1) and n1 = mounted_simps(7) and n2 = mounted_simps(8)
    and u2 = mounted_simps(10)
  obtain s1 where e1: "myfs_mknod mounted 0 1 (S_IFCHR OR 0x180) 5 = Inr (0, s1)"
    using myfs_mknod_progress [OF a n1] by blast
  obtain s2 where e2: "myfs_mkdir mounted 0 1 0x1ED = Inr (0, s2)"
    using myfs_mkdir_progress [OF a n1] by blast
  obtain s3 where e3: "myfs_create mounted 0 1 0x1A4 False = Inr (0, s3)"
    using myfs_create_progress [OF a n1] by blast
  obtain s4 where e4: "myfs_symlink mounted 0 1 ''target'' = Inr (0, s4)"
    using myfs_symlink_progress [OF a n1] by blast
  obtain s5 where e5: "myfs_tmpfile mounted 0 2 (S_IFREG OR 0x180) = Inr (0, s5)"
    using myfs_tmpfile_progress [OF a n2 u2] by blast
  obtain s6 where e6: "simple_link (populated\<lparr>d_next := 3\<rparr>) 1 0 2 = Inr (0, s6)"
    by (simp add: simple_link_def populated_def d_instantiate_def Let_def)
  obtain s7 where e7: "simple_unlink populated 0 1 = Inr (0, s7)"
    by (simp add: simple_unlink_def populated_def Let_def)
  have em: "simple_empty (populated\<lparr>d_next := 3\<rparr>) 2"
    by (simp add: simple_empty_def populated_def upt_rec [of _ 3] del: upt_Suc)
  obtain s9 where e9: "simple_rename (populated\<lparr>d_next := 3\<rparr>) 0 1 0 2 0 = Inr (0, s9)"
    using em
    by (simp add: simple_rename_def simple_rename_links_def populated_def Let_def
        S_IFREG_def S_IFDIR_def S_IFMT_def)
  have np: "now populated = 2000" by (simp add: populated_def)
  note t = myfs_directory_timestamps [where s = mounted and dir = 0]
  note tp = myfs_directory_timestamps [where s = populated and dir = 0]
  note tq = myfs_directory_timestamps [where s = "populated\<lparr>d_next := 3\<rparr>" and dir = 0]
  have "i_mtime (inodes s1 0) = 1000"
    using t [THEN conjunct1, rule_format, OF e1] by (simp add: mounted_simps)
  moreover have "i_ctime (inodes s2 0) = 1000"
    using t [THEN conjunct2, THEN conjunct1, rule_format, OF e2] by (simp add: mounted_simps)
  moreover have "i_mtime (inodes s3 0) = 1000"
    using t [THEN conjunct2, THEN conjunct2, THEN conjunct1, rule_format, OF e3]
    by (simp add: mounted_simps)
  moreover have "i_ctime (inodes s4 0) = 1000"
    using t [THEN conjunct2, THEN conjunct2, THEN conjunct2, THEN conjunct1, rule_format, OF e4]
    by (simp add: mounted_simps)
  moreover have "i_mtime (inodes s6 0) = 2000"
    using tq [THEN conjunct2, THEN conjunct2, THEN conjunct2, THEN conjunct2, THEN conjunct1,
        rule_format, OF e6]
    by (simp add: np)
  moreover have "i_mtime (inodes s7 0) = 2000"
    using tp [THEN conjunct2, THEN conjunct2, THEN conjunct2, THEN conjunct2, THEN conjunct2,
        THEN conjunct1, rule_format, OF e7]
    by (simp add: np)
  moreover have "i_ctime (inodes s9 0) = 2000"
    using tq [THEN conjunct2, THEN conjunct2, THEN conjunct2, THEN conjunct2, THEN conjunct2,
        THEN conjunct2, THEN conjunct2, THEN conjunct1, rule_format, OF e9]
    by (simp add: np)
  moreover have "inodes s5 0 = root_inode \<and> lookup s5 0 ''a'' = None"
    using t [THEN conjunct2, THEN conjunct2, THEN conjunct2, THEN conjunct2, THEN conjunct2,
        THEN conjunct2, THEN conjunct2, THEN conjunct2, rule_format, OF e5]
    by (simp add: mounted_simps lookup_mounted)
  ultimately show ?thesis
    by (simp add: e1 e2 e3 e4 e5 e6 e7 e9 del: One_nat_def)
qed

section \<open>Insert, lookup and name collisions\<close>

text \<open>
  Claim C1, on \<open>myfs_create_by_name\<close> of \<open>part_000\<close>, the insert that
  checks for an existing name.  After a successful insert of a name into the directory
  \<open>d\<close>, a lookup of the name in \<open>d\<close> returns the inode the insert
  created, and every further insert of the name into \<open>d\<close> returns
  \<open>-EEXIST\<close> and leaves the name bound to that inode.  In general, in every
  state in which the name is bound in \<open>d\<close>, an insert of it returns
  \<open>-EEXIST\<close> and leaves it bound: the module has no operation that removes a
  name.
\<close>

theorem insert_then_lookup:
  "(myfs_create_by_name s name mode (Some d) dentry = Inr (0, dentry', s') \<longrightarrow>
      lookup s' d name = Some (i_next s)
      \<and> (\<exists>x. dentry' = PTR x \<and> d_inode (dentries s' x) = Some (i_next s))
      \<and> (\<forall>mode_b dentry_b. \<exists>dentry_c s''.
            myfs_create_by_name s' name mode_b (Some d) dentry_b = Inr (- EEXIST, dentry_c, s'')
            \<and> lookup s'' d name = Some (i_next s)))
   \<and> (name \<noteq> [] \<and> CHR ''/'' \<notin> set name \<and> d_inode (dentries t d) \<noteq> None
       \<and> lookup t d name = Some x \<longrightarrow>
      (\<exists>dentry_c t'.
          myfs_create_by_name t name mode_b (Some d) dentry_b = Inr (- EEXIST, dentry_c, t')
          \<and> lookup t' d name = Some x \<and> d_inode (dentries t' d) \<noteq> None))"
proof (rule conjI; rule impI)
  assume a: "myfs_create_by_name s name mode (Some d) dentry = Inr (0, dentry', s')"
  then obtain pinode where pi: "d_inode (dentries s d) = Some pinode"
    by (cases "d_inode (dentries s d)") (simp_all add: myfs_create_by_name_Oops)
  obtain dp s1 where l: "lookup_one_len name d s = (dp, s1)"
    by (cases "lookup_one_len name d s")
  from a pi l have op: "(if mode AND S_IFMT = S_IFDIR then myfs_mkdir_000 s1 pinode dp mode
            else myfs_create_000 s1 pinode dp mode) = Inr (0, s')" and dp: "dentry' = dp"
    by (auto simp: myfs_create_by_name_Some [OF pi l] split: sum.splits)
  from op show "lookup s' d name = Some (i_next s)
      \<and> (\<exists>x. dentry' = PTR x \<and> d_inode (dentries s' x) = Some (i_next s))
      \<and> (\<forall>mode_b dentry_b. \<exists>dentry_c s''.
            myfs_create_by_name s' name mode_b (Some d) dentry_b = Inr (- EEXIST, dentry_c, s'')
            \<and> lookup s'' d name = Some (i_next s))"
  proof (rule create_op_000_ok, goal_cases)
    case (1 x)
    note q = lookup_one_len_PTR [OF l [unfolded 1(1)]]
    have lk: "lookup s' d name = Some (i_next s)"
      using q(3) q(6) 1(3) 1(5) [of d name] by (simp add: lookup_def)
    have pos: "d_inode (dentries s' d) \<noteq> None"
    proof (cases "d = x")
      case True
      with 1(3) show ?thesis by simp
    next
      case False
      with 1(4) [of d] q(8) [of d] pi show ?thesis by simp
    qed
    from myfs_create_by_name_exists [OF q(1) q(2) pos lk] lk dp 1(1) 1(3) q(6)
    show ?case by simp blast
  qed
next
  assume "name \<noteq> [] \<and> CHR ''/'' \<notin> set name \<and> d_inode (dentries t d) \<noteq> None
       \<and> lookup t d name = Some x"
  then have "name \<noteq> []" "CHR ''/'' \<notin> set name" "d_inode (dentries t d) \<noteq> None"
    "lookup t d name = Some x" by simp_all
  from myfs_create_by_name_exists [OF this, of mode_b dentry_b]
  show "\<exists>dentry_c t'.
          myfs_create_by_name t name mode_b (Some d) dentry_b = Inr (- EEXIST, dentry_c, t')
          \<and> lookup t' d name = Some x \<and> d_inode (dentries t' d) \<noteq> None"
    by blast
qed

theorem insert_then_lookup_witness:
  "fst (projr (myfs_create_by_name mounted ''b'' (S_IFREG OR 0x124) (Some 0) NULL)) = 0
   \<and> lookup (snd (snd (projr (myfs_create_by_name mounted ''b'' (S_IFREG OR 0x124) (Some 0) NULL))))
        0 ''b'' = Some 1
   \<and> fst (projr (myfs_create_by_name
        (snd (snd (projr (myfs_create_by_name mounted ''b'' (S_IFREG OR 0x124) (Some 0) NULL))))
        ''b'' (S_IFDIR OR 0x1ED) (Some 0) NULL)) = - EEXIST
   \<and> fst (projr (myfs_create_by_name populated ''a'' (S_IFREG OR 0x124) (Some 0) NULL)) = - EEXIST"
proof -
  obtain dp s' where e: "myfs_create_by_name mounted ''b'' (S_IFREG OR 0x124) (Some 0) NULL
      = Inr (0, dp, s')"
    using myfs_create_by_name_progress [OF mounted_simps(6) _ _ _ lookup_mounted_b mounted_simps(1),
        of "S_IFREG OR 0x124" NULL]
    by auto
  note t = insert_then_lookup [where s = mounted and name = "''b''" and mode = "S_IFREG OR 0x124"
      and d = 0 and dentry = NULL and dentry' = dp and s' = s', THEN conjunct1, rule_format, OF e]
  from t obtain dentry3 s'' where
    f: "myfs_create_by_name s' ''b'' (S_IFDIR OR 0x1ED) (Some 0) NULL = Inr (- EEXIST, dentry3, s'')"
    by blast
  have n: "''a'' \<noteq> [] \<and> CHR ''/'' \<notin> set ''a'' \<and> d_inode (dentries populated 0) \<noteq> None
       \<and> lookup populated 0 ''a'' = Some 1"
    by (simp add: populated_simps)
  from insert_then_lookup [where t = populated and name = "''a''" and d = 0 and x = 1
      and mode_b = "S_IFREG OR 0x124" and dentry_b = NULL, THEN conjunct2, rule_format, OF n]
  obtain dentry4 t' where
    g: "myfs_create_by_name populated ''a'' (S_IFREG OR 0x124) (Some 0) NULL = Inr (- EEXIST, dentry4, t')"
    by blast
  from t show ?thesis
    by (simp add: e f g mounted_simps del: One_nat_def)
qed

section \<open>Link counts of new inodes\<close>

text \<open>
  Claim C2, as amended.  An inode returned by \<open>myfs_get_inode\<close>, in either
  module, has link count 2 when it is a directory and link count 1 otherwise.  The 1 is
  what \<open>new_inode\<close> sets and the allocation adds one for a directory; no
  argument of the allocation supplies a count.
\<close>

theorem get_inode_link_count:
  "(myfs_get_inode s dir mode dev = (Some inode, s') \<longrightarrow>
      i_nlink (inodes s' inode) = (if i_mode (inodes s' inode) AND S_IFMT = S_IFDIR then 2 else 1))
   \<and> (myfs_get_inode_000 s mode0 dev = (Some inode0, s0') \<longrightarrow>
      i_nlink (inodes s0' inode0) = (if i_mode (inodes s0' inode0) AND S_IFMT = S_IFDIR then 2 else 1))"
  by (simp add: myfs_get_inode_Some(8,9) myfs_get_inode_000_Some(9,10) S_ISDIR_ucast)

theorem get_inode_link_count_witness:
  "i_nlink (inodes (snd (myfs_get_inode boot None (S_IFDIR OR 0x1ED) 0)) 0) = 2
   \<and> i_nlink (inodes (snd (myfs_get_inode boot None (S_IFREG OR 0x1A4) 0)) 0) = 1
   \<and> i_nlink (inodes (snd (myfs_get_inode_000 boot (S_IFDIR OR 0x1ED) 0)) 0) = 2
   \<and> i_nlink (inodes (snd (myfs_get_inode_000 boot (S_IFREG OR 0x1A4) 0)) 0) = 1"
proof -
  have a: "myfs_get_inode boot None m d = (Some 0, snd (myfs_get_inode boot None m d))" for m d
    using gi_boot [of m d] by (simp add: prod_eq_iff)
  have b: "myfs_get_inode_000 boot m d = (Some 0, snd (myfs_get_inode_000 boot m d))" for m d
    using gi0_boot [of m d] by (simp add: prod_eq_iff)
  have m16: "i_mode (inodes (snd (myfs_get_inode boot None m d)) 0) AND S_IFMT = m AND S_IFMT" for m d
    using myfs_get_inode_Some(9) [OF a] .
  have m32: "i_mode (inodes (snd (myfs_get_inode_000 boot m d)) 0) = ucast m" for m d
    using myfs_get_inode_000_Some(10) [OF b] .
  have t1: "((S_IFDIR OR 0x1ED) AND S_IFMT :: 16 word) = S_IFDIR"
    by (simp add: S_IFDIR_def S_IFMT_def)
  have t2: "((S_IFREG OR 0x1A4) AND S_IFMT :: 16 word) = S_IFREG"
    by (simp add: S_IFREG_def S_IFMT_def)
  have t3: "((S_IFDIR OR 0x1ED) AND S_IFMT :: 32 word) = S_IFDIR"
    by (simp add: S_IFDIR_def S_IFMT_def)
  have t4: "((S_IFREG OR 0x1A4) AND S_IFMT :: 32 word) = S_IFREG"
    by (simp add: S_IFREG_def S_IFMT_def)
  show ?thesis
    using get_inode_link_count [where s = boot and dir = None and mode = "S_IFDIR OR 0x1ED" and dev = 0, THEN conjunct1, rule_format, OF a]
      get_inode_link_count [where s = boot and dir = None and mode = "S_IFREG OR 0x1A4" and dev = 0, THEN conjunct1, rule_format, OF a]
      get_inode_link_count [where s = boot and mode0 = "S_IFDIR OR 0x1ED" and dev = 0, THEN conjunct2, rule_format, OF b]
      get_inode_link_count [where s = boot and mode0 = "S_IFREG OR 0x1A4" and dev = 0, THEN conjunct2, rule_format, OF b]
    by (simp add: m16 m32 t1 t2 t3 t4 S_ISDIR_ucast)
qed

text \<open>
  The claim as stated lets a non-directory start with the count its caller supplies
  (typically 0).  Three allocations that differ in every argument all start with the
  count 1.
\<close>

theorem get_inode_link_count_not_supplied:
  "i_nlink (inodes (snd (myfs_get_inode boot None (S_IFREG OR 0x1A4) 0)) 0) = 1
   \<and> i_nlink (inodes (snd (myfs_get_inode boot (Some 5) (S_IFCHR OR 0x180) 7)) 0) = 1
   \<and> i_nlink (inodes (snd (myfs_get_inode_000 boot (S_IFREG OR 0x124) 0)) 0) = 1"
proof -
  have a: "myfs_get_inode boot None m d = (Some 0, snd (myfs_get_inode boot None m d))" for m d
    using gi_boot [of m d] by (simp add: prod_eq_iff)
  have a5: "myfs_get_inode boot (Some 5) m d = (Some 0, snd (myfs_get_inode boot (Some 5) m d))" for m d
    using gi_boot5 [of m d] by (simp add: prod_eq_iff)
  have b: "myfs_get_inode_000 boot m d = (Some 0, snd (myfs_get_inode_000 boot m d))" for m d
    using gi0_boot [of m d] by (simp add: prod_eq_iff)
  have t2: "((S_IFREG OR 0x1A4) AND S_IFMT :: 16 word) \<noteq> S_IFDIR"
    by (simp add: S_IFREG_def S_IFMT_def S_IFDIR_def)
  have t3: "((S_IFCHR OR 0x180) AND S_IFMT :: 16 word) \<noteq> S_IFDIR"
    by (simp add: S_IFCHR_def S_IFMT_def S_IFDIR_def)
  have t4: "((S_IFREG OR 0x124) AND S_IFMT :: 32 word) \<noteq> S_IFDIR"
    by (simp add: S_IFREG_def S_IFMT_def S_IFDIR_def)
  show ?thesis
    using myfs_get_inode_Some(8) [OF a] myfs_get_inode_Some(8) [OF a5] myfs_get_inode_000_Some(9) [OF b]
    by (simp add: t2 t3 t4)
qed

section \<open>mkdir\<close>

text \<open>
  Claim C3.  A successful mkdir, in \<open>myfs.c\<close> and in \<open>part_000\<close>,
  creates a directory inode with link count 2, attaches it to the dentry looked up in
  \<open>dir\<close> (so that a lookup of that name in the parent finds it) and adds exactly
  one to the link count of \<open>dir\<close>; a mkdir that returns an error leaves the link
  count of \<open>dir\<close> as it was.  The link count is an unsigned 32-bit field and the
  addition is the one of that type.  \<open>dir\<close> is an inode that exists, and the mode
  carries no file-type bits besides those of a directory, which is what the callers
  pass (the kernel hands permission bits to mkdir, and \<open>myfs_create_by_name\<close>
  calls mkdir only for a directory mode).
\<close>

theorem mkdir_link_counts:
  "(dir < i_next s \<and> (mode OR S_IFDIR) AND S_IFMT = S_IFDIR
     \<and> myfs_mkdir s dir dentry mode = Inr (r, s') \<longrightarrow>
      (if r = 0 then
         d_inode (dentries s' dentry) = Some (i_next s)
         \<and> i_mode (inodes s' (i_next s)) AND S_IFMT = S_IFDIR
         \<and> i_nlink (inodes s' (i_next s)) = 2
         \<and> (\<forall>p n. d_lookup s p n = Some dentry \<longrightarrow> lookup s' p n = Some (i_next s))
         \<and> i_nlink (inodes s' dir) = i_nlink (inodes s dir) + 1
       else i_nlink (inodes s' dir) = i_nlink (inodes s dir)))
   \<and> (dir < i_next s \<and> (mode0 OR S_IFDIR) AND S_IFMT = S_IFDIR
     \<and> myfs_mkdir_000 s dir dentry0 mode0 = Inr (r0, s0') \<longrightarrow>
      (if r0 = 0 then
         (\<exists>d. dentry0 = PTR d \<and> d_inode (dentries s0' d) = Some (i_next s)
              \<and> (\<forall>p n. d_lookup s p n = Some d \<longrightarrow> lookup s0' p n = Some (i_next s)))
         \<and> i_mode (inodes s0' (i_next s)) AND S_IFMT = S_IFDIR
         \<and> i_nlink (inodes s0' (i_next s)) = 2
         \<and> i_nlink (inodes s0' dir) = i_nlink (inodes s dir) + 1
       else i_nlink (inodes s0' dir) = i_nlink (inodes s dir)))"
proof (intro conjI impI)
  assume a: "dir < i_next s \<and> (mode OR S_IFDIR) AND S_IFMT = S_IFDIR
     \<and> myfs_mkdir s dir dentry mode = Inr (r, s')"
  then have ne: "dir \<noteq> i_next s" and md: "(mode OR S_IFDIR) AND S_IFMT = S_IFDIR"
    and e: "myfs_mkdir s dir dentry mode = Inr (r, s')" by simp_all
  show "if r = 0 then
         d_inode (dentries s' dentry) = Some (i_next s)
         \<and> i_mode (inodes s' (i_next s)) AND S_IFMT = S_IFDIR
         \<and> i_nlink (inodes s' (i_next s)) = 2
         \<and> (\<forall>p n. d_lookup s p n = Some dentry \<longrightarrow> lookup s' p n = Some (i_next s))
         \<and> i_nlink (inodes s' dir) = i_nlink (inodes s dir) + 1
       else i_nlink (inodes s' dir) = i_nlink (inodes s dir)"
  proof (cases "r = 0")
    case True
    with e obtain s1 where k: "myfs_mknod s dir dentry (mode OR S_IFDIR) 0 = Inr (0, s1)"
      and s': "s' = inc_nlink dir s1" by (auto elim: myfs_mkdir_ok)
    note q = myfs_mknod_effect [OF k]
    have l: "lookup s' p n = Some (i_next s)" if "d_lookup s p n = Some dentry" for p n
      using that q(1) q(6) [of p n] by (simp add: lookup_def inc_nlink_def s' d_lookup_def)
    from True ne md q(1) q(9) [OF ne] q(10) [OF ne] q(11) [OF ne] l show ?thesis
      by (simp add: s')
  next
    case False
    from myfs_mknod_fail(3) [OF myfs_mkdir_fail [OF e False] False] False
    show ?thesis by simp
  qed
next
  assume a: "dir < i_next s \<and> (mode0 OR S_IFDIR) AND S_IFMT = S_IFDIR
     \<and> myfs_mkdir_000 s dir dentry0 mode0 = Inr (r0, s0')"
  then have ne: "dir \<noteq> i_next s" and md: "(mode0 OR S_IFDIR) AND S_IFMT = S_IFDIR"
    and e: "myfs_mkdir_000 s dir dentry0 mode0 = Inr (r0, s0')" by simp_all
  show "if r0 = 0 then
         (\<exists>d. dentry0 = PTR d \<and> d_inode (dentries s0' d) = Some (i_next s)
              \<and> (\<forall>p n. d_lookup s p n = Some d \<longrightarrow> lookup s0' p n = Some (i_next s)))
         \<and> i_mode (inodes s0' (i_next s)) AND S_IFMT = S_IFDIR
         \<and> i_nlink (inodes s0' (i_next s)) = 2
         \<and> i_nlink (inodes s0' dir) = i_nlink (inodes s dir) + 1
       else i_nlink (inodes s0' dir) = i_nlink (inodes s dir)"
  proof (cases "r0 = 0")
    case True
    with e obtain s1 where k: "myfs_mknod_000 s dir dentry0 (mode0 OR S_IFDIR) 0 = Inr (0, s1)"
      and s': "s0' = upd_inode dir (\<lambda>i. i\<lparr>i_nlink := i_nlink i + 1\<rparr>) s1"
      by (auto elim: myfs_mkdir_000_ok)
    from k show ?thesis
    proof (rule myfs_mknod_000_effect, goal_cases)
      case (1 d)
      have l: "lookup s0' p n = Some (i_next s)" if "d_lookup s p n = Some d" for p n
        using that 1(3) 1(8) [of p n] by (simp add: lookup_def s' d_lookup_def)
      from True ne md 1(1) 1(3) 1(9) [OF ne] 1(10) 1(11) l show ?case
        by (simp add: s' S_ISDIR_ucast)
    qed
  next
    case False
    from myfs_mknod_000_fail(2) [OF myfs_mkdir_000_fail [OF e False] False] False
    show ?thesis by simp
  qed
qed

theorem mkdir_link_counts_witness:
  "fst (projr (myfs_mkdir mounted 0 1 0x1ED)) = 0
   \<and> i_nlink (inodes (snd (projr (myfs_mkdir mounted 0 1 0x1ED))) 1) = 2
   \<and> lookup (snd (projr (myfs_mkdir mounted 0 1 0x1ED))) 0 ''a'' = Some 1
   \<and> i_nlink (inodes (snd (projr (myfs_mkdir mounted 0 1 0x1ED))) 0) = 3
   \<and> fst (projr (myfs_mkdir exhausted 0 1 0x1ED)) = - ENOSPC
   \<and> i_nlink (inodes (snd (projr (myfs_mkdir exhausted 0 1 0x1ED))) 0) = 2
   \<and> fst (projr (myfs_mkdir_000 mounted 0 (PTR 1) (S_IFDIR OR 0x1ED))) = 0
   \<and> i_nlink (inodes (snd (projr (myfs_mkdir_000 mounted 0 (PTR 1) (S_IFDIR OR 0x1ED)))) 1) = 2
   \<and> lookup (snd (projr (myfs_mkdir_000 mounted 0 (PTR 1) (S_IFDIR OR 0x1ED)))) 0 ''a'' = Some 1
   \<and> i_nlink (inodes (snd (projr (myfs_mkdir_000 mounted 0 (PTR 1) (S_IFDIR OR 0x1ED)))) 0) = 3
   \<and> fst (projr (myfs_mkdir_000 exhausted 0 (PTR 1) (S_IFDIR OR 0x1ED))) = - EPERM
   \<and> i_nlink (inodes (snd (projr (myfs_mkdir_000 exhausted 0 (PTR 1) (S_IFDIR OR 0x1ED)))) 0) = 2"
proof -
  obtain s1 where e1: "myfs_mkdir mounted 0 1 0x1ED = Inr (0, s1)"
    using myfs_mkdir_progress [OF mounted_simps(1) mounted_simps(7)] by blast
  obtain s2 where e2: "myfs_mkdir exhausted 0 1 0x1ED = Inr (- ENOSPC, s2)"
    using myfs_mkdir_enospc [OF disjI1 [OF exhausted_simps(1)], of 0 1 "0x1ED"] by blast
  obtain s3 where e3: "myfs_mkdir_000 mounted 0 (PTR 1) (S_IFDIR OR 0x1ED) = Inr (0, s3)"
    using myfs_mkdir_000_progress [OF mounted_simps(1) mounted_simps(7)] by blast
  have e4: "myfs_mkdir_000 exhausted 0 (PTR 1) (S_IFDIR OR 0x1ED) = Inr (- EPERM, exhausted)"
    using myfs_mknod_000_eperm [OF exhausted_simps(1) exhausted_simps(4), of 0 "(S_IFDIR OR 0x1ED) OR S_IFDIR" 0]
    by (simp add: myfs_mkdir_000_def)
  have a: "(0::nat) < i_next mounted" "(0::nat) < i_next exhausted"
    by (simp_all add: mounted_simps exhausted_simps)
  show ?thesis
    using mkdir_link_counts [THEN conjunct1, rule_format, OF conjI [OF a(1) conjI [OF mode_dir16 e1]]]
      mkdir_link_counts [THEN conjunct1, rule_format, OF conjI [OF a(2) conjI [OF mode_dir16 e2]]]
      mkdir_link_counts [THEN conjunct2, rule_format, OF conjI [OF a(1) conjI [OF mode_dir32 e3]]]
      mkdir_link_counts [THEN conjunct2, rule_format, OF conjI [OF a(2) conjI [OF mode_dir32 e4]]]
    by (simp add: e1 e2 e3 e4 mounted_simps exhausted_simps d_lookup_mounted del: One_nat_def)
qed

section \<open>Allocation failure\<close>

text \<open>
  Claim C4.  In \<open>myfs.c\<close> every node-creating operation returns
  \<open>-ENOSPC\<close> when no inode can be allocated (lemma \<open>myfs_alloc_failure\<close>).
  The \<open>myfs_mknod\<close> of \<open>part_000\<close>, and with it its mkdir and create,
  returns \<open>-EPERM\<close> instead: here with no memory left and a negative dentry.
\<close>

theorem mknod_000_alloc_failure:
  "myfs_mknod_000 exhausted 0 (PTR 1) (S_IFREG OR 0x124) 0 = Inr (- EPERM, exhausted)
   \<and> - EPERM \<noteq> - ENOSPC"
  using myfs_mknod_000_eperm [OF exhausted_simps(1) exhausted_simps(4), of 0 "S_IFREG OR 0x124" 0]
  by (simp add: EPERM_def ENOSPC_def)

section \<open>Directory timestamps\<close>

text \<open>
  Claim C5.  Every successful mutating operation sets the modification and change time
  of the owning directory, and a successful tmpfile leaves the timestamps and the entries
  of every directory as they were.  The operation table of \<open>myfs.c\<close> does so
  (lemma \<open>myfs_directory_timestamps\<close>).  The \<open>myfs_mknod\<close> of
  \<open>part_000\<close>, and with it its create and mkdir, does not: after a successful
  mknod at time 1000 the directory still has the timestamps 0 it had before.
\<close>

theorem mknod_000_leaves_timestamps:
  "\<not> isl (myfs_mknod_000 mounted 0 (PTR 1) (S_IFREG OR 0x124) 0)
   \<and> fst (projr (myfs_mknod_000 mounted 0 (PTR 1) (S_IFREG OR 0x124) 0)) = 0
   \<and> i_mtime (inodes (snd (projr (myfs_mknod_000 mounted 0 (PTR 1) (S_IFREG OR 0x124) 0))) 0) = 0
   \<and> i_ctime (inodes (snd (projr (myfs_mknod_000 mounted 0 (PTR 1) (S_IFREG OR 0x124) 0))) 0) = 0
   \<and> now mounted = 1000"
proof -
  obtain s' where e: "myfs_mknod_000 mounted 0 (PTR 1) (S_IFREG OR 0x124) 0 = Inr (0, s')"
    using myfs_mknod_000_progress [OF mounted_simps(1) mounted_simps(7)] by blast
  have "inodes s' 0 = inodes mounted 0"
    by (rule myfs_mknod_000_effect [OF e]) (simp add: mounted_simps)
  then show ?thesis
    by (simp add: e mounted_simps del: One_nat_def)
qed

section \<open>Unknown and malformed mount options\<close>

text \<open>
  Claim C6.  An option whose key is not \<open>mode\<close> is accepted and leaves the mount
  context as it was.  Parsing one option fails exactly when its key is \<open>mode\<close>
  and its value is malformed: not a string, or a string the octal number parser rejects.
  Parsing a sequence of options fails exactly when it holds such an option, the error is
  \<open>-EINVAL\<close>, and the mount is given up with that error before a superblock is
  built.  What the parser takes for an octal number: every string of one to ten octal
  digits is accepted; the empty string and every string with a character other than
  an octal digit, a plus sign or a newline are rejected.
\<close>

theorem mount_option_errors:
  "(param_key p \<noteq> ''mode'' \<longrightarrow> myfs_parse_param fsi p = (0, fsi))
   \<and> ((\<forall>q \<in> set ps. param_key q \<noteq> ''mode'') \<longrightarrow> parse_params fsi ps = (0, fsi))
   \<and> (fst (myfs_parse_param fsi p) \<noteq> 0 \<longleftrightarrow>
        param_key p = ''mode''
        \<and> (param_type p \<noteq> fs_value_is_string \<or> isl (kstrtouint (param_string p) 8)))
   \<and> (fst (parse_params fsi ps) \<noteq> 0 \<longleftrightarrow>
        (\<exists>q \<in> set ps. param_key q = ''mode''
           \<and> (param_type q \<noteq> fs_value_is_string \<or> isl (kstrtouint (param_string q) 8))))
   \<and> (fst (parse_params fsi ps) \<noteq> 0 \<longrightarrow> fst (parse_params fsi ps) = - EINVAL)
   \<and> (fst (parse_params \<lparr>mount_opts = \<lparr>opts_mode = RAMFS_DEFAULT_MODE\<rparr>\<rparr> ps) \<noteq> 0
        \<and> alloc_plan s = True # bs \<longrightarrow>
        mount_myfs s ps = Inr (- EINVAL, None, s\<lparr>alloc_plan := bs\<rparr>))
   \<and> (ds \<noteq> [] \<and> set ds \<subseteq> set ''01234567'' \<and> length ds \<le> 10 \<longrightarrow>
        fst (myfs_parse_param fsi (mode_option ds)) = 0)
   \<and> (c \<in> set v \<and> c \<notin> set ''01234567'' \<and> c \<noteq> CHR ''+'' \<and> c \<noteq> CHR 0x0A \<longrightarrow>
        fst (myfs_parse_param fsi (mode_option v)) = - EINVAL)
   \<and> fst (myfs_parse_param fsi (mode_option [])) = - EINVAL"
proof (intro conjI)
  show "param_key p \<noteq> ''mode'' \<longrightarrow> myfs_parse_param fsi p = (0, fsi)"
    by (simp add: myfs_parse_param_eq)
  show "(\<forall>q \<in> set ps. param_key q \<noteq> ''mode'') \<longrightarrow> parse_params fsi ps = (0, fsi)"
    by (simp add: parse_params_unknown)
  show "fst (myfs_parse_param fsi p) \<noteq> 0 \<longleftrightarrow>
        param_key p = ''mode''
        \<and> (param_type p \<noteq> fs_value_is_string \<or> isl (kstrtouint (param_string p) 8))"
    by (simp add: myfs_parse_param_fst)
  show "fst (parse_params fsi ps) \<noteq> 0 \<longleftrightarrow>
        (\<exists>q \<in> set ps. param_key q = ''mode''
           \<and> (param_type q \<noteq> fs_value_is_string \<or> isl (kstrtouint (param_string q) 8)))"
    by (simp add: parse_params_fst)
  show "fst (parse_params fsi ps) \<noteq> 0 \<longrightarrow> fst (parse_params fsi ps) = - EINVAL"
    by (simp add: parse_params_fst)
  show "fst (parse_params \<lparr>mount_opts = \<lparr>opts_mode = RAMFS_DEFAULT_MODE\<rparr>\<rparr> ps) \<noteq> 0
        \<and> alloc_plan s = True # bs \<longrightarrow>
        mount_myfs s ps = Inr (- EINVAL, None, s\<lparr>alloc_plan := bs\<rparr>)"
    by (simp add: mount_myfs_abort)
  show "ds \<noteq> [] \<and> set ds \<subseteq> set ''01234567'' \<and> length ds \<le> 10 \<longrightarrow>
        fst (myfs_parse_param fsi (mode_option ds)) = 0"
    using kstrtouint_octal_digits [of ds] by (simp add: myfs_parse_param_fst)
  show "c \<in> set v \<and> c \<notin> set ''01234567'' \<and> c \<noteq> CHR ''+'' \<and> c \<noteq> CHR 0x0A \<longrightarrow>
        fst (myfs_parse_param fsi (mode_option v)) = - EINVAL"
    using kstrtouint_foreign_char [of c v] by (simp add: myfs_parse_param_fst)
  show "fst (myfs_parse_param fsi (mode_option [])) = - EINVAL"
    using kstrtouint_empty by (simp add: myfs_parse_param_fst)
qed

theorem mount_option_errors_witness:
  "myfs_parse_param default_fs_info size_option = (0, default_fs_info)
   \<and> parse_params default_fs_info [size_option, size_option] = (0, default_fs_info)
   \<and> fst (myfs_parse_param default_fs_info (mode_option ''75x'')) = - EINVAL
   \<and> fst (myfs_parse_param default_fs_info (mode_option ''700'')) = 0
   \<and> fst (parse_params default_fs_info [size_option, mode_option ''75x'']) = - EINVAL
   \<and> fst (parse_params default_fs_info [size_option, mode_option ''700'']) = 0
   \<and> mount_myfs boot [size_option, mode_option ''75x'']
       = Inr (- EINVAL, None, boot\<lparr>alloc_plan := [True, True, True]\<rparr>)"
proof -
  have a: "alloc_plan boot = True # [True, True, True]" by (simp add: boot_def)
  have k: "param_key size_option \<noteq> ''mode''" by simp
  have k2: "\<forall>q \<in> set [size_option, size_option]. param_key q \<noteq> ''mode''" by simp
  note t = mount_option_errors [where fsi = default_fs_info]
  have 1: "myfs_parse_param default_fs_info size_option = (0, default_fs_info)"
    using t [THEN conjunct1, rule_format, OF k] .
  have 2: "parse_params default_fs_info [size_option, size_option] = (0, default_fs_info)"
    using t [THEN conjunct2, THEN conjunct1, THEN mp, OF k2] .
  have d: "''700'' \<noteq> [] \<and> set ''700'' \<subseteq> set ''01234567'' \<and> length ''700'' \<le> 10" by simp
  have 3: "fst (myfs_parse_param default_fs_info (mode_option ''700'')) = 0"
    using t [THEN conjunct2, THEN conjunct2, THEN conjunct2, THEN conjunct2, THEN conjunct2,
        THEN conjunct2, THEN conjunct1, rule_format, OF d] .
  have x: "CHR ''x'' \<in> set ''75x'' \<and> CHR ''x'' \<notin> set ''01234567'' \<and> CHR ''x'' \<noteq> CHR ''+''
      \<and> CHR ''x'' \<noteq> CHR 0x0A" by simp
  have 4: "fst (myfs_parse_param default_fs_info (mode_option ''75x'')) = - EINVAL"
    using t [THEN conjunct2, THEN conjunct2, THEN conjunct2, THEN conjunct2, THEN conjunct2,
        THEN conjunct2, THEN conjunct2, THEN conjunct1, rule_format, OF x] .
  have 5: "fst (parse_params default_fs_info [size_option, mode_option ''75x'']) \<noteq> 0"
    using t [where ps = "[size_option, mode_option ''75x'']", THEN conjunct2, THEN conjunct2,
        THEN conjunct2, THEN conjunct1]
    by (simp add: kstrtouint_examples)
  have 6: "fst (parse_params default_fs_info [size_option, mode_option ''700'']) = 0"
    using t [where ps = "[size_option, mode_option ''700'']", THEN conjunct2, THEN conjunct2,
        THEN conjunct2, THEN conjunct1]
    by (simp add: kstrtouint_examples)
  have 7: "fst (parse_params default_fs_info [size_option, mode_option ''75x'']) = - EINVAL"
    using t [where ps = "[size_option, mode_option ''75x'']", THEN conjunct2, THEN conjunct2,
        THEN conjunct2, THEN conjunct2, THEN conjunct1, rule_format, OF 5] .
  have 8: "mount_myfs boot [size_option, mode_option ''75x'']
       = Inr (- EINVAL, None, boot\<lparr>alloc_plan := [True, True, True]\<rparr>)"
    using t [where ps = "[size_option, mode_option ''75x'']" and s = boot, THEN conjunct2,
        THEN conjunct2, THEN conjunct2, THEN conjunct2, THEN conjunct2, THEN conjunct1,
        rule_format, OF conjI [OF 5 [unfolded default_fs_info_def] a]] .
  from 1 2 3 4 6 7 8 show ?thesis by simp
qed

section \<open>Default mode and mode override\<close>

text \<open>
  Claim C7.  A mount without options leaves the mode of the mount context at the
  built-in default \<open>0755\<close>, gives the root directory that mode, and
  \<open>myfs_show_options\<close> prints nothing for it.  A mount with \<open>mode=700\<close>
  gives a root directory whose permission bits are \<open>0700\<close>, and
  \<open>myfs_show_options\<close> prints \<open>,mode=700\<close>.
\<close>

theorem mount_mode_reporting:
  "(mount_myfs s [] = Inr (0, Some sb, s') \<longrightarrow>
      opts_mode (mount_opts (s_fs_info sb)) = RAMFS_DEFAULT_MODE
      \<and> myfs_show_options m sb = (0, m)
      \<and> (\<exists>root ri. s_root sb = Some root \<and> d_inode (dentries s' root) = Some ri
            \<and> i_mode (inodes s' ri) = S_IFDIR OR 0x1ED))
   \<and> (mount_myfs t [mode_option ''700''] = Inr (0, Some sb_b, t') \<longrightarrow>
      (\<exists>root ri. s_root sb_b = Some root \<and> d_inode (dentries t' root) = Some ri
            \<and> i_mode (inodes t' ri) = S_IFDIR OR 0x1C0
            \<and> i_mode (inodes t' ri) AND S_IALLUGO = 0x1C0)
      \<and> myfs_show_options m sb_b = (0, m @ '',mode=700''))"
proof (rule conjI; rule impI)
  assume "mount_myfs s [] = Inr (0, Some sb, s')"
  then show "opts_mode (mount_opts (s_fs_info sb)) = RAMFS_DEFAULT_MODE
      \<and> myfs_show_options m sb = (0, m)
      \<and> (\<exists>root ri. s_root sb = Some root \<and> d_inode (dentries s' root) = Some ri
            \<and> i_mode (inodes s' ri) = S_IFDIR OR 0x1ED)"
  proof (rule mount_myfs_ok, goal_cases)
    case (1 root ri)
    from 1(1) have f: "s_fs_info sb = default_fs_info" by simp
    with 1(2,3,4) show ?case
      by (auto simp: default_fs_info_def myfs_show_options_def RAMFS_DEFAULT_MODE_def)
  qed
next
  assume "mount_myfs t [mode_option ''700''] = Inr (0, Some sb_b, t')"
  then show "(\<exists>root ri. s_root sb_b = Some root \<and> d_inode (dentries t' root) = Some ri
            \<and> i_mode (inodes t' ri) = S_IFDIR OR 0x1C0
            \<and> i_mode (inodes t' ri) AND S_IALLUGO = 0x1C0)
      \<and> myfs_show_options m sb_b = (0, m @ '',mode=700'')"
  proof (rule mount_myfs_ok, goal_cases)
    case (1 root ri)
    from 1(1) [unfolded parse_params_700]
    have f: "s_fs_info sb_b = \<lparr>mount_opts = \<lparr>opts_mode = 0x1C0\<rparr>\<rparr>"
      by simp
    have w: "((S_IFDIR OR 0x1C0) :: 16 word) AND S_IALLUGO = 0x1C0"
      by (simp add: S_IFDIR_def S_IALLUGO_def)
    have so: "myfs_show_options m sb_b = (0, m @ '',mode=700'')"
      using show_oct_700 by (simp add: myfs_show_options_def f RAMFS_DEFAULT_MODE_def)
    from 1(2,3,4) f w so show ?case by auto
  qed
qed

theorem mount_mode_reporting_witness:
  "fst (projr (mount_myfs boot [])) = 0
   \<and> opts_mode (mount_opts (s_fs_info (the (fst (snd (projr (mount_myfs boot []))))))) = 0x1ED
   \<and> myfs_show_options [] (the (fst (snd (projr (mount_myfs boot []))))) = (0, [])
   \<and> i_mode (inodes (snd (snd (projr (mount_myfs boot []))))
         (the (d_inode (dentries (snd (snd (projr (mount_myfs boot []))))
            (the (s_root (the (fst (snd (projr (mount_myfs boot []))))))))))) = S_IFDIR OR 0x1ED
   \<and> fst (projr (mount_myfs boot [mode_option ''700''])) = 0
   \<and> myfs_show_options [] (the (fst (snd (projr (mount_myfs boot [mode_option ''700'']))))) = (0, '',mode=700'')
   \<and> i_mode (inodes (snd (snd (projr (mount_myfs boot [mode_option ''700'']))))
         (the (d_inode (dentries (snd (snd (projr (mount_myfs boot [mode_option ''700'']))))
            (the (s_root (the (fst (snd (projr (mount_myfs boot [mode_option ''700'']))))))))))) AND S_IALLUGO = 0x1C0"
proof -
  have a: "alloc_plan boot = True # True # True # True # []" by (simp add: boot_def)
  obtain sb s' where e1: "mount_myfs boot [] = Inr (0, Some sb, s')"
    using mount_myfs_progress [OF a, of "[]"] by auto
  obtain sb_b t' where e2: "mount_myfs boot [mode_option ''700''] = Inr (0, Some sb_b, t')"
    using mount_myfs_progress [OF a, of "[mode_option ''700'']", unfolded parse_params_700]
    by auto
  from mount_mode_reporting [THEN conjunct1, rule_format, OF e1, of "[]"]
    mount_mode_reporting [THEN conjunct2, rule_format, OF e2, of "[]"]
  show ?thesis
    by (auto simp: e1 e2 RAMFS_DEFAULT_MODE_def)
qed

section \<open>tmpfile\<close>

text \<open>
  Claim C8.  When the mode has the file type of a regular file, which is what
  the kernel passes, and no dentry refers to an inode that is not allocated, a successful
  tmpfile attaches to the caller's dentry a new regular-file inode with link count 0, and
  no lookup in any directory, under any name, returns that inode; every lookup gives
  what it gave before.
\<close>

theorem tmpfile_isolated:
  "mode AND S_IFMT = S_IFREG
   \<and> (\<forall>d i. d_inode (dentries s d) = Some i \<longrightarrow> i < i_next s)
   \<and> myfs_tmpfile s dir dentry mode = Inr (0, s') \<longrightarrow>
     d_inode (dentries s' dentry) = Some (i_next s)
     \<and> i_mode (inodes s' (i_next s)) AND S_IFMT = S_IFREG
     \<and> i_nlink (inodes s' (i_next s)) = 0
     \<and> (\<forall>d n. lookup s' d n \<noteq> Some (i_next s))
     \<and> (\<forall>d n. lookup s' d n = lookup s d n)"
proof (intro impI)
  assume a: "mode AND S_IFMT = S_IFREG
   \<and> (\<forall>d i. d_inode (dentries s d) = Some i \<longrightarrow> i < i_next s)
   \<and> myfs_tmpfile s dir dentry mode = Inr (0, s')"
  then have md: "mode AND S_IFMT = S_IFREG"
    and wf: "\<And>d i. d_inode (dentries s d) = Some i \<Longrightarrow> i < i_next s"
    and e: "myfs_tmpfile s dir dentry mode = Inr (0, s')" by auto
  note q = myfs_tmpfile_effect [OF e]
  have same: "lookup s' p n = lookup s p n" for p n
  proof (cases "d_lookup s p n")
    case None
    then show ?thesis using q(7) [of p n] by (simp add: lookup_def)
  next
    case (Some d)
    with d_lookup_Some [OF Some] q(3) have "d \<noteq> dentry" by auto
    with Some q(5) [of d] q(7) [of p n] show ?thesis by (simp add: lookup_def)
  qed
  have fresh: "lookup s p n \<noteq> Some (i_next s)" for p n
  proof
    assume "lookup s p n = Some (i_next s)"
    then obtain d where "d_inode (dentries s d) = Some (i_next s)"
      by (auto simp: lookup_def split: option.splits)
    from wf [OF this] show False by simp
  qed
  from md q(1) q(9) q(10) same fresh
  show "d_inode (dentries s' dentry) = Some (i_next s)
     \<and> i_mode (inodes s' (i_next s)) AND S_IFMT = S_IFREG
     \<and> i_nlink (inodes s' (i_next s)) = 0
     \<and> (\<forall>d n. lookup s' d n \<noteq> Some (i_next s))
     \<and> (\<forall>d n. lookup s' d n = lookup s d n)"
    by simp
qed

theorem tmpfile_isolated_witness:
  "fst (projr (myfs_tmpfile mounted 0 2 (S_IFREG OR 0x180))) = 0
   \<and> d_inode (dentries (snd (projr (myfs_tmpfile mounted 0 2 (S_IFREG OR 0x180)))) 2) = Some 1
   \<and> i_nlink (inodes (snd (projr (myfs_tmpfile mounted 0 2 (S_IFREG OR 0x180)))) 1) = 0
   \<and> lookup (snd (projr (myfs_tmpfile mounted 0 2 (S_IFREG OR 0x180)))) 0 ''a'' \<noteq> Some 1"
proof -
  obtain s' where e: "myfs_tmpfile mounted 0 2 (S_IFREG OR 0x180) = Inr (0, s')"
    using myfs_tmpfile_progress [OF mounted_simps(1) mounted_simps(8) mounted_simps(10)] by blast
  show ?thesis
    using tmpfile_isolated [rule_format, OF conjI [OF mode_reg16 conjI [OF mounted_wf e]]]
    by (simp add: e mounted_simps lookup_mounted del: One_nat_def)
qed

section \<open>The parsed mode\<close>

text \<open>
  Claim C10.  For every value \<open>v\<close> the number parser accepts for the option
  \<open>mode\<close>, the mode stored in the mount context is \<open>v AND 07777\<close>; it
  never exceeds \<open>07777\<close>, whatever file-type bits the value carries, and no
  sequence of options takes a context that starts within \<open>07777\<close> beyond it.
\<close>

theorem parsed_mode_masked:
  "(param_key p = ''mode'' \<and> param_type p = fs_value_is_string
      \<and> kstrtouint (param_string p) 8 = Inr v \<longrightarrow>
      myfs_parse_param fsi p
        = (0, fsi\<lparr>mount_opts := (mount_opts fsi)\<lparr>opts_mode := ucast (v AND S_IALLUGO)\<rparr>\<rparr>)
      \<and> unat (opts_mode (mount_opts (snd (myfs_parse_param fsi p)))) = unat (v AND S_IALLUGO)
      \<and> opts_mode (mount_opts (snd (myfs_parse_param fsi p))) \<le> 0xFFF)
   \<and> (opts_mode (mount_opts fsi) \<le> 0xFFF \<longrightarrow>
      opts_mode (mount_opts (snd (parse_params fsi ps))) \<le> 0xFFF)"
  by (simp add: myfs_parse_param_eq ucast_perm_le unat_ucast_perm parse_params_le)

theorem parsed_mode_masked_witness:
  "myfs_parse_param \<lparr>mount_opts = \<lparr>opts_mode = RAMFS_DEFAULT_MODE\<rparr>\<rparr>
      \<lparr>param_key = ''mode'', param_type = fs_value_is_string, param_string = ''100700''\<rparr>
     = (0, \<lparr>mount_opts = \<lparr>opts_mode = 0x1C0\<rparr>\<rparr>)
   \<and> opts_mode (mount_opts (snd (parse_params \<lparr>mount_opts = \<lparr>opts_mode = RAMFS_DEFAULT_MODE\<rparr>\<rparr>
        [\<lparr>param_key = ''mode'', param_type = fs_value_is_string, param_string = ''100700''\<rparr>])))
       \<le> 0xFFF"
proof -
  have h: "param_key \<lparr>param_key = ''mode'', param_type = fs_value_is_string, param_string = ''100700''\<rparr> = ''mode''
      \<and> param_type \<lparr>param_key = ''mode'', param_type = fs_value_is_string, param_string = ''100700''\<rparr> = fs_value_is_string
      \<and> kstrtouint (param_string \<lparr>param_key = ''mode'', param_type = fs_value_is_string, param_string = ''100700''\<rparr>) 8 = Inr 0x81C0"
    by (simp add: kstrtouint_100700)
  have d: "opts_mode (mount_opts \<lparr>mount_opts = \<lparr>opts_mode = RAMFS_DEFAULT_MODE\<rparr>\<rparr>) \<le> 0xFFF"
    by (simp add: RAMFS_DEFAULT_MODE_def)
  show ?thesis
    using parsed_mode_masked [THEN conjunct1, rule_format, OF h,
        of "\<lparr>mount_opts = \<lparr>opts_mode = RAMFS_DEFAULT_MODE\<rparr>\<rparr>"]
      parsed_mode_masked [THEN conjunct2, rule_format, OF d]
    by (simp add: S_IALLUGO_def)
qed

end
